(* ===== verification/Prelude.thy ===== *)
theory Prelude
  imports Complex_Main "HOL-Library.Multiset"
begin

text \<open>
  The JavaScript semantics the dashboard relies on, shared by every component:
  the values a CSV cell can hold after PapaParse's dynamic typing (\<open>jsval\<close>) and their
  truthiness; JavaScript numbers where a result may be \<open>NaN\<close> or infinite
  (\<open>jsnum\<close>) with the division, remainder and truncation the code uses;
  \<open>Array.prototype.slice\<close> with its index clamping; the iteration order of
  \<open>new Set(xs)\<close>; and \<open>Math.random\<close> as an explicit source of draws threaded
  through every call that consumes one. Plain numeric CSV fields are modelled as
  \<open>real\<close> (exact arithmetic; IEEE rounding is not modelled).
\<close>

named_theorems dash_defs "definitions unfolded when a dashboard function is evaluated on a concrete input"

section \<open>CSV cell values and truthiness\<close>

datatype jsval = JUndefined | JNull | JBool bool | JNum real | JStr string

fun truthy :: "jsval \<Rightarrow> bool" where
  "truthy JUndefined = False"
| "truthy JNull = False"
| "truthy (JBool b) = b"
| "truthy (JNum r) = (r \<noteq> 0)"
| "truthy (JStr s) = (s \<noteq> [])"

section \<open>JavaScript numbers that may be NaN or infinite\<close>

datatype jsnum = Fin real | NaN | PosInf | NegInf

text \<open>\<open>a / b\<close> on numbers: division by zero gives NaN for \<open>0 / 0\<close> and an infinity otherwise.\<close>

definition js_div :: "real \<Rightarrow> real \<Rightarrow> jsnum" where
  "js_div a b =
     (if b \<noteq> 0 then Fin (a / b)
      else if a = 0 then NaN else if 0 < a then PosInf else NegInf)"

text \<open>\<open>x * c\<close> for a possibly non-finite \<open>x\<close> and a finite constant \<open>c\<close>.\<close>

fun js_mul :: "jsnum \<Rightarrow> real \<Rightarrow> jsnum" where
  "js_mul (Fin a) c = Fin (a * c)"
| "js_mul NaN c = NaN"
| "js_mul PosInf c = (if c = 0 then NaN else if 0 < c then PosInf else NegInf)"
| "js_mul NegInf c = (if c = 0 then NaN else if 0 < c then NegInf else PosInf)"

fun js_add :: "jsnum \<Rightarrow> real \<Rightarrow> jsnum" where
  "js_add (Fin a) c = Fin (a + c)"
| "js_add x c = x"

text \<open>Truncation toward zero (\<open>ToIntegerOrInfinity\<close> on a finite number).\<close>

definition js_trunc :: "real \<Rightarrow> int" where
  "js_trunc x = (if x < 0 then - \<lfloor>- x\<rfloor> else \<lfloor>x\<rfloor>)"

text \<open>The remainder operator \<open>%\<close>: its sign is the dividend's; a zero divisor gives NaN.\<close>

definition js_rem :: "real \<Rightarrow> real \<Rightarrow> jsnum" where
  "js_rem a b = (if b = 0 then NaN else Fin (a - b * of_int (js_trunc (a / b))))"

section \<open>Array.prototype.slice\<close>

text \<open>
  Each argument is converted by \<open>ToIntegerOrInfinity\<close> (NaN becomes 0), a negative
  index counts from the end, and both are clamped to \<open>[0, length]\<close>.
\<close>

fun rel_index :: "nat \<Rightarrow> jsnum \<Rightarrow> nat" where
  "rel_index n NaN = 0"
| "rel_index n PosInf = n"
| "rel_index n NegInf = 0"
| "rel_index n (Fin r) =
     (let k = js_trunc r in if k < 0 then nat (max (int n + k) 0) else min (nat k) n)"

definition js_slice :: "'a list \<Rightarrow> jsnum \<Rightarrow> jsnum \<Rightarrow> 'a list" where
  "js_slice xs a b =
     (let s = rel_index (length xs) a; e = rel_index (length xs) b in take (e - s) (drop s xs))"

section \<open>Iteration order of a Set built from an array\<close>

text \<open>\<open>[...new Set(xs)]\<close>: each value once, in the order of its first insertion.\<close>

definition set_add :: "'a list \<Rightarrow> 'a \<Rightarrow> 'a list" where
  "set_add acc x = (if x \<in> set acc then acc else acc @ [x])"

definition js_set_order :: "'a list \<Rightarrow> 'a list" where
  "js_set_order xs = foldl set_add [] xs"

section \<open>Math.random as an explicit source of draws\<close>

text \<open>
  \<open>draws n\<close> is the value of the \<open>n\<close>-th call of \<open>Math.random()\<close> in the session;
  \<open>rpos\<close> counts the calls made so far. Every function that calls \<open>Math.random\<close>
  takes the source and returns it advanced by exactly the calls it made, in the
  source's order.
\<close>

record rng =
  draws :: "nat \<Rightarrow> real"
  rpos :: nat

definition math_random :: "rng \<Rightarrow> real \<times> rng" where
  "math_random g = (draws g (rpos g), g\<lparr>rpos := Suc (rpos g)\<rparr>)"

text \<open>\<open>Math.random\<close> returns a value in \<open>[0, 1)\<close>.\<close>

definition rng_ok :: "rng \<Rightarrow> bool" where
  "rng_ok g \<longleftrightarrow> (\<forall>n. 0 \<le> draws g n \<and> draws g n < 1)"

declare js_div_def [dash_defs] js_trunc_def [dash_defs] js_rem_def [dash_defs]
  js_slice_def [dash_defs] math_random_def [dash_defs] set_add_def [dash_defs]
  js_set_order_def [dash_defs]

section \<open>Generic lemmas\<close>

lemma js_slice_zero [simp]: "js_slice xs (Fin 0) (Fin (of_nat n)) = take n xs"
  by (simp add: js_slice_def js_trunc_def min_def)

lemma js_slice_length_le: "length (js_slice xs a b) \<le> length xs"
  by (simp add: js_slice_def Let_def)

lemma set_js_slice: "set (js_slice xs a b) \<subseteq> set xs"
  by (auto simp: js_slice_def Let_def dest: in_set_takeD in_set_dropD)

lemma js_slice_from:
  assumes "0 \<le> r"
  shows "js_slice xs (Fin r) (Fin (r + of_nat k)) = take k (drop (nat \<lfloor>r\<rfloor>) xs)"
proof -
  obtain m where m: "js_trunc r = int m" "js_trunc (r + of_nat k) = int (m + k)" "nat \<lfloor>r\<rfloor> = m"
    using assms by (simp add: js_trunc_def) (metis nat_0_le zero_le_floor)
  show ?thesis
  proof (cases "m \<le> length xs")
    case True
    with m show ?thesis by (simp add: js_slice_def min_def nat_add_distrib)
  next
    case False
    with m show ?thesis by (simp add: js_slice_def min_def nat_add_distrib)
  qed
qed

lemma js_rem_nonneg:
  assumes "0 \<le> a" and "0 < d"
  shows "\<exists>b. js_rem a d = Fin b \<and> 0 \<le> b \<and> b < d"
proof -
  have "0 \<le> a / d"
    using assms by simp
  then have t: "js_trunc (a / d) = \<lfloor>a / d\<rfloor>"
    by (simp add: js_trunc_def)
  have lo: "d * of_int \<lfloor>a / d\<rfloor> \<le> a"
    using assms by (metis mult.commute of_int_floor_le pos_le_divide_eq)
  have hi: "a < d * of_int \<lfloor>a / d\<rfloor> + d"
  proof -
    have "a / d < of_int \<lfloor>a / d\<rfloor> + 1" by (rule real_of_int_floor_add_one_gt)
    then have "a < (of_int \<lfloor>a / d\<rfloor> + 1) * d" using assms(2) by (metis pos_divide_less_eq)
    then show ?thesis by (simp add: algebra_simps)
  qed
  show ?thesis using assms t lo hi by (simp add: js_rem_def)
qed
lemma js_set_order_snoc [simp]: "js_set_order (xs @ [x]) = set_add (js_set_order xs) x"
  by (simp add: js_set_order_def)

lemma js_set_order_Nil [simp]: "js_set_order [] = []"
  by (simp add: js_set_order_def)

lemma set_js_set_order [simp]: "set (js_set_order xs) = set xs"
  by (induction xs rule: rev_induct) (auto simp: set_add_def)

lemma distinct_js_set_order [simp]: "distinct (js_set_order xs)"
  by (induction xs rule: rev_induct) (auto simp: set_add_def)

lemma find_Some_P: "find P xs = Some x \<Longrightarrow> P x \<and> x \<in> set xs"
  by (induction xs) (auto split: if_splits)

lemma math_random_rpos [simp]: "rpos (snd (math_random g)) = Suc (rpos g)"
  by (simp add: math_random_def)

lemma math_random_draws [simp]: "draws (snd (math_random g)) = draws g"
  by (simp add: math_random_def)

lemma rng_ok_math_random [simp]: "rng_ok (snd (math_random g)) = rng_ok g"
  by (simp add: rng_ok_def)

lemma math_random_range:
  "rng_ok g \<Longrightarrow> 0 \<le> fst (math_random g) \<and> fst (math_random g) < 1"
  by (simp add: rng_ok_def math_random_def)

text \<open>
  \<open>[...new Set(xs)]\<close> keeps the first occurrence of each value, in order: the library's
  \<open>remdups\<close> (which keeps last occurrences) on the reversed list.
\<close>

lemma js_set_order_eq_remdups: "js_set_order xs = rev (remdups (rev xs))"
proof (induction xs rule: rev_induct)
  case Nil
  then show ?case by simp
next
  case (snoc x xs)
  then show ?case by (simp add: set_add_def)
qed

end
