(* ===== verification/Data.thy ===== *)
theory Data
  imports Prelude
begin

text \<open>
  The data store and the threshold configuration of \<open>src/noc-dashboard.js\<close>: the
  rows of the two CSV files as records (\<open>node_record\<close>, \<open>perf_sample\<close>), the
  global variables of lines 1--16 as the record \<open>dash_state\<close>, the fixed threshold
  tables, and \<open>loadCSV\<close> with the joining of the two loads by \<open>Promise.all\<close>.
\<close>

section \<open>Rows of the two datasets\<close>

text \<open>
  A row of \<open>network_nodes_metadata.csv\<close>. Identifier, name, type and region are
  whatever PapaParse's dynamic typing made of the cell; only the coordinates are
  read as numbers.
\<close>

record node_record =
  node_id :: jsval
  node_name :: jsval
  node_type :: jsval
  region :: jsval
  latitude :: real
  longitude :: real

text \<open>
  A row of \<open>network_performance_data.csv\<close> (its \<open>node_id\<close> column is the field
  \<open>perf_node_id\<close>, to keep the two records' field names apart). \<open>timestamp\<close> is a
  time value in milliseconds.
\<close>

record perf_sample =
  perf_node_id :: jsval
  timestamp :: real
  temperature_celsius :: real
  cpu_utilization_percent :: real
  memory_utilization_percent :: real
  throughput_utilization_percent :: real
  download_bandwidth_mbps :: real
  upload_bandwidth_mbps :: real
  availability_percent :: real

section \<open>Threshold configuration\<close>

record thresholds =
  warning :: real
  critical :: real

definition temperatureThresholds :: thresholds where
  "temperatureThresholds = \<lparr>warning = 40, critical = 50\<rparr>"

definition cpuThresholds :: thresholds where
  "cpuThresholds = \<lparr>warning = 70, critical = 90\<rparr>"

definition refreshInterval :: int where
  "refreshInterval = 180"

declare temperatureThresholds_def [dash_defs] cpuThresholds_def [dash_defs]
  refreshInterval_def [dash_defs]

section \<open>The session state the computation reads and writes\<close>

text \<open>
  \<open>nodesData\<close>, \<open>performanceData\<close> and \<open>simulatedDataIndex\<close> are the globals of the
  same names; \<open>random_src\<close> is the state of \<open>Math.random\<close>; \<open>clock\<close> is the value
  \<open>new Date()\<close> has while a callback runs (no callback lets time pass).
\<close>

record dash_state =
  nodesData :: "node_record list"
  performanceData :: "perf_sample list"
  simulatedDataIndex :: nat
  random_src :: rng
  clock :: real

section \<open>Loading the datasets\<close>

text \<open>
  \<open>loadCSV\<close>: PapaParse either reports an error (the promise rejects) or delivers the
  parsed rows, of which those whose \<open>node_id\<close> is falsy are dropped
  (\<open>results.data.filter(row => row.node_id)\<close>).
\<close>

definition loadCSV :: "('r \<Rightarrow> jsval) \<Rightarrow> string + 'r list \<Rightarrow> string + 'r list" where
  "loadCSV key parsed =
     (case parsed of Inl err \<Rightarrow> Inl err | Inr rows \<Rightarrow> Inr (filter (\<lambda>row. truthy (key row)) rows))"

text \<open>
  \<open>Promise.all\<close> of the two loads: both results, or a rejection when either load
  fails. When both fail the reported error is the node file's (the user sees the same
  alert either way).
\<close>

definition load_all ::
  "string + node_record list \<Rightarrow> string + perf_sample list \<Rightarrow>
   string + (node_record list \<times> perf_sample list)" where
  "load_all a b =
     (case loadCSV node_id a of
        Inl err \<Rightarrow> Inl err
      | Inr nodes \<Rightarrow>
          (case loadCSV perf_node_id b of
             Inl err \<Rightarrow> Inl err
           | Inr perf \<Rightarrow> Inr (nodes, perf)))"

declare loadCSV_def [dash_defs] load_all_def [dash_defs]

lemmas threshold_defs = temperatureThresholds_def cpuThresholds_def

end
