(* ===== verification/Classifier.thy ===== *)
theory Classifier
  imports Data
begin

text \<open>
  The status classifier, \<open>getNodeStatus\<close> (lines 174--193): a node's health from
  its current performance sample, checked critical first, then warning. The status is
  a string in the source; here it is a datatype, with \<open>status_str\<close> giving the
  string the code compares against the status filter.
\<close>

datatype status = Healthy | Warning | Critical | Unknown

fun status_str :: "status \<Rightarrow> string" where
  "status_str Healthy = ''healthy''"
| "status_str Warning = ''warning''"
| "status_str Critical = ''critical''"
| "status_str Unknown = ''unknown''"

text \<open>The source's critical and warning conditions, as written in the two \<open>if\<close>s.\<close>

definition critical_cond :: "perf_sample \<Rightarrow> bool" where
  "critical_cond p \<longleftrightarrow>
     temperature_celsius p > critical temperatureThresholds \<or>
     cpu_utilization_percent p > critical cpuThresholds \<or>
     availability_percent p < 95"

definition warning_cond :: "perf_sample \<Rightarrow> bool" where
  "warning_cond p \<longleftrightarrow>
     temperature_celsius p > warning temperatureThresholds \<or>
     cpu_utilization_percent p > warning cpuThresholds \<or>
     availability_percent p < 98"

fun getNodeStatus :: "node_record \<Rightarrow> perf_sample option \<Rightarrow> status" where
  "getNodeStatus node None = Unknown"
| "getNodeStatus node (Some perf) =
     (if critical_cond perf then Critical
      else if warning_cond perf then Warning
      else Healthy)"

declare critical_cond_def [dash_defs] warning_cond_def [dash_defs]

lemma status_str_inj [simp]: "status_str a = status_str b \<longleftrightarrow> a = b"
  by (cases a; cases b) simp_all

lemma getNodeStatus_Unknown_iff: "getNodeStatus n p = Unknown \<longleftrightarrow> p = None"
  by (cases p) auto

text \<open>
  C1. A node whose sample has temperature above 50, CPU above 90 or availability below
  95 is critical, whatever its other metrics.
\<close>

theorem getNodeStatus_critical:
  assumes "temperature_celsius p > 50 \<or> cpu_utilization_percent p > 90 \<or> availability_percent p < 95"
  shows "getNodeStatus n (Some p) = Critical"
  using assms by (simp add: critical_cond_def threshold_defs)

theorem getNodeStatus_critical_witness:
  "getNodeStatus
      \<lparr>node_id = JStr ''n1'', node_name = JStr ''Node 1'', node_type = JStr ''router'', region = JStr ''East'', latitude = 40, longitude = -74\<rparr>
      (Some \<lparr>perf_node_id = JStr ''n1'', timestamp = 0, temperature_celsius = 52,
      cpu_utilization_percent = 40, memory_utilization_percent = 50,
      throughput_utilization_percent = 50, download_bandwidth_mbps = 100,
      upload_bandwidth_mbps = 50, availability_percent = 99\<rparr>) = Critical"
  by (rule getNodeStatus_critical) simp

text \<open>
  C2. A node whose sample meets none of the critical conditions but has temperature
  above 40, CPU above 70 or availability below 98 is in warning.
\<close>

theorem getNodeStatus_warning:
  assumes "\<not> (temperature_celsius p > 50 \<or> cpu_utilization_percent p > 90 \<or> availability_percent p < 95)"
    and "temperature_celsius p > 40 \<or> cpu_utilization_percent p > 70 \<or> availability_percent p < 98"
  shows "getNodeStatus n (Some p) = Warning"
  using assms by (simp add: critical_cond_def warning_cond_def threshold_defs)

theorem getNodeStatus_warning_witness:
  "getNodeStatus
      \<lparr>node_id = JStr ''n1'', node_name = JStr ''Node 1'', node_type = JStr ''router'', region = JStr ''East'', latitude = 40, longitude = -74\<rparr>
      (Some \<lparr>perf_node_id = JStr ''n1'', timestamp = 0, temperature_celsius = 30,
      cpu_utilization_percent = 75, memory_utilization_percent = 50,
      throughput_utilization_percent = 50, download_bandwidth_mbps = 100,
      upload_bandwidth_mbps = 50, availability_percent = 99\<rparr>) = Warning"
  by (rule getNodeStatus_warning) simp_all

text \<open>
  C3. A node with a sample that meets neither the critical nor the warning conditions
  is healthy.
\<close>

theorem getNodeStatus_healthy:
  assumes "temperature_celsius p \<le> 40" and "cpu_utilization_percent p \<le> 70"
    and "availability_percent p \<ge> 98"
  shows "getNodeStatus n (Some p) = Healthy"
  using assms by (simp add: critical_cond_def warning_cond_def threshold_defs)

theorem getNodeStatus_healthy_witness:
  "getNodeStatus
      \<lparr>node_id = JStr ''n1'', node_name = JStr ''Node 1'', node_type = JStr ''router'', region = JStr ''East'', latitude = 40, longitude = -74\<rparr>
      (Some \<lparr>perf_node_id = JStr ''n1'', timestamp = 0, temperature_celsius = 35,
      cpu_utilization_percent = 40, memory_utilization_percent = 50,
      throughput_utilization_percent = 50, download_bandwidth_mbps = 100,
      upload_bandwidth_mbps = 50, availability_percent = 99.5\<rparr>) = Healthy"
  by (rule getNodeStatus_healthy) simp_all

end
