(* ===== verification/Simulator.thy ===== *)
theory Simulator
  imports Data
begin

text \<open>
  The telemetry simulator, \<open>generateCurrentPerformanceData\<close> and \<open>addVariation\<close>
  (lines 195--253). One call reads a window of at most 50 historical rows starting at
  \<open>simulatedDataIndex % (performanceData.length / 3)\<close>, advances the cursor by 50,
  and produces one perturbed copy of the first row of each distinct \<open>node_id\<close> of the
  window, in first-occurrence order. Each row consumes six draws of \<open>Math.random\<close>,
  and two more when a fault is injected. \<open>perturbation_ok\<close> is the contract of one
  row (spec section 4.1, steps 4--5) that the code is proved to meet.
\<close>

section \<open>Definitions\<close>

definition addVariation :: "real \<Rightarrow> real \<Rightarrow> rng \<Rightarrow> real \<times> rng" where
  "addVariation value maxVariation g =
     (let (r, g') = math_random g; variation = (r * 2 - 1) * maxVariation
      in (value + variation, g'))"

text \<open>Lines 212--220: stamp the row with the current time and perturb five metrics.\<close>

definition vary_row :: "real \<Rightarrow> perf_sample \<Rightarrow> rng \<Rightarrow> perf_sample \<times> rng" where
  "vary_row now sampleRow g =
     (let newRow = sampleRow\<lparr>timestamp := now\<rparr>;
          (t, g1) = addVariation (temperature_celsius newRow) 5 g;
          newRow = newRow\<lparr>temperature_celsius := t\<rparr>;
          (c, g2) = addVariation (cpu_utilization_percent newRow) 10 g1;
          newRow = newRow\<lparr>cpu_utilization_percent := c\<rparr>;
          (m, g3) = addVariation (memory_utilization_percent newRow) 5 g2;
          newRow = newRow\<lparr>memory_utilization_percent := m\<rparr>;
          (d, g4) = addVariation (download_bandwidth_mbps newRow)
                      (download_bandwidth_mbps newRow * 0.1) g3;
          newRow = newRow\<lparr>download_bandwidth_mbps := d\<rparr>;
          (u, g5) = addVariation (upload_bandwidth_mbps newRow)
                      (upload_bandwidth_mbps newRow * 0.1) g4
      in (newRow\<lparr>upload_bandwidth_mbps := u\<rparr>, g5))"

text \<open>
  Lines 222--241: with probability 0.05 one fault, chosen by
  \<open>Math.floor(Math.random() * 3)\<close>; the \<open>switch\<close> has no default branch.
\<close>

definition inject_issue :: "perf_sample \<Rightarrow> rng \<Rightarrow> perf_sample \<times> rng" where
  "inject_issue newRow g =
     (let (p, g1) = math_random g in
      if p < 0.05 then
        (let (q, g2) = math_random g1; issue = \<lfloor>q * 3\<rfloor> in
         if issue = 0 then
           (let (r, g3) = math_random g2
            in (newRow\<lparr>temperature_celsius := temperature_celsius newRow + r * 20\<rparr>, g3))
         else if issue = 1 then
           (let (r, g3) = math_random g2;
                c = cpu_utilization_percent newRow + r * 30
            in (newRow\<lparr>cpu_utilization_percent := min c 100\<rparr>, g3))
         else if issue = 2 then
           (let (r, g3) = math_random g2
            in (newRow\<lparr>availability_percent := availability_percent newRow - r * 5\<rparr>, g3))
         else (newRow, g2))
      else (newRow, g1))"

text \<open>
  The \<open>forEach\<close> over the distinct identifiers (lines 207--244): the first row of
  the window with the identifier (\<open>baseData.find\<close>), perturbed, is pushed; the
  \<open>if (!sampleRow) return\<close> guard is the \<open>None\<close> branch.
\<close>

fun gen_rows :: "perf_sample list \<Rightarrow> real \<Rightarrow> jsval list \<Rightarrow> rng \<Rightarrow> perf_sample list \<times> rng" where
  "gen_rows baseData now [] g = ([], g)"
| "gen_rows baseData now (nodeId # ids) g =
     (case find (\<lambda>row. perf_node_id row = nodeId) baseData of
        None \<Rightarrow> gen_rows baseData now ids g
      | Some sampleRow \<Rightarrow>
          (let (newRow, g1) = vary_row now sampleRow g;
               (newRow, g2) = inject_issue newRow g1;
               (rest, g3) = gen_rows baseData now ids g2
           in (newRow # rest, g3)))"

text \<open>Lines 198 and 201: the window start, a JavaScript remainder by a fractional divisor.\<close>

definition base_index :: "nat \<Rightarrow> nat \<Rightarrow> jsnum" where
  "base_index simIndex len = js_rem (real simIndex) (real len / 3)"

definition sim_window :: "dash_state \<Rightarrow> perf_sample list" where
  "sim_window s =
     (let baseIndex = base_index (simulatedDataIndex s) (length (performanceData s))
      in js_slice (performanceData s) baseIndex (js_add baseIndex 50))"

definition generateCurrentPerformanceData :: "dash_state \<Rightarrow> perf_sample list \<times> dash_state" where
  "generateCurrentPerformanceData s =
     (let baseData = sim_window s;
          s1 = s\<lparr>simulatedDataIndex := simulatedDataIndex s + 50\<rparr>;
          uniqueNodeIds = js_set_order (map perf_node_id baseData);
          (currentData, g) = gen_rows baseData (clock s) uniqueNodeIds (random_src s)
      in (currentData, s1\<lparr>random_src := g\<rparr>))"

text \<open>The contract of one generated row against the historical row it was copied from.\<close>

definition perturbation_ok :: "real \<Rightarrow> perf_sample \<Rightarrow> perf_sample \<Rightarrow> bool" where
  "perturbation_ok now row row' \<longleftrightarrow>
     perf_node_id row' = perf_node_id row \<and> timestamp row' = now \<and>
     throughput_utilization_percent row' = throughput_utilization_percent row \<and>
     \<bar>memory_utilization_percent row' - memory_utilization_percent row\<bar> \<le> 5 \<and>
     \<bar>download_bandwidth_mbps row' - download_bandwidth_mbps row\<bar> \<le> \<bar>download_bandwidth_mbps row * 0.1\<bar> \<and>
     \<bar>upload_bandwidth_mbps row' - upload_bandwidth_mbps row\<bar> \<le> \<bar>upload_bandwidth_mbps row * 0.1\<bar> \<and>
     temperature_celsius row - 5 \<le> temperature_celsius row' \<and>
     temperature_celsius row' < temperature_celsius row + 25 \<and>
     min (cpu_utilization_percent row - 10) 100 \<le> cpu_utilization_percent row' \<and>
     cpu_utilization_percent row' < cpu_utilization_percent row + 40 \<and>
     cpu_utilization_percent row' \<le> max (cpu_utilization_percent row + 10) 100 \<and>
     availability_percent row - 5 < availability_percent row' \<and>
     availability_percent row' \<le> availability_percent row"

declare addVariation_def [dash_defs] vary_row_def [dash_defs] inject_issue_def [dash_defs]
  base_index_def [dash_defs] sim_window_def [dash_defs]
  generateCurrentPerformanceData_def [dash_defs]

section \<open>Lemmas\<close>

lemma addVariation_eq:
  "addVariation v m g = (v + (fst (math_random g) * 2 - 1) * m, snd (math_random g))"
  by (simp add: addVariation_def split_def Let_def)

lemma addVariation_bound:
  assumes "rng_ok g"
  shows "\<bar>fst (addVariation v m g) - v\<bar> \<le> \<bar>m\<bar>"
proof -
  let ?r = "fst (math_random g)"
  have "0 \<le> ?r" and "?r < 1" using math_random_range [OF assms] by auto
  then have "\<bar>?r * 2 - 1\<bar> \<le> 1" by simp
  then have "\<bar>?r * 2 - 1\<bar> * \<bar>m\<bar> \<le> \<bar>m\<bar>" by (simp add: mult_left_le_one_le)
  then show ?thesis by (simp add: addVariation_eq abs_mult)
qed

lemma addVariation_bound_le:
  assumes "rng_ok g"
  shows "v - \<bar>m\<bar> \<le> fst (addVariation v m g) \<and> fst (addVariation v m g) \<le> v + \<bar>m\<bar>"
  using addVariation_bound [OF assms, of v m] by linarith

lemma addVariation_rng [simp]:
  "rpos (snd (addVariation v m g)) = Suc (rpos g)"
  "draws (snd (addVariation v m g)) = draws g"
  "rng_ok (snd (addVariation v m g)) = rng_ok g"
  by (simp_all add: addVariation_eq)

lemma variation_bound:
  assumes "0 \<le> x" and "x < (1::real)"
  shows "\<bar>(x * 2 - 1) * c\<bar> \<le> \<bar>c\<bar>"
proof -
  have "\<bar>x * 2 - 1\<bar> \<le> 1" using assms by simp
  then show ?thesis by (simp add: abs_mult mult_left_le_one_le)
qed

lemma vary_row_explicit:
  "vary_row now row g =
     (let d = \<lambda>k. draws g (rpos g + k) * 2 - 1
      in (row\<lparr>timestamp := now,
              temperature_celsius := temperature_celsius row + d 0 * 5,
              cpu_utilization_percent := cpu_utilization_percent row + d 1 * 10,
              memory_utilization_percent := memory_utilization_percent row + d 2 * 5,
              download_bandwidth_mbps := download_bandwidth_mbps row + d 3 * (download_bandwidth_mbps row * 0.1),
              upload_bandwidth_mbps := upload_bandwidth_mbps row + d 4 * (upload_bandwidth_mbps row * 0.1)\<rparr>,
          g\<lparr>rpos := rpos g + 5\<rparr>))"
  by (simp add: vary_row_def addVariation_def math_random_def Let_def split_def numeral_eq_Suc)

lemma floor_times_3_cases:
  assumes "0 \<le> q" and "q < (1::real)"
  shows "\<lfloor>q * 3\<rfloor> = 0 \<or> \<lfloor>q * 3\<rfloor> = 1 \<or> \<lfloor>q * 3\<rfloor> = 2"
proof -
  have "0 \<le> \<lfloor>q * 3\<rfloor>" and "\<lfloor>q * 3\<rfloor> < 3"
    using assms by (simp_all add: floor_less_iff)
  then show ?thesis by linarith
qed

lemma inject_issue_outcomes:
  assumes "rng_ok g"
  obtains (no_issue) "inject_issue row g = (row, g\<lparr>rpos := rpos g + 1\<rparr>)"
  | (temp_spike) r where "0 \<le> r" "r < 1"
      "inject_issue row g =
         (row\<lparr>temperature_celsius := temperature_celsius row + r * 20\<rparr>, g\<lparr>rpos := rpos g + 3\<rparr>)"
  | (cpu_spike) r where "0 \<le> r" "r < 1"
      "inject_issue row g =
         (row\<lparr>cpu_utilization_percent := min (cpu_utilization_percent row + r * 30) 100\<rparr>,
          g\<lparr>rpos := rpos g + 3\<rparr>)"
  | (network_issue) r where "0 \<le> r" "r < 1"
      "inject_issue row g =
         (row\<lparr>availability_percent := availability_percent row - r * 5\<rparr>, g\<lparr>rpos := rpos g + 3\<rparr>)"
proof -
  let ?d = "\<lambda>k. draws g (rpos g + k)"
  have rng: "0 \<le> ?d k \<and> ?d k < 1" for k using assms by (simp add: rng_ok_def)
  have eq: "inject_issue row g =
     (if ?d 0 < 0.05 then
        (if \<lfloor>?d 1 * 3\<rfloor> = 0 then
           (row\<lparr>temperature_celsius := temperature_celsius row + ?d 2 * 20\<rparr>, g\<lparr>rpos := rpos g + 3\<rparr>)
         else if \<lfloor>?d 1 * 3\<rfloor> = 1 then
           (row\<lparr>cpu_utilization_percent := min (cpu_utilization_percent row + ?d 2 * 30) 100\<rparr>,
            g\<lparr>rpos := rpos g + 3\<rparr>)
         else if \<lfloor>?d 1 * 3\<rfloor> = 2 then
           (row\<lparr>availability_percent := availability_percent row - ?d 2 * 5\<rparr>, g\<lparr>rpos := rpos g + 3\<rparr>)
         else (row, g\<lparr>rpos := rpos g + 2\<rparr>))
      else (row, g\<lparr>rpos := rpos g + 1\<rparr>))"
    by (simp add: inject_issue_def math_random_def Let_def split_def numeral_eq_Suc)
  have "\<lfloor>?d 1 * 3\<rfloor> = 0 \<or> \<lfloor>?d 1 * 3\<rfloor> = 1 \<or> \<lfloor>?d 1 * 3\<rfloor> = 2"
    using rng [of 1] by (intro floor_times_3_cases) auto
  then consider "\<not> ?d 0 < 0.05" | "?d 0 < 0.05" "\<lfloor>?d 1 * 3\<rfloor> = 0"
    | "?d 0 < 0.05" "\<lfloor>?d 1 * 3\<rfloor> = 1" | "?d 0 < 0.05" "\<lfloor>?d 1 * 3\<rfloor> = 2"
    by blast
  then show ?thesis
  proof cases
    case 1
    with eq show ?thesis by (intro no_issue) simp
  next
    case 2
    with eq rng [of 2] show ?thesis by (intro temp_spike [of "?d 2"]) simp_all
  next
    case 3
    with eq rng [of 2] show ?thesis by (intro cpu_spike [of "?d 2"]) simp_all
  next
    case 4
    with eq rng [of 2] show ?thesis by (intro network_issue [of "?d 2"]) simp_all
  qed
qed

lemma simulate_row_ok:
  assumes "rng_ok g"
  shows "perturbation_ok now row (fst (inject_issue (fst (vary_row now row g)) (snd (vary_row now row g))))"
proof -
  let ?d = "\<lambda>k. draws g (rpos g + k)"
  let ?row1 = "fst (vary_row now row g)"
  have rng: "0 \<le> ?d k \<and> ?d k < 1" for k using assms by (simp add: rng_ok_def)
  have dl: "\<bar>(?d 3 * 2 - 1) * (download_bandwidth_mbps row * 0.1)\<bar> \<le> \<bar>download_bandwidth_mbps row * 0.1\<bar>"
    using rng [of 3] by (intro variation_bound) auto
  have ul: "\<bar>(?d 4 * 2 - 1) * (upload_bandwidth_mbps row * 0.1)\<bar> \<le> \<bar>upload_bandwidth_mbps row * 0.1\<bar>"
    using rng [of 4] by (intro variation_bound) auto
  have ok: "rng_ok (snd (vary_row now row g))"
    using assms by (simp add: vary_row_explicit rng_ok_def Let_def)
  have row1: "perturbation_ok now row ?row1"
    using rng [of 0] rng [of 1] rng [of 2] dl ul
    by (simp add: perturbation_ok_def vary_row_explicit Let_def abs_le_iff min_le_iff_disj le_max_iff_disj)
  have t1: "temperature_celsius ?row1 < temperature_celsius row + 5"
    and c1: "cpu_utilization_percent row - 10 \<le> cpu_utilization_percent ?row1"
    and c2: "cpu_utilization_percent ?row1 < cpu_utilization_percent row + 10"
    and a1: "availability_percent ?row1 = availability_percent row"
    using rng [of 0] rng [of 1] by (simp_all add: vary_row_explicit Let_def)
  show ?thesis
  using ok proof (cases rule: inject_issue_outcomes [where row = ?row1])
    case no_issue
    with row1 show ?thesis by simp
  next
    case (temp_spike r)
    with row1 t1 show ?thesis by (simp add: perturbation_ok_def)
  next
    case (cpu_spike r)
    with row1 c1 c2 show ?thesis by (simp add: perturbation_ok_def min_le_iff_disj)
  next
    case (network_issue r)
    with row1 a1 show ?thesis by (simp add: perturbation_ok_def)
  qed
qed
lemma inject_issue_id [simp]:
  "perf_node_id (fst (inject_issue row g)) = perf_node_id row"
  by (simp add: inject_issue_def Let_def split_def)

lemma inject_issue_draws [simp]: "draws (snd (inject_issue row g)) = draws g"
  by (simp add: inject_issue_def Let_def split_def)

lemma vary_row_id [simp]: "perf_node_id (fst (vary_row now row g)) = perf_node_id row"
  by (simp add: vary_row_explicit Let_def)

lemma vary_row_rng [simp]:
  "rpos (snd (vary_row now row g)) = rpos g + 5" "draws (snd (vary_row now row g)) = draws g"
  by (simp_all add: vary_row_explicit Let_def)

lemma rng_ok_vary_row [simp]: "rng_ok (snd (vary_row now row g)) = rng_ok g"
  by (simp add: rng_ok_def)

lemma rng_ok_inject_issue [simp]: "rng_ok (snd (inject_issue row g)) = rng_ok g"
  by (simp add: rng_ok_def)

lemma inject_issue_rpos:
  assumes "rng_ok g"
  shows "rpos g + 1 \<le> rpos (snd (inject_issue row g)) \<and> rpos (snd (inject_issue row g)) \<le> rpos g + 3"
  using assms by (cases rule: inject_issue_outcomes [where row = row]) simp_all

lemma gen_rows_draws [simp]: "draws (snd (gen_rows base now ids g)) = draws g"
  by (induction ids arbitrary: g) (simp_all add: split_def Let_def split: option.split)

lemma rng_ok_gen_rows [simp]: "rng_ok (snd (gen_rows base now ids g)) = rng_ok g"
  by (simp add: rng_ok_def)

lemma gen_rows_ids:
  "map perf_node_id (fst (gen_rows base now ids g)) =
     filter (\<lambda>i. find (\<lambda>r. perf_node_id r = i) base \<noteq> None) ids"
  by (induction ids arbitrary: g) (auto simp: split_def Let_def dest: find_Some_P split: option.split)

lemma gen_rows_contract:
  assumes "rng_ok g"
  shows "list_all2 (\<lambda>i r'. \<exists>row. find (\<lambda>r. perf_node_id r = i) base = Some row \<and> perturbation_ok now row r')
           (filter (\<lambda>i. find (\<lambda>r. perf_node_id r = i) base \<noteq> None) ids)
           (fst (gen_rows base now ids g))"
  using assms
proof (induction ids arbitrary: g)
  case Nil
  then show ?case by simp
next
  case (Cons i ids)
  show ?case
  proof (cases "find (\<lambda>r. perf_node_id r = i) base")
    case None
    with Cons show ?thesis by simp
  next
    case (Some row)
    let ?g1 = "snd (vary_row now row g)"
    have ok: "rng_ok (snd (inject_issue (fst (vary_row now row g)) ?g1))"
      using Cons.prems by simp
    from Some Cons.prems Cons.IH [OF ok] simulate_row_ok [OF Cons.prems, of now row] show ?thesis
      by (simp add: split_def Let_def)
  qed
qed

lemma gen_rows_rpos:
  assumes "rng_ok g"
  shows "6 * length (fst (gen_rows base now ids g)) \<le> rpos (snd (gen_rows base now ids g)) - rpos g \<and>
         rpos (snd (gen_rows base now ids g)) - rpos g \<le> 8 * length (fst (gen_rows base now ids g)) \<and>
         rpos g \<le> rpos (snd (gen_rows base now ids g))"
  using assms
proof (induction ids arbitrary: g)
  case Nil
  then show ?case by simp
next
  case (Cons i ids)
  show ?case
  proof (cases "find (\<lambda>r. perf_node_id r = i) base")
    case None
    with Cons show ?thesis by simp
  next
    case (Some row)
    let ?g1 = "snd (vary_row now row g)"
    let ?g2 = "snd (inject_issue (fst (vary_row now row g)) ?g1)"
    have ok1: "rng_ok ?g1" and ok2: "rng_ok ?g2"
      using Cons.prems by simp_all
    have "rpos ?g1 + 1 \<le> rpos ?g2 \<and> rpos ?g2 \<le> rpos ?g1 + 3"
      by (rule inject_issue_rpos [OF ok1])
    with Some Cons.IH [OF ok2] show ?thesis
      by (simp add: split_def Let_def) arith
  qed
qed

lemma generateCurrentPerformanceData_eq:
  "generateCurrentPerformanceData s =
     (let ids = js_set_order (map perf_node_id (sim_window s));
          r = gen_rows (sim_window s) (clock s) ids (random_src s)
      in (fst r, s\<lparr>simulatedDataIndex := simulatedDataIndex s + 50, random_src := snd r\<rparr>))"
  by (simp add: generateCurrentPerformanceData_def Let_def split_def)

lemma generate_state [simp]:
  "simulatedDataIndex (snd (generateCurrentPerformanceData s)) = simulatedDataIndex s + 50"
  "nodesData (snd (generateCurrentPerformanceData s)) = nodesData s"
  "performanceData (snd (generateCurrentPerformanceData s)) = performanceData s"
  "clock (snd (generateCurrentPerformanceData s)) = clock s"
  "draws (random_src (snd (generateCurrentPerformanceData s))) = draws (random_src s)"
  "rng_ok (random_src (snd (generateCurrentPerformanceData s))) = rng_ok (random_src s)"
  by (simp_all add: generateCurrentPerformanceData_eq Let_def)

lemma window_ids_found:
  "filter (\<lambda>i. \<exists>y. find (\<lambda>r. perf_node_id r = i) w = Some y) (js_set_order (map perf_node_id w)) =
     js_set_order (map perf_node_id w)"
proof (rule filter_True, rule ballI)
  fix i assume "i \<in> set (js_set_order (map perf_node_id w))"
  then obtain r where "r \<in> set w" "perf_node_id r = i" by auto
  then have "find (\<lambda>r. perf_node_id r = i) w \<noteq> None" by (auto simp: find_None_iff)
  then show "\<exists>y. find (\<lambda>r. perf_node_id r = i) w = Some y" by simp
qed

text \<open>
  C14. One call of \<open>generateCurrentPerformanceData\<close> yields exactly one sample per
  distinct \<open>node_id\<close> of the window, in first-occurrence order, and each sample
  meets the perturbation contract against the first window row with its identifier:
  same identifier and throughput, current timestamp, memory within 5, bandwidths within
  10 percent, temperature in [t-5, t+25), CPU in [min(c-10,100), c+40) and at most
  max(c+10, 100) (a CPU spike is clamped to 100), availability in (a-5, a].
\<close>

theorem generate_contract:
  assumes "rng_ok (random_src s)"
  shows "map perf_node_id (fst (generateCurrentPerformanceData s)) =
           js_set_order (map perf_node_id (sim_window s)) \<and>
         (\<forall>r' \<in> set (fst (generateCurrentPerformanceData s)).
            \<exists>row. find (\<lambda>r. perf_node_id r = perf_node_id r') (sim_window s) = Some row \<and>
                  perturbation_ok (clock s) row r')"
proof -
  let ?w = "sim_window s"
  let ?ids = "js_set_order (map perf_node_id ?w)"
  let ?out = "fst (gen_rows ?w (clock s) ?ids (random_src s))"
  have ids: "map perf_node_id ?out = ?ids"
    using gen_rows_ids [of ?w "clock s" ?ids "random_src s"] by (simp add: window_ids_found)
  have rel: "list_all2 (\<lambda>i r'. \<exists>row. find (\<lambda>r. perf_node_id r = i) ?w = Some row \<and>
                               perturbation_ok (clock s) row r') ?ids ?out"
    using gen_rows_contract [OF assms, of ?w "clock s" ?ids] by (simp add: window_ids_found)
  have "\<forall>r' \<in> set ?out. \<exists>row. find (\<lambda>r. perf_node_id r = perf_node_id r') ?w = Some row \<and>
                                perturbation_ok (clock s) row r'"
  proof
    fix r' assume "r' \<in> set ?out"
    then obtain k where k: "k < length ?out" "?out ! k = r'" by (auto simp: in_set_conv_nth)
    with rel have "\<exists>row. find (\<lambda>r. perf_node_id r = ?ids ! k) ?w = Some row \<and>
                         perturbation_ok (clock s) row r'"
      by (auto dest: list_all2_nthD2)
    moreover from ids k have "?ids ! k = perf_node_id r'"
      by (metis nth_map)
    ultimately show "\<exists>row. find (\<lambda>r. perf_node_id r = perf_node_id r') ?w = Some row \<and>
                           perturbation_ok (clock s) row r'" by simp
  qed
  with ids show ?thesis by (simp add: generateCurrentPerformanceData_eq Let_def)
qed

text \<open>
  C15. The window read by the simulator is always 50 consecutive history rows (fewer
  at the end of the data), starting in the first third of the data.
\<close>

theorem sim_window_slice:
  "\<exists>i. sim_window s = take 50 (drop i (performanceData s)) \<and>
       (3 * i < length (performanceData s) \<or> performanceData s = [])"
proof (cases "performanceData s = []")
  case True
  then show ?thesis by (simp add: sim_window_def base_index_def js_rem_def js_slice_def)
next
  case False
  let ?len = "length (performanceData s)"
  have "0 < real ?len / 3" using False by simp
  then obtain b where b: "base_index (simulatedDataIndex s) ?len = Fin b" "0 \<le> b" "b < real ?len / 3"
    using js_rem_nonneg [of "real (simulatedDataIndex s)" "real ?len / 3"]
    by (auto simp: base_index_def)
  have "sim_window s = take 50 (drop (nat \<lfloor>b\<rfloor>) (performanceData s))"
    using js_slice_from [OF b(2), of "performanceData s" 50] b(1) by (simp add: sim_window_def)
  moreover have "3 * nat \<lfloor>b\<rfloor> < ?len"
  proof -
    have "of_int \<lfloor>b\<rfloor> \<le> b" by (rule of_int_floor_le)
    with b(2,3) have "real (nat \<lfloor>b\<rfloor>) * 3 < real ?len" by linarith
    then show ?thesis by linarith
  qed
  ultimately show ?thesis by blast
qed

text \<open>
  C16. The window start uses a fractional divisor: with 100 history rows and cursor 50
  the window starts at row 16 (\<open>50 % 33.33...\<close> truncated), not at row
  \<open>50 mod (100 div 3) = 17\<close> as an integer division would give.
\<close>

theorem sim_window_fractional_start:
  assumes "length (performanceData s) = 100" and "simulatedDataIndex s = 50"
  shows "sim_window s = take 50 (drop 16 (performanceData s))"
proof -
  have "base_index (simulatedDataIndex s) (length (performanceData s)) = Fin (50 / 3)"
    using assms by (simp add: base_index_def js_rem_def js_trunc_def)
  moreover have "nat \<lfloor>50 / 3 :: real\<rfloor> = 16" by simp
  ultimately show ?thesis
    using js_slice_from [of "50 / 3" "performanceData s" 50] by (simp add: sim_window_def)
qed

text \<open>
  C19. Each simulated sample consumes six or eight draws of \<open>Math.random\<close>: six for
  the five perturbations and the fault test, two more when a fault is injected.
\<close>

theorem generate_draws_bounds:
  assumes "rng_ok (random_src s)"
  shows "6 * length (fst (generateCurrentPerformanceData s))
           \<le> rpos (random_src (snd (generateCurrentPerformanceData s))) - rpos (random_src s) \<and>
         rpos (random_src (snd (generateCurrentPerformanceData s))) - rpos (random_src s)
           \<le> 8 * length (fst (generateCurrentPerformanceData s))"
  using gen_rows_rpos [OF assms, of "sim_window s" "clock s" "js_set_order (map perf_node_id (sim_window s))"]
  by (simp add: generateCurrentPerformanceData_eq Let_def)

theorem generate_contract_witness:
  "rng_ok (random_src \<lparr>nodesData = [], performanceData = [\<lparr>perf_node_id = JStr ''n1'', timestamp = 0, temperature_celsius = 45,
      cpu_utilization_percent = 60, memory_utilization_percent = 50,
      throughput_utilization_percent = 40, download_bandwidth_mbps = 100,
      upload_bandwidth_mbps = 50, availability_percent = 99\<rparr>], simulatedDataIndex = 0,
      random_src = \<lparr>draws = \<lambda>_. 1 / 2, rpos = 0\<rparr>, clock = 1000\<rparr>) \<and>
   map perf_node_id (fst (generateCurrentPerformanceData \<lparr>nodesData = [], performanceData = [\<lparr>perf_node_id = JStr ''n1'', timestamp = 0, temperature_celsius = 45,
      cpu_utilization_percent = 60, memory_utilization_percent = 50,
      throughput_utilization_percent = 40, download_bandwidth_mbps = 100,
      upload_bandwidth_mbps = 50, availability_percent = 99\<rparr>], simulatedDataIndex = 0,
      random_src = \<lparr>draws = \<lambda>_. 1 / 2, rpos = 0\<rparr>, clock = 1000\<rparr>)) =
     js_set_order (map perf_node_id (sim_window \<lparr>nodesData = [], performanceData = [\<lparr>perf_node_id = JStr ''n1'', timestamp = 0, temperature_celsius = 45,
      cpu_utilization_percent = 60, memory_utilization_percent = 50,
      throughput_utilization_percent = 40, download_bandwidth_mbps = 100,
      upload_bandwidth_mbps = 50, availability_percent = 99\<rparr>], simulatedDataIndex = 0,
      random_src = \<lparr>draws = \<lambda>_. 1 / 2, rpos = 0\<rparr>, clock = 1000\<rparr>))"
  using generate_contract [of "\<lparr>nodesData = [], performanceData = [\<lparr>perf_node_id = JStr ''n1'', timestamp = 0, temperature_celsius = 45,
      cpu_utilization_percent = 60, memory_utilization_percent = 50,
      throughput_utilization_percent = 40, download_bandwidth_mbps = 100,
      upload_bandwidth_mbps = 50, availability_percent = 99\<rparr>], simulatedDataIndex = 0,
      random_src = \<lparr>draws = \<lambda>_. 1 / 2, rpos = 0\<rparr>, clock = 1000\<rparr>"] by (simp add: rng_ok_def)

theorem sim_window_fractional_start_witness:
  "length (performanceData \<lparr>nodesData = [], performanceData = replicate 100 \<lparr>perf_node_id = JStr ''n1'', timestamp = 0, temperature_celsius = 45,
      cpu_utilization_percent = 60, memory_utilization_percent = 50,
      throughput_utilization_percent = 40, download_bandwidth_mbps = 100,
      upload_bandwidth_mbps = 50, availability_percent = 99\<rparr>, simulatedDataIndex = 50,
      random_src = \<lparr>draws = \<lambda>_. 1 / 2, rpos = 0\<rparr>, clock = 1000\<rparr>) = 100 \<and> simulatedDataIndex \<lparr>nodesData = [], performanceData = replicate 100 \<lparr>perf_node_id = JStr ''n1'', timestamp = 0, temperature_celsius = 45,
      cpu_utilization_percent = 60, memory_utilization_percent = 50,
      throughput_utilization_percent = 40, download_bandwidth_mbps = 100,
      upload_bandwidth_mbps = 50, availability_percent = 99\<rparr>, simulatedDataIndex = 50,
      random_src = \<lparr>draws = \<lambda>_. 1 / 2, rpos = 0\<rparr>, clock = 1000\<rparr> = 50 \<and>
   sim_window \<lparr>nodesData = [], performanceData = replicate 100 \<lparr>perf_node_id = JStr ''n1'', timestamp = 0, temperature_celsius = 45,
      cpu_utilization_percent = 60, memory_utilization_percent = 50,
      throughput_utilization_percent = 40, download_bandwidth_mbps = 100,
      upload_bandwidth_mbps = 50, availability_percent = 99\<rparr>, simulatedDataIndex = 50,
      random_src = \<lparr>draws = \<lambda>_. 1 / 2, rpos = 0\<rparr>, clock = 1000\<rparr> = take 50 (drop 16 (performanceData \<lparr>nodesData = [], performanceData = replicate 100 \<lparr>perf_node_id = JStr ''n1'', timestamp = 0, temperature_celsius = 45,
      cpu_utilization_percent = 60, memory_utilization_percent = 50,
      throughput_utilization_percent = 40, download_bandwidth_mbps = 100,
      upload_bandwidth_mbps = 50, availability_percent = 99\<rparr>, simulatedDataIndex = 50,
      random_src = \<lparr>draws = \<lambda>_. 1 / 2, rpos = 0\<rparr>, clock = 1000\<rparr>))"
  using sim_window_fractional_start [of "\<lparr>nodesData = [], performanceData = replicate 100 \<lparr>perf_node_id = JStr ''n1'', timestamp = 0, temperature_celsius = 45,
      cpu_utilization_percent = 60, memory_utilization_percent = 50,
      throughput_utilization_percent = 40, download_bandwidth_mbps = 100,
      upload_bandwidth_mbps = 50, availability_percent = 99\<rparr>, simulatedDataIndex = 50,
      random_src = \<lparr>draws = \<lambda>_. 1 / 2, rpos = 0\<rparr>, clock = 1000\<rparr>"] by simp

theorem generate_draws_bounds_witness:
  "rng_ok (random_src \<lparr>nodesData = [], performanceData = [\<lparr>perf_node_id = JStr ''n1'', timestamp = 0, temperature_celsius = 45,
      cpu_utilization_percent = 60, memory_utilization_percent = 50,
      throughput_utilization_percent = 40, download_bandwidth_mbps = 100,
      upload_bandwidth_mbps = 50, availability_percent = 99\<rparr>], simulatedDataIndex = 0,
      random_src = \<lparr>draws = \<lambda>_. 1 / 2, rpos = 0\<rparr>, clock = 1000\<rparr>) \<and>
   rpos (random_src (snd (generateCurrentPerformanceData \<lparr>nodesData = [], performanceData = [\<lparr>perf_node_id = JStr ''n1'', timestamp = 0, temperature_celsius = 45,
      cpu_utilization_percent = 60, memory_utilization_percent = 50,
      throughput_utilization_percent = 40, download_bandwidth_mbps = 100,
      upload_bandwidth_mbps = 50, availability_percent = 99\<rparr>], simulatedDataIndex = 0,
      random_src = \<lparr>draws = \<lambda>_. 1 / 2, rpos = 0\<rparr>, clock = 1000\<rparr>))) - rpos (random_src \<lparr>nodesData = [], performanceData = [\<lparr>perf_node_id = JStr ''n1'', timestamp = 0, temperature_celsius = 45,
      cpu_utilization_percent = 60, memory_utilization_percent = 50,
      throughput_utilization_percent = 40, download_bandwidth_mbps = 100,
      upload_bandwidth_mbps = 50, availability_percent = 99\<rparr>], simulatedDataIndex = 0,
      random_src = \<lparr>draws = \<lambda>_. 1 / 2, rpos = 0\<rparr>, clock = 1000\<rparr>)
     \<le> 8 * length (fst (generateCurrentPerformanceData \<lparr>nodesData = [], performanceData = [\<lparr>perf_node_id = JStr ''n1'', timestamp = 0, temperature_celsius = 45,
      cpu_utilization_percent = 60, memory_utilization_percent = 50,
      throughput_utilization_percent = 40, download_bandwidth_mbps = 100,
      upload_bandwidth_mbps = 50, availability_percent = 99\<rparr>], simulatedDataIndex = 0,
      random_src = \<lparr>draws = \<lambda>_. 1 / 2, rpos = 0\<rparr>, clock = 1000\<rparr>))"
  using generate_draws_bounds [of "\<lparr>nodesData = [], performanceData = [\<lparr>perf_node_id = JStr ''n1'', timestamp = 0, temperature_celsius = 45,
      cpu_utilization_percent = 60, memory_utilization_percent = 50,
      throughput_utilization_percent = 40, download_bandwidth_mbps = 100,
      upload_bandwidth_mbps = 50, availability_percent = 99\<rparr>], simulatedDataIndex = 0,
      random_src = \<lparr>draws = \<lambda>_. 1 / 2, rpos = 0\<rparr>, clock = 1000\<rparr>"] by (simp add: rng_ok_def)

end
