(* ===== verification/Filter_Engine.thy ===== *)
theory Filter_Engine
  imports Classifier Simulator
begin

text \<open>
  The filter engine, \<open>getFilteredData\<close> (lines 140--172). It reads the three
  selectors, narrows the node list by region and type, asks the simulator for a fresh
  snapshot (which advances the cursor and consumes random draws), tags every remaining
  node with its snapshot row and status (\<open>{...node, status, performance}\<close>, an
  extension of the node record), and finally filters by status. The snapshot itself is
  returned unfiltered. The store (\<open>nodesData\<close>, \<open>performanceData\<close>) is never
  written.
\<close>

section \<open>Definitions\<close>

record enriched_node = node_record +
  status :: status
  performance :: "perf_sample option"

text \<open>The values of the three \<open>select\<close> elements read on lines 143--145.\<close>

record filter_sel =
  selectedRegion :: string
  selectedNodeType :: string
  selectedStatus :: string

text \<open>The \<open>map\<close> callback of lines 160--164.\<close>

definition enrich_node :: "perf_sample list \<Rightarrow> node_record \<Rightarrow> enriched_node" where
  "enrich_node currentPerformance node =
     (let nodePerf = find (\<lambda>p. perf_node_id p = node_id node) currentPerformance;
          st = getNodeStatus node nodePerf
      in \<lparr>node_id = node_id node, node_name = node_name node, node_type = node_type node,
          region = region node, latitude = latitude node, longitude = longitude node,
          status = st, performance = nodePerf\<rparr>)"

definition getFilteredData ::
  "filter_sel \<Rightarrow> dash_state \<Rightarrow> (enriched_node list \<times> perf_sample list) \<times> dash_state" where
  "getFilteredData sel s =
     (let filteredNodes = nodesData s;
          filteredNodes =
            (if selectedRegion sel \<noteq> ''all''
             then filter (\<lambda>node. region node = JStr (selectedRegion sel)) filteredNodes
             else filteredNodes);
          filteredNodes =
            (if selectedNodeType sel \<noteq> ''all''
             then filter (\<lambda>node. node_type node = JStr (selectedNodeType sel)) filteredNodes
             else filteredNodes);
          (currentPerformance, s') = generateCurrentPerformanceData s;
          enriched = map (enrich_node currentPerformance) filteredNodes;
          enriched =
            (if selectedStatus sel \<noteq> ''all''
             then filter (\<lambda>node. status_str (status node) = selectedStatus sel) enriched
             else enriched)
      in ((enriched, currentPerformance), s'))"

text \<open>A node passes a selector when the selector is \<open>all\<close> or equals the attribute.\<close>

definition sel_ok :: "string \<Rightarrow> jsval \<Rightarrow> bool" where
  "sel_ok sel v \<longleftrightarrow> sel = ''all'' \<or> v = JStr sel"

declare enrich_node_def [dash_defs] getFilteredData_def [dash_defs] sel_ok_def [dash_defs]

section \<open>Lemmas\<close>

lemma enrich_node_fields [simp]:
  "node_id (enrich_node cur n) = node_id n"
  "node_name (enrich_node cur n) = node_name n"
  "node_type (enrich_node cur n) = node_type n"
  "region (enrich_node cur n) = region n"
  "performance (enrich_node cur n) = find (\<lambda>p. perf_node_id p = node_id n) cur"
  "status (enrich_node cur n) = getNodeStatus n (find (\<lambda>p. perf_node_id p = node_id n) cur)"
  by (simp_all add: enrich_node_def Let_def)

lemma getFilteredData_eq:
  "getFilteredData sel s =
     ((filter (\<lambda>e. selectedStatus sel = ''all'' \<or> status_str (status e) = selectedStatus sel)
         (map (enrich_node (fst (generateCurrentPerformanceData s)))
            (filter (\<lambda>n. sel_ok (selectedRegion sel) (region n) \<and> sel_ok (selectedNodeType sel) (node_type n))
               (nodesData s))),
       fst (generateCurrentPerformanceData s)),
      snd (generateCurrentPerformanceData s))"
  by (simp add: getFilteredData_def sel_ok_def Let_def split_def filter_filter conj_commute)

lemma getFilteredData_state [simp]:
  "snd (getFilteredData sel s) = snd (generateCurrentPerformanceData s)"
  by (simp add: getFilteredData_eq)

lemma getFilteredData_regions:
  "map node_id (fst (fst (getFilteredData fs s))) =
     map node_id (filter (\<lambda>n. sel_ok (selectedRegion fs) (region n) \<and> sel_ok (selectedNodeType fs) (node_type n) \<and>
        (selectedStatus fs = ''all'' \<or>
         status_str (getNodeStatus n (find (\<lambda>p. perf_node_id p = node_id n) (fst (generateCurrentPerformanceData s)))) = selectedStatus fs))
      (nodesData s))"
  by (simp add: getFilteredData_eq filter_map o_def)

text \<open>
  C4. A node gets the status \<open>unknown\<close> exactly when the current snapshot has no
  sample with its identifier.
\<close>

theorem enrich_node_unknown_iff:
  "status (enrich_node cur n) = Unknown \<longleftrightarrow> node_id n \<notin> perf_node_id ` set cur"
  by (auto simp: getNodeStatus_Unknown_iff find_None_iff image_iff)

text \<open>
  C23. \<open>getFilteredData\<close> returns exactly the tagged nodes of the store that pass
  the region, type and status selectors, in the store's order; the snapshot it returns
  is the simulator's whole snapshot, unfiltered; the store is unchanged and the cursor
  has moved by 50.
\<close>

theorem getFilteredData_spec:
  "getFilteredData sel s = ((nodes, perf), s') \<Longrightarrow>
   nodes = filter (\<lambda>e. sel_ok (selectedRegion sel) (region e) \<and> sel_ok (selectedNodeType sel) (node_type e) \<and>
                       (selectedStatus sel = ''all'' \<or> status_str (status e) = selectedStatus sel))
             (map (enrich_node perf) (nodesData s)) \<and>
   perf = fst (generateCurrentPerformanceData s) \<and>
   nodesData s' = nodesData s \<and> performanceData s' = performanceData s \<and>
   simulatedDataIndex s' = simulatedDataIndex s + 50"
  by (auto simp: getFilteredData_eq filter_map filter_filter o_def conj_ac)

theorem getFilteredData_spec_witness:
  "snd (fst (getFilteredData \<lparr>selectedRegion = ''East'', selectedNodeType = ''all'', selectedStatus = ''all''\<rparr> \<lparr>nodesData = [\<lparr>node_id = JStr ''n1'', node_name = JStr ''Node 1'', node_type = JStr ''router'',
      region = JStr ''East'', latitude = 40, longitude = -74\<rparr>], performanceData = [\<lparr>perf_node_id = JStr ''n1'', timestamp = 0, temperature_celsius = 45,
      cpu_utilization_percent = 60, memory_utilization_percent = 50,
      throughput_utilization_percent = 40, download_bandwidth_mbps = 100,
      upload_bandwidth_mbps = 50, availability_percent = 99\<rparr>], simulatedDataIndex = 0,
      random_src = \<lparr>draws = \<lambda>_. 1 / 2, rpos = 0\<rparr>, clock = 1000\<rparr>)) = fst (generateCurrentPerformanceData \<lparr>nodesData = [\<lparr>node_id = JStr ''n1'', node_name = JStr ''Node 1'', node_type = JStr ''router'',
      region = JStr ''East'', latitude = 40, longitude = -74\<rparr>], performanceData = [\<lparr>perf_node_id = JStr ''n1'', timestamp = 0, temperature_celsius = 45,
      cpu_utilization_percent = 60, memory_utilization_percent = 50,
      throughput_utilization_percent = 40, download_bandwidth_mbps = 100,
      upload_bandwidth_mbps = 50, availability_percent = 99\<rparr>], simulatedDataIndex = 0,
      random_src = \<lparr>draws = \<lambda>_. 1 / 2, rpos = 0\<rparr>, clock = 1000\<rparr>) \<and>
   nodesData (snd (getFilteredData \<lparr>selectedRegion = ''East'', selectedNodeType = ''all'', selectedStatus = ''all''\<rparr> \<lparr>nodesData = [\<lparr>node_id = JStr ''n1'', node_name = JStr ''Node 1'', node_type = JStr ''router'',
      region = JStr ''East'', latitude = 40, longitude = -74\<rparr>], performanceData = [\<lparr>perf_node_id = JStr ''n1'', timestamp = 0, temperature_celsius = 45,
      cpu_utilization_percent = 60, memory_utilization_percent = 50,
      throughput_utilization_percent = 40, download_bandwidth_mbps = 100,
      upload_bandwidth_mbps = 50, availability_percent = 99\<rparr>], simulatedDataIndex = 0,
      random_src = \<lparr>draws = \<lambda>_. 1 / 2, rpos = 0\<rparr>, clock = 1000\<rparr>)) = nodesData \<lparr>nodesData = [\<lparr>node_id = JStr ''n1'', node_name = JStr ''Node 1'', node_type = JStr ''router'',
      region = JStr ''East'', latitude = 40, longitude = -74\<rparr>], performanceData = [\<lparr>perf_node_id = JStr ''n1'', timestamp = 0, temperature_celsius = 45,
      cpu_utilization_percent = 60, memory_utilization_percent = 50,
      throughput_utilization_percent = 40, download_bandwidth_mbps = 100,
      upload_bandwidth_mbps = 50, availability_percent = 99\<rparr>], simulatedDataIndex = 0,
      random_src = \<lparr>draws = \<lambda>_. 1 / 2, rpos = 0\<rparr>, clock = 1000\<rparr>"
proof -
  obtain nodes perf s' where h: "getFilteredData \<lparr>selectedRegion = ''East'', selectedNodeType = ''all'', selectedStatus = ''all''\<rparr> \<lparr>nodesData = [\<lparr>node_id = JStr ''n1'', node_name = JStr ''Node 1'', node_type = JStr ''router'',
      region = JStr ''East'', latitude = 40, longitude = -74\<rparr>], performanceData = [\<lparr>perf_node_id = JStr ''n1'', timestamp = 0, temperature_celsius = 45,
      cpu_utilization_percent = 60, memory_utilization_percent = 50,
      throughput_utilization_percent = 40, download_bandwidth_mbps = 100,
      upload_bandwidth_mbps = 50, availability_percent = 99\<rparr>], simulatedDataIndex = 0,
      random_src = \<lparr>draws = \<lambda>_. 1 / 2, rpos = 0\<rparr>, clock = 1000\<rparr> = ((nodes, perf), s')"
    by (metis prod.collapse)
  from getFilteredData_spec [OF h] h show ?thesis by simp
qed

end
