(* ===== verification/Formatting.thy ===== *)
theory Formatting
  imports Prelude "HOL-Library.Sublist"
begin

text \<open>
  The decimal text the page writes: \<open>Number.prototype.toString\<close> of an integer,
  and \<open>Number.prototype.toFixed\<close> of a finite number (ECMA-262, 21.1.3.3), with
  the reference decoders used to state what the text shows.
\<close>

section \<open>Definitions\<close>

fun nat_to_string :: "nat \<Rightarrow> string" where
  "nat_to_string n =
     (if n < 10 then [char_of (48 + n)] else nat_to_string (n div 10) @ [char_of (48 + n mod 10)])"

text \<open>\<open>Number.prototype.toString\<close> of an integer value.\<close>

definition int_to_string :: "int \<Rightarrow> string" where
  "int_to_string i = (if i < 0 then ''-'' @ nat_to_string (nat (- i)) else nat_to_string (nat i))"

text \<open>
  \<open>x.toFixed(f)\<close> for a finite \<open>x\<close>: a fraction digit count above 100 throws a
  \<open>RangeError\<close>, and a magnitude of \<open>10^21\<close> or more falls back to
  \<open>ToString(x)\<close>, whose exponential form is not modelled (both \<open>None\<close>). Otherwise
  the sign is split off, \<open>n\<close> is the integer closest to \<open>x * 10^f\<close> (the larger one
  on a tie), and its digits get a decimal point before the last \<open>f\<close>, padded with
  zeros to at least one integer digit.
\<close>

definition toFixed_digits :: "nat \<Rightarrow> nat \<Rightarrow> string" where
  "toFixed_digits f n =
     (let m = (if n = 0 then ''0'' else nat_to_string n)
      in if f \<noteq> 0 then
           (let k = length m;
                m = (if k \<le> f then replicate (f + 1 - k) (CHR ''0'') @ m else m);
                k = length m
            in take (k - f) m @ ''.'' @ drop (k - f) m)
         else m)"

definition js_toFixed :: "nat \<Rightarrow> real \<Rightarrow> string option" where
  "js_toFixed f x =
     (if 100 < f then None
      else
        (let s = (if x < 0 then ''-'' else []);
             x = \<bar>x\<bar>
         in if 10 ^ 21 \<le> x then None
            else Some (s @ toFixed_digits f (nat \<lfloor>x * 10 ^ f + 1 / 2\<rfloor>))))"

text \<open>
  \<open>ToString\<close> of a parsed cell, as a template literal or a DOM property applies it:
  strings unchanged, \<open>true\<close>/\<open>false\<close>, \<open>null\<close>, \<open>undefined\<close>, and an
  integral number below \<open>10^21\<close> in decimal. Any other number prints as the shortest
  decimal that round-trips its double, which a real-valued model cannot give: \<open>None\<close>.
\<close>

fun js_to_string :: "jsval \<Rightarrow> string option" where
  "js_to_string JUndefined = Some ''undefined''"
| "js_to_string JNull = Some ''null''"
| "js_to_string (JBool b) = Some (if b then ''true'' else ''false'')"
| "js_to_string (JStr s) = Some s"
| "js_to_string (JNum r) =
     (if r = of_int \<lfloor>r\<rfloor> \<and> \<bar>r\<bar> < 10 ^ 21 then Some (int_to_string \<lfloor>r\<rfloor>) else None)"

text \<open>Pieces of the HTML templates: a double-quoted attribute value, and a line break
  followed by the template's indentation.\<close>

definition quoted :: "string \<Rightarrow> string" where
  "quoted s = CHR 0x22 # s @ [CHR 0x22]"

definition indent :: "nat \<Rightarrow> string" where
  "indent n = CHR 0x0A # replicate n (CHR '' '')"

text \<open>The degree sign of \<open>'\<degree>C'\<close> (code unit 0xB0).\<close>

definition degree_sign :: char where
  "degree_sign = char_of (176 :: nat)"

text \<open>Reference decoders: a string of decimal digits, and an optionally signed decimal.\<close>

definition digits_val :: "string \<Rightarrow> nat" where
  "digits_val s = foldl (\<lambda>acc ch. 10 * acc + (of_char ch - 48)) 0 s"

definition unsigned_decimal_val :: "string \<Rightarrow> real" where
  "unsigned_decimal_val s =
     (let a = takeWhile (\<lambda>c. c \<noteq> CHR ''.'') s; b = drop 1 (dropWhile (\<lambda>c. c \<noteq> CHR ''.'') s)
      in real (digits_val a) + real (digits_val b) / 10 ^ length b)"

definition decimal_val :: "string \<Rightarrow> real" where
  "decimal_val s = (if s \<noteq> [] \<and> hd s = CHR ''-'' then - unsigned_decimal_val (tl s) else unsigned_decimal_val s)"

text \<open>The layout of a \<open>toFixed(f)\<close> text: an optional minus sign, at least one
  integer digit, and, when \<open>f > 0\<close>, a point followed by exactly \<open>f\<close> digits.\<close>

definition is_digit :: "char \<Rightarrow> bool" where
  "is_digit c \<longleftrightarrow> 48 \<le> (of_char c :: nat) \<and> (of_char c :: nat) < 58"

definition fixed_point_text :: "nat \<Rightarrow> string \<Rightarrow> bool" where
  "fixed_point_text f t \<longleftrightarrow>
     (let u = (if t \<noteq> [] \<and> hd t = CHR ''-'' then tl t else t);
          a = takeWhile (\<lambda>c. c \<noteq> CHR ''.'') u; b = dropWhile (\<lambda>c. c \<noteq> CHR ''.'') u
      in a \<noteq> [] \<and> list_all is_digit a \<and>
         (if f = 0 then b = [] else list_all is_digit (tl b) \<and> length (tl b) = f \<and> b \<noteq> []))"

declare nat_to_string.simps [simp del]

section \<open>Lemmas\<close>

lemma digits_val_snoc [simp]: "digits_val (xs @ [ch]) = 10 * digits_val xs + (of_char ch - 48)"
  by (simp add: digits_val_def)

lemma digits_val_zero_Cons [simp]: "digits_val (CHR ''0'' # xs) = digits_val xs"
  by (simp add: digits_val_def)

lemma digits_val_replicate_zero [simp]: "digits_val (replicate k (CHR ''0'') @ xs) = digits_val xs"
  by (induction k) simp_all

lemma digits_val_Nil [simp]: "digits_val [] = 0"
  by (simp add: digits_val_def)

lemma digits_val_foldl:
  "foldl (\<lambda>acc ch. 10 * acc + (of_char ch - 48)) a ys = a * 10 ^ length ys + digits_val ys"
proof (induction ys arbitrary: a)
  case Nil
  then show ?case by simp
next
  case (Cons y ys)
  have d: "digits_val (y # ys) = (of_char y - 48) * 10 ^ length ys + digits_val ys"
    using Cons.IH [of "of_char y - 48"] by (simp add: digits_val_def [of "y # ys"])
  have f: "foldl (\<lambda>acc ch. 10 * acc + (of_char ch - 48)) a (y # ys) =
           (10 * a + (of_char y - 48)) * 10 ^ length ys + digits_val ys"
    by (simp only: foldl_Cons Cons.IH)
  show ?case by (simp only: f d) (simp add: distrib_right)
qed

lemma digits_val_append: "digits_val (xs @ ys) = digits_val xs * 10 ^ length ys + digits_val ys"
  by (simp add: digits_val_def [of "xs @ ys"] digits_val_foldl [symmetric] digits_val_def [of xs])

lemma nat_to_string_roundtrip: "digits_val (nat_to_string n) = n"
proof (induction n rule: nat_to_string.induct)
  case (1 n)
  show ?case
  proof (cases "n < 10")
    case True
    then show ?thesis by (simp add: nat_to_string.simps [of n] digits_val_def)
  next
    case False
    with "1.IH" show ?thesis by (simp add: nat_to_string.simps [of n])
  qed
qed

lemma nat_to_string_length_small:
  assumes "n < 100"
  shows "length (nat_to_string n) = (if n < 10 then 1 else 2)"
proof (cases "n < 10")
  case True
  then show ?thesis by (simp add: nat_to_string.simps [of n])
next
  case False
  have "n div 10 < 10" using assms by simp
  with False show ?thesis by (simp add: nat_to_string.simps [of n] nat_to_string.simps [of "n div 10"])
qed

lemma int_to_string_of_nat [simp]: "int_to_string (int n) = nat_to_string n"
  by (simp add: int_to_string_def)

text \<open>Every character printed for a natural number is a decimal digit.\<close>

lemma is_digit_char_of [simp]: "k < (10 :: nat) \<Longrightarrow> is_digit (char_of (48 + k))"
  by (simp add: is_digit_def)

lemma nat_to_string_digits: "list_all is_digit (nat_to_string n) \<and> nat_to_string n \<noteq> []"
proof (induction n rule: nat_to_string.induct)
  case (1 n)
  then show ?case by (simp add: nat_to_string.simps [of n])
qed

lemma is_digit_zero [simp]: "is_digit (CHR ''0'')"
  by (simp add: is_digit_def)

lemma is_digit_not_point [simp]: "is_digit c \<Longrightarrow> c \<noteq> CHR ''.'' \<and> c \<noteq> CHR ''-''"
  by (auto simp: is_digit_def)


lemma nat_to_string_zero: "nat_to_string 0 = ''0''"
  by (simp add: nat_to_string.simps [of 0] char_of_def bit_0)

lemma unsigned_decimal_val_point:
  assumes "list_all is_digit a" and "list_all is_digit b"
  shows "unsigned_decimal_val (a @ CHR ''.'' # b) = real (digits_val a) + real (digits_val b) / 10 ^ length b"
proof -
  have "\<forall>c \<in> set a. c \<noteq> CHR ''.''" using assms(1) by (auto simp: list_all_iff)
  then show ?thesis by (simp add: unsigned_decimal_val_def takeWhile_append2 dropWhile_append2)
qed

lemma unsigned_decimal_val_digits:
  assumes "list_all is_digit a"
  shows "unsigned_decimal_val a = real (digits_val a)"
proof -
  have "\<forall>c \<in> set a. c \<noteq> CHR ''.''" using assms by (auto simp: list_all_iff)
  then have t: "takeWhile (\<lambda>c. c \<noteq> CHR ''.'') a = a"
    and d: "dropWhile (\<lambda>c. c \<noteq> CHR ''.'') a = []"
    by (simp_all add: takeWhile_eq_all_conv dropWhile_eq_Nil_conv)
  show ?thesis unfolding unsigned_decimal_val_def Let_def t d by simp
qed

lemma toFixed_digits_shape:
  "\<exists>a b. toFixed_digits f n = a @ (if f = 0 then [] else CHR ''.'' # b) \<and> a \<noteq> [] \<and>
         list_all is_digit a \<and> list_all is_digit b \<and> length b = f \<and>
         digits_val a * 10 ^ f + digits_val b = n"
proof -
  let ?m = "nat_to_string n"
  have m: "(if n = 0 then ''0'' else nat_to_string n) = ?m" by (simp add: nat_to_string_zero)
  have dm: "list_all is_digit ?m" "?m \<noteq> []" using nat_to_string_digits by simp_all
  show ?thesis
  proof (cases "f = 0")
    case True
    with dm show ?thesis
      by (intro exI [of _ ?m] exI [of _ "[]"]) (simp add: toFixed_digits_def m nat_to_string_roundtrip)
  next
    case False
    define m' where "m' = (if length ?m \<le> f then replicate (f + 1 - length ?m) (CHR ''0'') @ ?m else ?m)"
    have dm': "list_all is_digit m'" using dm(1) by (simp add: m'_def list_all_iff)
    have len: "f < length m'" by (simp add: m'_def)
    have val: "digits_val m' = n" by (simp add: m'_def nat_to_string_roundtrip)
    let ?a = "take (length m' - f) m'" and ?b = "drop (length m' - f) m'"
    have lb: "length ?b = f" using len by simp
    have ab: "digits_val ?a * 10 ^ f + digits_val ?b = n"
      using digits_val_append [of ?a ?b] lb val by simp
    have da: "list_all is_digit ?a" "list_all is_digit ?b"
      using dm' by (auto simp: list_all_iff dest: in_set_takeD in_set_dropD)
    have ne: "?a \<noteq> []" using len by (cases m') auto
    have eq: "toFixed_digits f n = ?a @ CHR ''.'' # ?b"
      using False by (simp add: toFixed_digits_def m m'_def Let_def)
    show ?thesis using False eq ne da lb ab by (intro exI [of _ ?a] exI [of _ ?b]) simp
  qed
qed

lemma toFixed_digits_val:
  "unsigned_decimal_val (toFixed_digits f n) = real n / 10 ^ f \<and>
   toFixed_digits f n \<noteq> [] \<and> is_digit (hd (toFixed_digits f n))"
proof -
  obtain a b where d: "toFixed_digits f n = a @ (if f = 0 then [] else CHR ''.'' # b)"
    and ne: "a \<noteq> []" and da: "list_all is_digit a" "list_all is_digit b"
    and lb: "length b = f" and ab: "digits_val a * 10 ^ f + digits_val b = n"
    using toFixed_digits_shape [of f n] by blast
  have r: "real n = real (digits_val a) * 10 ^ f + real (digits_val b)"
    using ab by (metis of_nat_add of_nat_mult of_nat_numeral of_nat_power)
  have hd: "is_digit (hd (toFixed_digits f n))" using da(1) ne d by (cases a) simp_all
  show ?thesis
  proof (cases "f = 0")
    case True
    then have "b = []" using lb by simp
    with True d da r hd ne show ?thesis by (simp add: unsigned_decimal_val_digits)
  next
    case False
    have "real (digits_val a) + real (digits_val b) / 10 ^ f = real n / 10 ^ f"
      using r by (simp add: field_simps)
    with False d ne hd unsigned_decimal_val_point [OF da] lb show ?thesis by simp
  qed
qed

lemma toFixed_digits_layout: "fixed_point_text f (toFixed_digits f n)"
proof -
  obtain a b where d: "toFixed_digits f n = a @ (if f = 0 then [] else CHR ''.'' # b)"
    and ne: "a \<noteq> []" and da: "list_all is_digit a" "list_all is_digit b" and lb: "length b = f"
    using toFixed_digits_shape [of f n] by blast
  have np: "\<forall>c \<in> set a. c \<noteq> CHR ''.''" using da(1) by (auto simp: list_all_iff)
  have hd: "hd (a @ xs) \<noteq> CHR ''-''" for xs using da(1) ne by (cases a) simp_all
  show ?thesis
    using ne da lb np hd [of "if f = 0 then [] else CHR ''.'' # b"]
    by (simp add: fixed_point_text_def d takeWhile_append2 dropWhile_append2)
qed

lemma fixed_point_text_minus:
  assumes "d \<noteq> []" and "hd d \<noteq> CHR ''-''"
  shows "fixed_point_text f (CHR ''-'' # d) = fixed_point_text f d"
  using assms by (simp add: fixed_point_text_def)

lemma js_toFixed_correct:
  assumes "f \<le> 100" and "\<bar>x\<bar> < 10 ^ 21"
  shows "\<exists>t. js_toFixed f x = Some t \<and> fixed_point_text f t \<and>
           decimal_val t = sgn x * real (nat \<lfloor>\<bar>x\<bar> * 10 ^ f + 1 / 2\<rfloor>) / 10 ^ f \<and>
           \<bar>decimal_val t - x\<bar> \<le> 1 / (2 * 10 ^ f)"
proof -
  let ?n = "nat \<lfloor>\<bar>x\<bar> * 10 ^ f + 1 / 2\<rfloor>"
  let ?d = "toFixed_digits f ?n"
  have dv: "unsigned_decimal_val ?d = real ?n / 10 ^ f" "?d \<noteq> []" "hd ?d \<noteq> CHR ''-''"
    using toFixed_digits_val [of f ?n] by auto
  have some: "js_toFixed f x = Some ((if x < 0 then ''-'' else []) @ ?d)"
    using assms by (simp add: js_toFixed_def Let_def)
  have lay: "fixed_point_text f ((if x < 0 then ''-'' else []) @ ?d)"
    using toFixed_digits_layout [of f ?n] fixed_point_text_minus [OF dv(2) dv(3), of f]
    by (cases "x < 0") simp_all
  have dec: "decimal_val ((if x < 0 then ''-'' else []) @ ?d) = sgn x * real ?n / 10 ^ f"
    using dv by (cases "x < 0") (auto simp: decimal_val_def sgn_if)
  have rn: "real ?n = of_int \<lfloor>\<bar>x\<bar> * 10 ^ f + 1 / 2\<rfloor>" by simp
  have lo: "\<bar>x\<bar> * 10 ^ f - 1 / 2 < real ?n" and hi: "real ?n \<le> \<bar>x\<bar> * 10 ^ f + 1 / 2"
    unfolding rn by linarith+
  have p: "(0::real) < 10 ^ f" by simp
  have "\<bar>real ?n / 10 ^ f - \<bar>x\<bar>\<bar> \<le> 1 / (2 * 10 ^ f)"
  proof -
    have "real ?n / 10 ^ f - \<bar>x\<bar> = (real ?n - \<bar>x\<bar> * 10 ^ f) / 10 ^ f"
      using p by (simp add: diff_divide_distrib)
    then have "\<bar>real ?n / 10 ^ f - \<bar>x\<bar>\<bar> = \<bar>real ?n - \<bar>x\<bar> * 10 ^ f\<bar> / 10 ^ f"
      by simp
    also have "\<dots> \<le> (1 / 2) / 10 ^ f"
      using lo hi p by (intro divide_right_mono) linarith+
    finally show ?thesis by simp
  qed
  then have "\<bar>sgn x * real ?n / 10 ^ f - x\<bar> \<le> 1 / (2 * 10 ^ f)"
    by (cases "x < 0") (auto simp: sgn_if abs_if split: if_splits)
  with some lay dec show ?thesis by auto
qed

end
