(* ===== verification/Views.thy ===== *)
theory Views
  imports Filter_Engine Formatting
begin

text \<open>
  The view builder: the pure data each rendering function of lines 267--781 hands to
  the DOM or to Plotly, computed from the filtered, tagged nodes. Status counters and
  percentages (\<open>updateNetworkStatus\<close>), map marker colours (\<open>updateNetworkMap\<close>),
  averages and trend sparklines (\<open>updateKeyMetrics\<close>, \<open>getRandomTrendData\<close>),
  the ranked temperature and utilization bar charts, the maintenance lists and the
  synthetic maintenance schedule. Layout objects, HTML text and number formatting
  (\<open>toFixed\<close>, \<open>toLocaleTimeString\<close>) are rendering and are not modelled; the
  values they format are.
\<close>

section \<open>Definitions\<close>

subsection \<open>Status counters (lines 267--297)\<close>

record status_view =
  healthy_count :: nat
  warning_count :: nat
  critical_count :: nat
  healthy_percent :: jsnum
  warning_percent :: jsnum
  critical_percent :: jsnum
  alert_count :: nat

definition count_status :: "status \<Rightarrow> enriched_node list \<Rightarrow> nat" where
  "count_status st nodes = length (filter (\<lambda>node. status node = st) nodes)"

definition updateNetworkStatus :: "enriched_node list \<Rightarrow> status_view" where
  "updateNetworkStatus nodes =
     (let healthyCounts = count_status Healthy nodes;
          warningCounts = count_status Warning nodes;
          criticalCounts = count_status Critical nodes;
          total = length nodes
      in \<lparr>healthy_count = healthyCounts, warning_count = warningCounts,
          critical_count = criticalCounts,
          healthy_percent = js_mul (js_div (real healthyCounts) (real total)) 100,
          warning_percent = js_mul (js_div (real warningCounts) (real total)) 100,
          critical_percent = js_mul (js_div (real criticalCounts) (real total)) 100,
          alert_count = warningCounts + criticalCounts\<rparr>)"

text \<open>
  The counter texts (lines 275--277): \<open>textContent\<close> of a count is its decimal
  \<open>toString\<close>.
\<close>

definition status_texts :: "status_view \<Rightarrow> string \<times> string \<times> string" where
  "status_texts sv =
     (nat_to_string (healthy_count sv), nat_to_string (warning_count sv),
      nat_to_string (critical_count sv))"

text \<open>The alert badges of the key-metrics card (lines 294--296), with the template's line
  break and indentation.\<close>

definition alert_badges_html :: "status_view \<Rightarrow> string" where
  "alert_badges_html sv =
     ''<span class='' @ quoted ''badge bg-danger me-1'' @ ''>'' @ nat_to_string (critical_count sv) @
     '' Critical</span>'' @ indent 9 @
     ''<span class='' @ quoted ''badge bg-warning text-dark'' @ ''>'' @ nat_to_string (warning_count sv) @
     '' Warning</span>''"

subsection \<open>Map markers (lines 299--343)\<close>

fun marker_color :: "status \<Rightarrow> string" where
  "marker_color Critical = ''red''"
| "marker_color Warning = ''orange''"
| "marker_color Healthy = ''green''"
| "marker_color Unknown = ''gray''"

text \<open>The marker's hover text (line 305), built from the cells by \<open>ToString\<close>.\<close>

definition map_hover_text :: "enriched_node \<Rightarrow> string option" where
  "map_hover_text node =
     (case (js_to_string (node_name node), js_to_string (node_type node), js_to_string (region node)) of
        (Some name, Some nodeType, Some reg) \<Rightarrow> Some (name @ ''<br>Type: '' @ nodeType @ ''<br>Region: '' @ reg)
      | _ \<Rightarrow> None)"

record map_view =
  map_lon :: "real list"
  map_lat :: "real list"
  map_text :: "string option list"
  map_colors :: "string list"

definition updateNetworkMap :: "enriched_node list \<Rightarrow> map_view" where
  "updateNetworkMap nodes =
     \<lparr>map_lon = map longitude nodes, map_lat = map latitude nodes,
      map_text = map map_hover_text nodes,
      map_colors = map (\<lambda>node. marker_color (status node)) nodes\<rparr>"

subsection \<open>Key metrics and trend sparklines (lines 345--385)\<close>

text \<open>\<open>node.performance ? node.performance.f : 0\<close>.\<close>

definition perf_metric :: "(perf_sample \<Rightarrow> real) \<Rightarrow> enriched_node \<Rightarrow> real" where
  "perf_metric f node = (case performance node of Some p \<Rightarrow> f p | None \<Rightarrow> 0)"

text \<open>\<open>nodes.reduce((sum, node) => sum + ..., 0) / nodes.length\<close>.\<close>

definition avg_metric :: "(perf_sample \<Rightarrow> real) \<Rightarrow> enriched_node list \<Rightarrow> real" where
  "avg_metric f nodes = foldl (\<lambda>sum node. sum + perf_metric f node) 0 nodes / real (length nodes)"

text \<open>
  The \<open>for\<close> loop of \<open>getRandomTrendData\<close> as the source writes it: the counter
  \<open>i\<close> counts up from 0 under the guard \<open>i < 10\<close>, and each value is
  \<open>unshift\<close>ed. No argument shrinks, so termination is argued by the measure
  \<open>10 - i\<close>.
\<close>

function (domintros) trend_for :: "nat \<Rightarrow> real \<Rightarrow> real \<Rightarrow> real list \<Rightarrow> rng \<Rightarrow> real list \<times> rng" where
  "trend_for i maxVariation value data g =
     (if i < 10 then
        (let (r, g') = math_random g;
             value' = value + (r * 2 - 1) * (maxVariation / 2)
         in trend_for (Suc i) maxVariation value' (value' # data) g')
      else (data, g))"
  by pat_completeness auto
termination
  by (relation "measure (\<lambda>(i, _). 10 - i)") auto

declare trend_for.simps [simp del]

definition getRandomTrendData :: "real \<Rightarrow> real \<Rightarrow> rng \<Rightarrow> real list \<times> rng" where
  "getRandomTrendData currentValue maxVariation g =
     (let (data, g') = trend_for 0 maxVariation currentValue [] g in (data @ [currentValue], g'))"

text \<open>
  Reference forms of the loop. \<open>trend_loop\<close> counts the iterations left, which makes
  it structurally recursive. \<open>trend_ref\<close> is the sparkline in closed form: the
  \<open>k\<close>-th value from the right is the current value plus the first \<open>k\<close> random
  steps, and \<open>trend_step g m j\<close> is the step drawn by the \<open>j\<close>-th call.
\<close>

fun trend_loop :: "nat \<Rightarrow> real \<Rightarrow> real \<Rightarrow> real list \<Rightarrow> rng \<Rightarrow> real list \<times> rng" where
  "trend_loop 0 maxVariation value data g = (data, g)"
| "trend_loop (Suc i) maxVariation value data g =
     (let (r, g') = math_random g;
          value' = value + (r * 2 - 1) * (maxVariation / 2)
      in trend_loop i maxVariation value' (value' # data) g')"

definition trend_step :: "rng \<Rightarrow> real \<Rightarrow> nat \<Rightarrow> real" where
  "trend_step g m j = (draws g (rpos g + j) * 2 - 1) * (m / 2)"

definition trend_ref :: "real \<Rightarrow> real \<Rightarrow> rng \<Rightarrow> real list" where
  "trend_ref c m g = map (\<lambda>k. c + (\<Sum>j<k. trend_step g m j)) (rev [1..<11]) @ [c]"

record metrics_view =
  avg_temp :: real
  avg_cpu :: real
  avg_avail :: real
  temp_trend :: "real list"
  cpu_trend :: "real list"
  avail_trend :: "real list"
  temp_text :: "string option"
  cpu_text :: "string option"
  avail_text :: "string option"

text \<open>
  \<open>None\<close> is the early return on an empty node list: the cards keep their old values.
  The card texts are \<open>avg.toFixed(1) + '\<degree>C'\<close>, \<open>avg.toFixed(1) + '%'\<close> and
  \<open>avg.toFixed(2) + '%'\<close>; a text is \<open>None\<close> where \<open>toFixed\<close> is not modelled.
\<close>

definition updateKeyMetrics :: "enriched_node list \<Rightarrow> rng \<Rightarrow> metrics_view option \<times> rng" where
  "updateKeyMetrics nodes g =
     (if length nodes = 0 then (None, g)
      else
        (let avgTemp = avg_metric temperature_celsius nodes;
             avgCpu = avg_metric cpu_utilization_percent nodes;
             avgAvail = avg_metric availability_percent nodes;
             (t, g1) = getRandomTrendData avgTemp 5 g;
             (c, g2) = getRandomTrendData avgCpu 10 g1;
             (a, g3) = getRandomTrendData avgAvail 1 g2
         in (Some \<lparr>avg_temp = avgTemp, avg_cpu = avgCpu, avg_avail = avgAvail,
                   temp_trend = t, cpu_trend = c, avail_trend = a,
                   temp_text = map_option (\<lambda>txt. txt @ [degree_sign, CHR ''C'']) (js_toFixed 1 avgTemp),
                   cpu_text = map_option (\<lambda>txt. txt @ ''%'') (js_toFixed 1 avgCpu),
                   avail_text = map_option (\<lambda>txt. txt @ ''%'') (js_toFixed 2 avgAvail)\<rparr>, g3)))"

subsection \<open>Ranked bar charts (lines 410--630)\<close>

text \<open>
  \<open>nodes.sort((a, b) => vB - vA)\<close>: since ES2019 \<open>Array.prototype.sort\<close> is
  stable, so this is a descending sort by the value with ties left in input order,
  which is the library's stable insertion sort on the negated value.
\<close>

definition sort_desc :: "(enriched_node \<Rightarrow> real) \<Rightarrow> enriched_node list \<Rightarrow> enriched_node list" where
  "sort_desc f nodes = sort_key (\<lambda>node. - f node) nodes"

fun bar_color :: "thresholds \<Rightarrow> real \<Rightarrow> string" where
  "bar_color th v =
     (if v > critical th then ''#dc3545'' else if v > warning th then ''#ffc107'' else ''#28a745'')"

record bar_chart =
  bar_x :: "jsval list"
  bar_y :: "real list"
  bar_colors :: "string list"
  chart_thresholds :: thresholds

definition bar_chart_of :: "thresholds \<Rightarrow> (enriched_node \<Rightarrow> real) \<Rightarrow> enriched_node list \<Rightarrow> bar_chart" where
  "bar_chart_of th f topNodes =
     \<lparr>bar_x = map node_name topNodes, bar_y = map f topNodes,
      bar_colors = map (\<lambda>node. bar_color th (f node)) topNodes, chart_thresholds = th\<rparr>"

text \<open>The temperature view selector (lines 413--422).\<close>

definition temp_view_filter :: "string \<Rightarrow> enriched_node list \<Rightarrow> enriched_node list" where
  "temp_view_filter tempViewType nodes =
     (if tempViewType = ''warning'' then
        filter (\<lambda>node. case performance node of None \<Rightarrow> False
                   | Some p \<Rightarrow> temperature_celsius p > warning temperatureThresholds) nodes
      else if tempViewType = ''critical'' then
        filter (\<lambda>node. case performance node of None \<Rightarrow> False
                   | Some p \<Rightarrow> temperature_celsius p > critical temperatureThresholds) nodes
      else nodes)"

definition temperature_chart :: "string \<Rightarrow> enriched_node list \<Rightarrow> bar_chart" where
  "temperature_chart tempViewType nodes =
     (let filteredNodes = temp_view_filter tempViewType nodes;
          filteredNodes = sort_desc (perf_metric temperature_celsius) filteredNodes;
          filteredNodes = take 20 filteredNodes
      in bar_chart_of temperatureThresholds (perf_metric temperature_celsius) filteredNodes)"

text \<open>
  \<open>updateTemperatureChart\<close> ignores its argument and calls \<open>getFilteredData\<close>
  again, so it runs the simulator once more.
\<close>

definition updateTemperatureChart :: "string \<Rightarrow> filter_sel \<Rightarrow> dash_state \<Rightarrow> bar_chart \<times> dash_state" where
  "updateTemperatureChart tempViewType sel s =
     (let ((nodes, _), s') = getFilteredData sel s in (temperature_chart tempViewType nodes, s'))"

text \<open>
  The metric selector's \<open>switch\<close> (lines 522--539). The field's value \<open>|| 0\<close> is the
  value itself for the numeric fields of this model.
\<close>

definition util_config :: "string \<Rightarrow> (perf_sample \<Rightarrow> real) \<times> string \<times> thresholds" where
  "util_config metricType =
     (if metricType = ''memory'' then
        (memory_utilization_percent, ''Memory Utilization (%)'', \<lparr>warning = 80, critical = 90\<rparr>)
      else if metricType = ''network'' then
        (throughput_utilization_percent, ''Network Utilization (%)'', \<lparr>warning = 75, critical = 90\<rparr>)
      else (cpu_utilization_percent, ''CPU Utilization (%)'', cpuThresholds))"

definition utilization_chart :: "string \<Rightarrow> enriched_node list \<Rightarrow> string \<times> bar_chart" where
  "utilization_chart metricType nodes =
     (let (metricField, title, th) = util_config metricType;
          sorted_nodes = sort_desc (perf_metric metricField) nodes;
          topNodes = take 20 sorted_nodes
      in (title, bar_chart_of th (perf_metric metricField) topNodes))"

definition updateUtilizationChart ::
  "string \<Rightarrow> filter_sel \<Rightarrow> dash_state \<Rightarrow> (string \<times> bar_chart) \<times> dash_state" where
  "updateUtilizationChart metricType sel s =
     (let ((nodes, _), s') = getFilteredData sel s in (utilization_chart metricType nodes, s'))"

subsection \<open>Maintenance lists (lines 632--719)\<close>

datatype critical_issue =
  TemperatureCritical real | CpuOverload real | LowAvailability real | MultipleIssues | NoIssueText

definition critical_issue_of :: "enriched_node \<Rightarrow> critical_issue" where
  "critical_issue_of node =
     (case performance node of
        None \<Rightarrow> NoIssueText
      | Some p \<Rightarrow>
          if temperature_celsius p > critical temperatureThresholds then TemperatureCritical (temperature_celsius p)
          else if cpu_utilization_percent p > critical cpuThresholds then CpuOverload (cpu_utilization_percent p)
          else if availability_percent p < 95 then LowAvailability (availability_percent p)
          else MultipleIssues)"

datatype warning_issue = HighTemperature real | HighCpu real | PerformanceDegradation | NoWarningText

definition warning_issue_of :: "enriched_node \<Rightarrow> warning_issue" where
  "warning_issue_of node =
     (case performance node of
        None \<Rightarrow> NoWarningText
      | Some p \<Rightarrow>
          if temperature_celsius p > warning temperatureThresholds then HighTemperature (temperature_celsius p)
          else if cpu_utilization_percent p > warning cpuThresholds then HighCpu (cpu_utilization_percent p)
          else PerformanceDegradation)"

text \<open>
  The issue texts of the list items (lines 650--659 and 689--696), with the
  metric printed by \<open>toFixed\<close>.
\<close>

fun critical_issue_text :: "critical_issue \<Rightarrow> string option" where
  "critical_issue_text (TemperatureCritical t) =
     map_option (\<lambda>s. ''Temperature critical: '' @ s @ [degree_sign, CHR ''C'']) (js_toFixed 1 t)"
| "critical_issue_text (CpuOverload c) = map_option (\<lambda>s. ''CPU overload: '' @ s @ ''%'') (js_toFixed 1 c)"
| "critical_issue_text (LowAvailability a) = map_option (\<lambda>s. ''Low availability: '' @ s @ ''%'') (js_toFixed 2 a)"
| "critical_issue_text MultipleIssues = Some ''Multiple issues detected''"
| "critical_issue_text NoIssueText = Some []"

fun warning_issue_text :: "warning_issue \<Rightarrow> string option" where
  "warning_issue_text (HighTemperature t) =
     map_option (\<lambda>s. ''High temperature: '' @ s @ [degree_sign, CHR ''C'']) (js_toFixed 1 t)"
| "warning_issue_text (HighCpu c) = map_option (\<lambda>s. ''High CPU: '' @ s @ ''%'') (js_toFixed 1 c)"
| "warning_issue_text PerformanceDegradation = Some ''Performance degradation''"
| "warning_issue_text NoWarningText = Some []"

text \<open>The \<open>+N more warnings\<close> line (line 709).\<close>

definition more_warnings_text :: "nat \<Rightarrow> string" where
  "more_warnings_text k = ''+'' @ nat_to_string k @ '' more warnings''"

text \<open>
  The \<open>innerHTML\<close> of the list items (lines 662--666 and 699--703): the cells and
  the issue text are interpolated as they are, with the template's line breaks and
  indentation.
\<close>

definition critical_item_html :: "enriched_node \<Rightarrow> string option" where
  "critical_item_html node =
     (case (js_to_string (node_name node), js_to_string (node_type node),
            critical_issue_text (critical_issue_of node)) of
        (Some name, Some nodeType, Some issueText) \<Rightarrow>
          Some (indent 16 @ ''<strong>'' @ name @ ''</strong> ('' @ nodeType @ '')<br>'' @
                indent 16 @ ''<span class='' @ quoted ''badge bg-danger'' @ ''>Critical</span> '' @
                issueText @ ''<br>'' @
                indent 16 @ ''<small class='' @ quoted ''text-muted'' @
                ''>Recommended action: Immediate maintenance required</small>'' @ indent 12)
      | _ \<Rightarrow> None)"

definition warning_item_html :: "enriched_node \<Rightarrow> string option" where
  "warning_item_html node =
     (case (js_to_string (node_name node), warning_issue_text (warning_issue_of node)) of
        (Some name, Some warningText) \<Rightarrow>
          Some (indent 16 @ ''<strong>'' @ name @ ''</strong><br>'' @
                indent 16 @ ''<span class='' @ quoted ''badge bg-warning text-dark'' @ ''>Warning</span> '' @
                warningText @ ''<br>'' @
                indent 16 @ ''<small class='' @ quoted ''text-muted'' @ ''>Monitor closely</small>'' @ indent 12)
      | _ \<Rightarrow> None)"

text \<open>The list items: name, type and issue of every critical node; name and issue of
  at most five warning nodes, and the \<open>+N more warnings\<close> count.\<close>

datatype critical_list = NoCriticalIssues | CriticalItems "(jsval \<times> jsval \<times> critical_issue) list"

datatype warning_list = NoWarnings | WarningItems "(jsval \<times> warning_issue) list" "nat option"

definition critical_alerts :: "enriched_node list \<Rightarrow> critical_list" where
  "critical_alerts nodes =
     (let criticalNodes = filter (\<lambda>node. status node = Critical) nodes
      in if length criticalNodes = 0 then NoCriticalIssues
         else CriticalItems (map (\<lambda>node. (node_name node, node_type node, critical_issue_of node)) criticalNodes))"

definition warning_alerts :: "enriched_node list \<Rightarrow> warning_list" where
  "warning_alerts nodes =
     (let warningNodes = filter (\<lambda>node. status node = Warning) nodes
      in if length warningNodes = 0 then NoWarnings
         else WarningItems (map (\<lambda>node. (node_name node, warning_issue_of node)) (take 5 warningNodes))
                (if length warningNodes > 5 then Some (length warningNodes - 5) else None))"

subsection \<open>Synthetic maintenance schedule (lines 721--781)\<close>

text \<open>Each entry: the node's name and its offset from now, in hours for critical
  nodes (\<open>Math.floor(Math.random() * 24)\<close>) and in days for warning nodes
  (\<open>Math.floor(Math.random() * 7) + 1\<close>).\<close>

datatype schedule_list = NoMaintenanceScheduled | MaintenanceItems "(jsval \<times> int) list" "(jsval \<times> int) list"

fun schedule_critical :: "enriched_node list \<Rightarrow> rng \<Rightarrow> (jsval \<times> int) list \<times> rng" where
  "schedule_critical [] g = ([], g)"
| "schedule_critical (node # nodes) g =
     (let (r, g1) = math_random g; hours = \<lfloor>r * 24\<rfloor>;
          (rest, g2) = schedule_critical nodes g1
      in ((node_name node, hours) # rest, g2))"

fun schedule_warning :: "enriched_node list \<Rightarrow> rng \<Rightarrow> (jsval \<times> int) list \<times> rng" where
  "schedule_warning [] g = ([], g)"
| "schedule_warning (node # nodes) g =
     (let (r, g1) = math_random g; days = \<lfloor>r * 7\<rfloor> + 1;
          (rest, g2) = schedule_warning nodes g1
      in ((node_name node, days) # rest, g2))"

definition generateMaintenanceSchedule :: "enriched_node list \<Rightarrow> rng \<Rightarrow> schedule_list \<times> rng" where
  "generateMaintenanceSchedule nodes g =
     (let criticalNodes = filter (\<lambda>node. status node = Critical) nodes;
          warningNodes = filter (\<lambda>node. status node = Warning) nodes
      in if length criticalNodes = 0 \<and> length warningNodes = 0 then (NoMaintenanceScheduled, g)
         else
           (let (c, g1) = schedule_critical (take 3 criticalNodes) g;
                (w, g2) = schedule_warning (take 3 warningNodes) g1
            in (MaintenanceItems c w, g2)))"

record alerts_view =
  critical_items :: critical_list
  warning_items :: warning_list
  schedule :: schedule_list

definition updateMaintenanceAlerts :: "enriched_node list \<Rightarrow> rng \<Rightarrow> alerts_view \<times> rng" where
  "updateMaintenanceAlerts nodes g =
     (let (sch, g') = generateMaintenanceSchedule nodes g
      in (\<lparr>critical_items = critical_alerts nodes, warning_items = warning_alerts nodes,
           schedule = sch\<rparr>, g'))"

declare count_status_def [dash_defs] updateNetworkStatus_def [dash_defs]
  updateNetworkMap_def [dash_defs] perf_metric_def [dash_defs] avg_metric_def [dash_defs]
  getRandomTrendData_def [dash_defs] updateKeyMetrics_def [dash_defs]
  sort_desc_def [dash_defs] bar_chart_of_def [dash_defs] temp_view_filter_def [dash_defs]
  temperature_chart_def [dash_defs] updateTemperatureChart_def [dash_defs] util_config_def [dash_defs]
  utilization_chart_def [dash_defs] updateUtilizationChart_def [dash_defs]
  critical_issue_of_def [dash_defs] warning_issue_of_def [dash_defs] critical_alerts_def [dash_defs]
  warning_alerts_def [dash_defs] generateMaintenanceSchedule_def [dash_defs]
  updateMaintenanceAlerts_def [dash_defs]

section \<open>Lemmas\<close>

lemma count_status_sum:
  "count_status Healthy nodes + count_status Warning nodes + count_status Critical nodes +
   count_status Unknown nodes = length nodes"
proof (induction nodes)
  case Nil
  then show ?case by (simp add: count_status_def)
next
  case (Cons n nodes)
  then show ?case by (cases "status n") (simp_all add: count_status_def)
qed

lemma count_status_alerts:
  "length (filter (\<lambda>n. status n \<in> {Warning, Critical}) nodes) =
     count_status Warning nodes + count_status Critical nodes"
  by (induction nodes) (auto simp: count_status_def)

text \<open>
  C5. Each counter counts the filtered nodes of its own status, the alert badge counts
  the nodes that are warning or critical, and the three counters together with the
  nodes of unknown status (no snapshot) account for every filtered node.
\<close>

theorem updateNetworkStatus_counts:
  "healthy_count (updateNetworkStatus nodes) = length (filter (\<lambda>n. status n = Healthy) nodes) \<and>
   warning_count (updateNetworkStatus nodes) = length (filter (\<lambda>n. status n = Warning) nodes) \<and>
   critical_count (updateNetworkStatus nodes) = length (filter (\<lambda>n. status n = Critical) nodes) \<and>
   alert_count (updateNetworkStatus nodes) =
     length (filter (\<lambda>n. status n \<in> {Warning, Critical}) nodes) \<and>
   healthy_count (updateNetworkStatus nodes) + warning_count (updateNetworkStatus nodes) +
   critical_count (updateNetworkStatus nodes) + length (filter (\<lambda>n. status n = Unknown) nodes) =
     length nodes"
  using count_status_sum [of nodes] count_status_alerts [of nodes]
  by (simp add: updateNetworkStatus_def Let_def count_status_def)

text \<open>
  C6. Each progress-bar percentage is 100 times the share of the filtered nodes that
  have its own status. With no filtered node every percentage is \<open>0 / 0 * 100\<close>,
  that is NaN: the code has no guard for the empty case.
\<close>

theorem updateNetworkStatus_percents:
  "healthy_percent (updateNetworkStatus nodes) =
     (if nodes = [] then NaN
      else Fin (100 * real (length (filter (\<lambda>n. status n = Healthy) nodes)) / real (length nodes))) \<and>
   warning_percent (updateNetworkStatus nodes) =
     (if nodes = [] then NaN
      else Fin (100 * real (length (filter (\<lambda>n. status n = Warning) nodes)) / real (length nodes))) \<and>
   critical_percent (updateNetworkStatus nodes) =
     (if nodes = [] then NaN
      else Fin (100 * real (length (filter (\<lambda>n. status n = Critical) nodes)) / real (length nodes)))"
  by (simp add: updateNetworkStatus_def Let_def count_status_def js_div_def)

text \<open>
  C7. When the filtered set is non-empty and every node has a snapshot, the three
  percentages are finite and add up to 100.
\<close>

theorem updateNetworkStatus_percent_sum:
  assumes "nodes \<noteq> []" and "count_status Unknown nodes = 0"
  shows "\<exists>h w c. healthy_percent (updateNetworkStatus nodes) = Fin h \<and>
           warning_percent (updateNetworkStatus nodes) = Fin w \<and>
           critical_percent (updateNetworkStatus nodes) = Fin c \<and> h + w + c = 100"
proof -
  let ?n = "real (length nodes)"
  have n: "?n \<noteq> 0" using assms(1) by simp
  have sum: "real (count_status Healthy nodes) + real (count_status Warning nodes) +
             real (count_status Critical nodes) = ?n"
    using count_status_sum [of nodes] assms(2) by (simp flip: of_nat_add)
  have "real (count_status Healthy nodes) / ?n * 100 + real (count_status Warning nodes) / ?n * 100 +
        real (count_status Critical nodes) / ?n * 100 = 100"
    using n sum by (simp add: field_simps)
  then show ?thesis using n by (simp add: updateNetworkStatus_def Let_def js_div_def)
qed

lemma trend_for_trend_loop [simp]:
  "trend_for i m v data g = trend_loop (10 - i) m v data g"
proof (induction i m v data g rule: trend_for.induct)
  case (1 i m v data g)
  show ?case
  proof (cases "i < 10")
    case True
    then have "10 - i = Suc (10 - Suc i)" by simp
    with True "1.IH" show ?thesis
      by (simp add: trend_for.simps [of i m v data g] split_def Let_def)
  next
    case False
    then show ?thesis by (simp add: trend_for.simps [of i m v data g])
  qed
qed

lemma trend_step_Suc:
  "trend_step (snd (math_random g)) m j = trend_step g m (Suc j)"
  by (simp add: trend_step_def)

lemma trend_loop_closed:
  "fst (trend_loop n m v data g) = map (\<lambda>k. v + (\<Sum>j<k. trend_step g m j)) (rev [1..<Suc n]) @ data \<and>
   snd (trend_loop n m v data g) = g\<lparr>rpos := rpos g + n\<rparr>"
proof (induction n arbitrary: v data g)
  case 0
  then show ?case by simp
next
  case (Suc n)
  define F where "F = (\<lambda>k. v + (\<Sum>j<k. trend_step g m j))"
  let ?v' = "v + trend_step g m 0"
  have step: "trend_loop (Suc n) m v data g = trend_loop n m ?v' (?v' # data) (snd (math_random g))"
    by (simp add: split_def Let_def trend_step_def math_random_def)
  have f: "(\<lambda>k. ?v' + (\<Sum>j<k. trend_step (snd (math_random g)) m j)) = F \<circ> Suc"
    by (rule ext) (simp add: F_def trend_step_Suc sum.lessThan_Suc_shift del: sum.lessThan_Suc)
  have "[1..<Suc (Suc n)] = 1 # map Suc [1..<Suc n]"
    by (simp add: map_Suc_upt upt_conv_Cons del: upt_Suc)
  then have "map F (rev [1..<Suc (Suc n)]) @ data = map (F \<circ> Suc) (rev [1..<Suc n]) @ F 1 # data"
    by (simp add: rev_map del: upt_Suc)
  moreover have "F 1 = ?v'" by (simp add: F_def)
  ultimately show ?case
    using Suc.IH [of ?v' "?v' # data" "snd (math_random g)"] step f
    by (simp add: F_def math_random_def del: upt_Suc)
qed

lemma getRandomTrendData_rng [simp]: "snd (getRandomTrendData c m g) = g\<lparr>rpos := rpos g + 10\<rparr>"
  using trend_loop_closed [of 10 m c "[]" g] by (simp add: getRandomTrendData_def split_def)

lemma updateKeyMetrics_rng:
  "snd (updateKeyMetrics nodes g) = (if nodes = [] then g else g\<lparr>rpos := rpos g + 30\<rparr>)"
  by (simp add: updateKeyMetrics_def split_def Let_def)

lemma trend_loop_steps:
  assumes "rng_ok g" and "hd (data @ [c]) = v"
    and "successively (\<lambda>x y. \<bar>x - y\<bar> \<le> \<bar>m\<bar> / 2) (data @ [c])"
  shows "successively (\<lambda>x y. \<bar>x - y\<bar> \<le> \<bar>m\<bar> / 2) (fst (trend_loop i m v data g) @ [c]) \<and>
         length (fst (trend_loop i m v data g)) = i + length data"
  using assms
proof (induction i arbitrary: v data g)
  case 0
  then show ?case by simp
next
  case (Suc i)
  let ?r = "fst (math_random g)"
  let ?v' = "v + (?r * 2 - 1) * (m / 2)"
  have "0 \<le> ?r" "?r < 1" using math_random_range [OF Suc.prems(1)] by auto
  then have "\<bar>(?r * 2 - 1) * (m / 2)\<bar> \<le> \<bar>m / 2\<bar>" by (rule variation_bound)
  then have step: "\<bar>?v' - v\<bar> \<le> \<bar>m\<bar> / 2" by simp
  have "successively (\<lambda>x y. \<bar>x - y\<bar> \<le> \<bar>m\<bar> / 2) ((?v' # data) @ [c])"
    using Suc.prems(2,3) step by (simp add: successively_Cons)
  then have "successively (\<lambda>x y. \<bar>x - y\<bar> \<le> \<bar>m\<bar> / 2) (fst (trend_loop i m ?v' (?v' # data) (snd (math_random g))) @ [c]) \<and>
      length (fst (trend_loop i m ?v' (?v' # data) (snd (math_random g)))) = i + length (?v' # data)"
    using Suc.prems(1) by (intro Suc.IH) simp_all
  then show ?case by (simp add: split_def Let_def)
qed

text \<open>
  C20. Each sparkline has eleven points, ends with the current aggregate, and two
  neighbouring points differ by at most half the metric's variation.
\<close>

theorem getRandomTrendData_shape:
  assumes "rng_ok g"
  shows "length (fst (getRandomTrendData c m g)) = 11 \<and> last (fst (getRandomTrendData c m g)) = c \<and>
         successively (\<lambda>x y. \<bar>x - y\<bar> \<le> \<bar>m\<bar> / 2) (fst (getRandomTrendData c m g))"
  using trend_loop_steps [OF assms, of "[]" c c m 10] by (simp add: getRandomTrendData_def split_def Let_def)

lemma trend_loop_length_rpos:
  "length (fst (trend_loop i m v data g)) = i + length data \<and>
   rpos (snd (trend_loop i m v data g)) = rpos g + i \<and> draws (snd (trend_loop i m v data g)) = draws g"
  by (induction i arbitrary: v data g) (simp_all add: split_def Let_def)

lemma getRandomTrendData_frame:
  "length (fst (getRandomTrendData c m g)) = 11 \<and> last (fst (getRandomTrendData c m g)) = c \<and>
   rpos (snd (getRandomTrendData c m g)) = rpos g + 10 \<and> draws (snd (getRandomTrendData c m g)) = draws g"
  using trend_loop_length_rpos [of 10 m c "[]" g] by (simp add: getRandomTrendData_def split_def Let_def)

lemma foldl_perf_metric:
  "foldl (\<lambda>sum node. sum + perf_metric f node) a nodes =
   a + sum_list (map f (List.map_filter performance nodes))"
  by (induction nodes arbitrary: a) (simp_all add: perf_metric_def List.map_filter_simps split: option.split)

lemma avg_metric_snapshots:
  "avg_metric f nodes = sum_list (map f (List.map_filter performance nodes)) / real (length nodes)"
  by (simp add: avg_metric_def foldl_perf_metric)

text \<open>
  C21. The key-metric cards follow the aggregate contract: with no nodes nothing is
  computed and no random number is drawn; otherwise each card shows the sum of the metric
  over the nodes that have a snapshot divided by the number of all filtered nodes
  (nodes without a snapshot count as 0), each sparkline has 11 points ending at its
  card's value, and the three sparklines consume 30 draws.
\<close>

theorem updateKeyMetrics_spec:
  "(nodes = [] \<longrightarrow> updateKeyMetrics nodes g = (None, g)) \<and>
   (nodes \<noteq> [] \<longrightarrow> (\<exists>m. fst (updateKeyMetrics nodes g) = Some m \<and>
    avg_temp m = sum_list (map temperature_celsius (List.map_filter performance nodes)) / real (length nodes) \<and>
    avg_cpu m = sum_list (map cpu_utilization_percent (List.map_filter performance nodes)) / real (length nodes) \<and>
    avg_avail m = sum_list (map availability_percent (List.map_filter performance nodes)) / real (length nodes) \<and>
    last (temp_trend m) = avg_temp m \<and> last (cpu_trend m) = avg_cpu m \<and> last (avail_trend m) = avg_avail m \<and>
    length (temp_trend m) = 11 \<and> length (cpu_trend m) = 11 \<and> length (avail_trend m) = 11 \<and>
    rpos (snd (updateKeyMetrics nodes g)) = rpos g + 30))"
  using getRandomTrendData_frame
  by (simp add: updateKeyMetrics_def avg_metric_snapshots split_def Let_def)

text \<open>
  C32. \<open>getRandomTrendData\<close> is equivalent to its closed form: the ten past values are
  the current value plus the running sums of the ten random steps, listed from the
  longest sum, followed by the current value; exactly ten draws are used.
\<close>

theorem getRandomTrendData_closed_form:
  "getRandomTrendData c m g = (trend_ref c m g, g\<lparr>rpos := rpos g + 10\<rparr>)"
  using trend_loop_closed [of 10 m c "[]" g]
  by (simp add: getRandomTrendData_def trend_ref_def split_def)

lemma updateKeyMetrics_texts:
  assumes "fst (updateKeyMetrics nodes g) = Some m"
  shows "temp_text m = map_option (\<lambda>txt. txt @ [degree_sign, CHR ''C'']) (js_toFixed 1 (avg_temp m)) \<and>
         cpu_text m = map_option (\<lambda>txt. txt @ ''%'') (js_toFixed 1 (avg_cpu m)) \<and>
         avail_text m = map_option (\<lambda>txt. txt @ ''%'') (js_toFixed 2 (avg_avail m))"
  using assms by (auto simp: updateKeyMetrics_def split_def Let_def split: if_splits)

text \<open>
  C40. The key-metric cards show their averages as \<open>toFixed\<close> prints them: the
  temperature text is the average with exactly one decimal followed by \<open>\<degree>C\<close>,
  the CPU text one decimal and \<open>%\<close>, the availability text exactly two decimals and
  \<open>%\<close>. Each decodes to the average rounded half-up at that precision, so it is within
  0.05 (0.005 for availability) of it. This holds for averages below \<open>10^21\<close>, where
  \<open>toFixed\<close> prints positional digits.
\<close>

theorem key_metric_texts:
  assumes "fst (updateKeyMetrics nodes g) = Some m"
    and "\<bar>avg_temp m\<bar> < 10 ^ 21" and "\<bar>avg_cpu m\<bar> < 10 ^ 21" and "\<bar>avg_avail m\<bar> < 10 ^ 21"
  shows "\<exists>t c a. temp_text m = Some (t @ [degree_sign, CHR ''C'']) \<and> cpu_text m = Some (c @ ''%'') \<and>
           avail_text m = Some (a @ ''%'') \<and>
           fixed_point_text 1 t \<and> fixed_point_text 1 c \<and> fixed_point_text 2 a \<and>
           decimal_val t = sgn (avg_temp m) * real (nat \<lfloor>\<bar>avg_temp m\<bar> * 10 + 1 / 2\<rfloor>) / 10 \<and>
           decimal_val c = sgn (avg_cpu m) * real (nat \<lfloor>\<bar>avg_cpu m\<bar> * 10 + 1 / 2\<rfloor>) / 10 \<and>
           decimal_val a = sgn (avg_avail m) * real (nat \<lfloor>\<bar>avg_avail m\<bar> * 100 + 1 / 2\<rfloor>) / 100 \<and>
           \<bar>decimal_val t - avg_temp m\<bar> \<le> 1 / 20 \<and> \<bar>decimal_val c - avg_cpu m\<bar> \<le> 1 / 20 \<and>
           \<bar>decimal_val a - avg_avail m\<bar> \<le> 1 / 200"
proof -
  obtain t where t: "js_toFixed 1 (avg_temp m) = Some t" "fixed_point_text 1 t"
      "decimal_val t = sgn (avg_temp m) * real (nat \<lfloor>\<bar>avg_temp m\<bar> * 10 + 1 / 2\<rfloor>) / 10"
      "\<bar>decimal_val t - avg_temp m\<bar> \<le> 1 / 20"
    using js_toFixed_correct [of 1 "avg_temp m"] assms(2) by auto
  obtain c where c: "js_toFixed 1 (avg_cpu m) = Some c" "fixed_point_text 1 c"
      "decimal_val c = sgn (avg_cpu m) * real (nat \<lfloor>\<bar>avg_cpu m\<bar> * 10 + 1 / 2\<rfloor>) / 10"
      "\<bar>decimal_val c - avg_cpu m\<bar> \<le> 1 / 20"
    using js_toFixed_correct [of 1 "avg_cpu m"] assms(3) by auto
  obtain a where a: "js_toFixed 2 (avg_avail m) = Some a" "fixed_point_text 2 a"
      "decimal_val a = sgn (avg_avail m) * real (nat \<lfloor>\<bar>avg_avail m\<bar> * 100 + 1 / 2\<rfloor>) / 100"
      "\<bar>decimal_val a - avg_avail m\<bar> \<le> 1 / 200"
    using js_toFixed_correct [of 2 "avg_avail m"] assms(4) by auto
  show ?thesis using updateKeyMetrics_texts [OF assms(1)] t c a by auto
qed

text \<open>
  C18. A critical list item inserts the node's name into \<open>innerHTML\<close> verbatim: for a
  node whose name is the string \<open>name\<close>, the item's HTML contains
  \<open><strong>name</strong>\<close> with no character of \<open>name\<close> escaped, so markup in a
  name from the CSV is parsed as HTML.
\<close>

theorem critical_item_html_unescaped:
  assumes "node_name node = JStr name" and "critical_item_html node = Some h"
  shows "sublist (''<strong>'' @ name @ ''</strong>'') h"
proof -
  obtain rest where "h = indent 16 @ (''<strong>'' @ name @ ''</strong>'') @ rest"
    using assms by (auto simp: critical_item_html_def split: option.splits)
  then show ?thesis unfolding sublist_def by blast
qed

theorem markup_injection_example:
  "\<exists>h. critical_item_html
         \<lparr>node_id = JStr ''n9'', node_name = JStr ''<img src=x onerror=alert(1)>'', node_type = JStr ''router'',
          region = JStr ''East'', latitude = 40, longitude = -74, status = Critical,
          performance = Some \<lparr>perf_node_id = JStr ''n9'', timestamp = 0, temperature_celsius = 55,
            cpu_utilization_percent = 40, memory_utilization_percent = 50,
            throughput_utilization_percent = 50, download_bandwidth_mbps = 100,
            upload_bandwidth_mbps = 50, availability_percent = 99\<rparr>\<rparr> = Some h \<and>
       sublist ''<img src=x onerror=alert(1)>'' h"
  (is "\<exists>h. critical_item_html ?n = Some h \<and> sublist ?tag h")
proof -
  obtain t where "js_toFixed 1 55 = Some t"
    using js_toFixed_correct [of 1 55] by auto
  then obtain h where h: "critical_item_html ?n = Some h"
    by (simp add: critical_item_html_def critical_issue_of_def threshold_defs)
  have "sublist (''<strong>'' @ ?tag @ ''</strong>'') h"
    by (rule critical_item_html_unescaped [OF _ h]) simp
  moreover have "sublist ?tag (''<strong>'' @ ?tag @ ''</strong>'')"
    unfolding sublist_def by blast
  ultimately have "sublist ?tag h"
    by (rule sublist_order.order.trans [rotated])
  with h show ?thesis by blast
qed

lemma map_sort_key_desc:
  "map f (sort_key (\<lambda>x. - f x) xs) = rev (sort (map f (xs :: 'a list)) :: real list)"
proof -
  let ?ys = "map f (sort_key (\<lambda>x. - f x) xs)"
  have s: "sorted (map (\<lambda>x. - f x) (sort_key (\<lambda>x. - f x) xs))" by (rule sorted_sort_key)
  have "sorted (rev ?ys)"
    using s by (simp add: sorted_wrt_rev sorted_wrt_map)
  moreover have "mset (rev ?ys) = mset (map f xs)"
    by (metis mset_map mset_rev mset_sort)
  ultimately have "sort (map f xs) = rev ?ys"
    by (intro properties_for_sort) simp_all
  then show ?thesis by simp
qed


lemma sorted_desc_take: "sorted_wrt (\<ge>) (take n (rev (sort (xs :: real list))))"
proof -
  have "sorted_wrt (\<ge>) (rev (sort xs))" by (simp add: sorted_wrt_rev)
  then show ?thesis by (rule sorted_wrt_take)
qed

lemma bar_chart_of_top:
  "bar_y (bar_chart_of th f (take 20 (sort_desc f nodes))) = take 20 (rev (sort (map f nodes))) \<and>
   bar_colors (bar_chart_of th f (take 20 (sort_desc f nodes))) =
     map (bar_color th) (bar_y (bar_chart_of th f (take 20 (sort_desc f nodes)))) \<and>
   length (bar_x (bar_chart_of th f (take 20 (sort_desc f nodes)))) =
     length (bar_y (bar_chart_of th f (take 20 (sort_desc f nodes)))) \<and>
   chart_thresholds (bar_chart_of th f (take 20 (sort_desc f nodes))) = th"
proof -
  let ?X = "bar_chart_of th f (take 20 (sort_desc f nodes))"
  have "bar_y ?X = take 20 (rev (sort (map f nodes)))"
    by (simp add: bar_chart_of_def sort_desc_def take_map [symmetric] map_sort_key_desc)
  moreover have "bar_colors ?X = map (bar_color th) (bar_y ?X)"
    by (simp add: bar_chart_of_def o_def del: bar_color.simps)
  ultimately show ?thesis by (simp add: bar_chart_of_def sort_desc_def del: bar_color.simps)
qed

text \<open>
  C8. The temperature chart shows at most 20 bars: the largest temperatures of the
  nodes the view selector keeps, in non-increasing order (a node without a snapshot
  counts as 0), each coloured by the temperature thresholds.
\<close>

theorem temperature_chart_ranked:
  "bar_y (temperature_chart v nodes) =
     take 20 (rev (sort (map (perf_metric temperature_celsius) (temp_view_filter v nodes)))) \<and>
   length (bar_y (temperature_chart v nodes)) \<le> 20 \<and>
   sorted_wrt (\<ge>) (bar_y (temperature_chart v nodes)) \<and>
   bar_colors (temperature_chart v nodes) = map (bar_color temperatureThresholds) (bar_y (temperature_chart v nodes)) \<and>
   length (bar_x (temperature_chart v nodes)) = length (bar_y (temperature_chart v nodes))"
  using bar_chart_of_top [of temperatureThresholds "perf_metric temperature_celsius" "temp_view_filter v nodes"]
    sorted_desc_take [of 20 "map (perf_metric temperature_celsius) (temp_view_filter v nodes)"]
  by (simp add: temperature_chart_def Let_def del: bar_color.simps)

text \<open>
  C33. The temperature bars are coloured by the thresholds of lines 8--11: red
  (\<open>#dc3545\<close>) above 50, amber (\<open>#ffc107\<close>) above 40 and up to 50, green up to 40,
  with strict comparisons. So the "critical" view shows only red bars and the
  "warning" view no green bar.
\<close>

theorem temperature_chart_colours:
  "bar_colors (temperature_chart v nodes) =
     map (\<lambda>t. if 50 < t then ''#dc3545'' else if 40 < t then ''#ffc107'' else ''#28a745'')
       (bar_y (temperature_chart v nodes)) \<and>
   set (bar_colors (temperature_chart ''critical'' nodes)) \<subseteq> {''#dc3545''} \<and>
   ''#28a745'' \<notin> set (bar_colors (temperature_chart ''warning'' nodes))"
proof -
  have col: "bar_colors (temperature_chart w nodes) =
               map (bar_color temperatureThresholds) (bar_y (temperature_chart w nodes))" for w
    by (simp add: temperature_chart_def Let_def bar_chart_of_def del: bar_color.simps)
  have ys: "set (bar_y (temperature_chart w nodes)) \<subseteq>
              perf_metric temperature_celsius ` set (temp_view_filter w nodes)" for w
    by (auto simp: temperature_chart_def Let_def bar_chart_of_def sort_desc_def dest: in_set_takeD)
  have crit: "50 < t" if "t \<in> perf_metric temperature_celsius ` set (temp_view_filter ''critical'' nodes)" for t
    using that by (auto simp: temp_view_filter_def perf_metric_def temperatureThresholds_def split: option.splits)
  have warn: "40 < t" if "t \<in> perf_metric temperature_celsius ` set (temp_view_filter ''warning'' nodes)" for t
    using that by (auto simp: temp_view_filter_def perf_metric_def temperatureThresholds_def split: option.splits)
  have "set (bar_colors (temperature_chart ''critical'' nodes)) \<subseteq> {''#dc3545''}"
    using col [of "''critical''"] ys [of "''critical''"] crit by (auto simp: temperatureThresholds_def)
  moreover have "''#28a745'' \<notin> set (bar_colors (temperature_chart ''warning'' nodes))"
    using col [of "''warning''"] ys [of "''warning''"] warn by (auto simp: temperatureThresholds_def)
  ultimately show ?thesis using col [of v] by (simp add: temperatureThresholds_def)
qed

text \<open>
  C9. The utilization chart shows at most 20 bars: the largest values of the selected
  metric in non-increasing order, coloured by that metric's own thresholds.
\<close>

theorem utilization_chart_ranked:
  assumes "util_config m = (f, title, th)"
  shows "utilization_chart m nodes = (title, c) \<Longrightarrow>
    bar_y c = take 20 (rev (sort (map (perf_metric f) nodes))) \<and> length (bar_y c) \<le> 20 \<and>
    sorted_wrt (\<ge>) (bar_y c) \<and> bar_colors c = map (bar_color th) (bar_y c) \<and>
    chart_thresholds c = th"
  using assms bar_chart_of_top [of th "perf_metric f" nodes] sorted_desc_take [of 20 "map (perf_metric f) nodes"]
  by (auto simp: utilization_chart_def Let_def simp del: bar_color.simps)

lemma util_config_memory:
  "util_config ''memory'' = (memory_utilization_percent, ''Memory Utilization (%)'', \<lparr>warning = 80, critical = 90\<rparr>)"
  by (simp add: util_config_def)

text \<open>
  C10. The warning list shows the first five warning nodes at most, with a
  \<open>+N more warnings\<close> line counting exactly the ones left out.
\<close>

theorem warning_alerts_truncated:
  assumes "length (filter (\<lambda>n. status n = Warning) nodes) = k" and "0 < k"
  shows "\<exists>items. warning_alerts nodes = WarningItems items (if 5 < k then Some (k - 5) else None) \<and>
                 length items = min k 5"
  using assms by (auto simp: warning_alerts_def Let_def)

text \<open>
  C22. A critical node's list entry names the first breached condition in the order
  temperature, CPU, availability; the fallback texts ("multiple issues", empty) are
  never shown for a node tagged critical.
\<close>

theorem critical_issue_priority:
  assumes "status (enrich_node cur n) = Critical"
  shows "\<exists>p. performance (enrich_node cur n) = Some p \<and>
           critical_issue_of (enrich_node cur n) =
             (if temperature_celsius p > 50 then TemperatureCritical (temperature_celsius p)
              else if cpu_utilization_percent p > 90 then CpuOverload (cpu_utilization_percent p)
              else LowAvailability (availability_percent p))"
proof (cases "find (\<lambda>p. perf_node_id p = node_id n) cur")
  case None
  with assms show ?thesis by simp
next
  case (Some p)
  with assms have "critical_cond p" by (simp split: if_splits)
  with Some show ?thesis
    by (auto simp: critical_issue_of_def critical_cond_def threshold_defs)
qed

text \<open>
  C36. A warning node's list entry names the first warning condition in the order
  temperature, CPU; the text "Performance degradation" is shown exactly for the nodes
  whose warning comes from availability alone (between 95 and 98 percent with
  temperature and CPU within their warning thresholds).
\<close>

theorem warning_issue_priority:
  assumes "status (enrich_node cur n) = Warning"
  shows "\<exists>p. performance (enrich_node cur n) = Some p \<and>
           warning_issue_of (enrich_node cur n) =
             (if temperature_celsius p > 40 then HighTemperature (temperature_celsius p)
              else if cpu_utilization_percent p > 70 then HighCpu (cpu_utilization_percent p)
              else PerformanceDegradation) \<and>
           (warning_issue_of (enrich_node cur n) = PerformanceDegradation \<longleftrightarrow>
              temperature_celsius p \<le> 40 \<and> cpu_utilization_percent p \<le> 70 \<and>
              95 \<le> availability_percent p \<and> availability_percent p < 98)"
proof (cases "find (\<lambda>p. perf_node_id p = node_id n) cur")
  case None
  with assms show ?thesis by simp
next
  case (Some p)
  with assms have "\<not> critical_cond p" "warning_cond p" by (simp_all split: if_splits)
  with Some show ?thesis
    by (auto simp: warning_issue_of_def critical_cond_def warning_cond_def threshold_defs)
qed

lemma schedule_critical_bounds:
  "rng_ok g \<Longrightarrow> length (fst (schedule_critical ns g)) = length ns \<and>
     (\<forall>(x, h) \<in> set (fst (schedule_critical ns g)). 0 \<le> h \<and> h \<le> 23) \<and> rng_ok (snd (schedule_critical ns g))"
proof (induction ns arbitrary: g)
  case Nil
  then show ?case by simp
next
  case (Cons n ns)
  have "0 \<le> fst (math_random g)" "fst (math_random g) < 1" using math_random_range [OF Cons.prems] by auto
  then have "0 \<le> \<lfloor>fst (math_random g) * 24\<rfloor> \<and> \<lfloor>fst (math_random g) * 24\<rfloor> \<le> 23"
    by (simp add: floor_less_iff)
  with Cons.IH [of "snd (math_random g)"] Cons.prems show ?case by (simp add: split_def Let_def)
qed

lemma schedule_warning_bounds:
  "rng_ok g \<Longrightarrow> length (fst (schedule_warning ns g)) = length ns \<and>
     (\<forall>(x, d) \<in> set (fst (schedule_warning ns g)). 1 \<le> d \<and> d \<le> 7) \<and> rng_ok (snd (schedule_warning ns g))"
proof (induction ns arbitrary: g)
  case Nil
  then show ?case by simp
next
  case (Cons n ns)
  have "0 \<le> fst (math_random g)" "fst (math_random g) < 1" using math_random_range [OF Cons.prems] by auto
  then have "0 \<le> \<lfloor>fst (math_random g) * 7\<rfloor> \<and> \<lfloor>fst (math_random g) * 7\<rfloor> \<le> 6"
    by (simp add: floor_less_iff)
  with Cons.IH [of "snd (math_random g)"] Cons.prems show ?case by (simp add: split_def Let_def)
qed

text \<open>
  C25. The schedule lists at most three critical nodes, each within the next 0 to 23
  hours, and at most three warning nodes, each 1 to 7 days ahead; it is empty exactly
  when no node is critical or in warning.
\<close>

theorem maintenance_schedule_bounds:
  assumes "rng_ok g"
  shows "(fst (generateMaintenanceSchedule nodes g) = NoMaintenanceScheduled \<longleftrightarrow>
            (\<forall>n \<in> set nodes. status n \<noteq> Critical \<and> status n \<noteq> Warning)) \<and>
         (\<forall>c w. fst (generateMaintenanceSchedule nodes g) = MaintenanceItems c w \<longrightarrow>
            length c = min 3 (count_status Critical nodes) \<and> length w = min 3 (count_status Warning nodes) \<and>
            (\<forall>(x, h) \<in> set c. 0 \<le> h \<and> h \<le> 23) \<and> (\<forall>(x, d) \<in> set w. 1 \<le> d \<and> d \<le> 7))"
proof -
  let ?C = "take 3 (filter (\<lambda>node. status node = Critical) nodes)"
  let ?W = "take 3 (filter (\<lambda>node. status node = Warning) nodes)"
  have c: "length (fst (schedule_critical ?C g)) = length ?C \<and>
     (\<forall>(x, h) \<in> set (fst (schedule_critical ?C g)). 0 \<le> h \<and> h \<le> 23) \<and> rng_ok (snd (schedule_critical ?C g))"
    using assms by (rule schedule_critical_bounds)
  then have w: "length (fst (schedule_warning ?W (snd (schedule_critical ?C g)))) = length ?W \<and>
     (\<forall>(x, d) \<in> set (fst (schedule_warning ?W (snd (schedule_critical ?C g)))). 1 \<le> d \<and> d \<le> 7)"
    using schedule_warning_bounds by blast
  have e: "(length (filter (\<lambda>node. status node = Critical) nodes) = 0 \<and>
            length (filter (\<lambda>node. status node = Warning) nodes) = 0) \<longleftrightarrow>
           (\<forall>n \<in> set nodes. status n \<noteq> Critical \<and> status n \<noteq> Warning)"
    by (auto simp: filter_empty_conv)
  show ?thesis
    using c w e by (auto simp: generateMaintenanceSchedule_def Let_def split_def count_status_def min.commute)
qed

theorem updateNetworkStatus_percent_sum_witness:
  "[\<lparr>node_id = JStr ''n1'', node_name = JStr ''Node 1'', node_type = JStr ''router'',
        region = JStr ''East'', latitude = 40, longitude = -74, status = Healthy, performance = None\<rparr>] \<noteq> [] \<and> count_status Unknown [\<lparr>node_id = JStr ''n1'', node_name = JStr ''Node 1'', node_type = JStr ''router'',
        region = JStr ''East'', latitude = 40, longitude = -74, status = Healthy, performance = None\<rparr>] = 0 \<and>
   (\<exists>h w c. healthy_percent (updateNetworkStatus [\<lparr>node_id = JStr ''n1'', node_name = JStr ''Node 1'', node_type = JStr ''router'',
        region = JStr ''East'', latitude = 40, longitude = -74, status = Healthy, performance = None\<rparr>]) = Fin h \<and>
      warning_percent (updateNetworkStatus [\<lparr>node_id = JStr ''n1'', node_name = JStr ''Node 1'', node_type = JStr ''router'',
        region = JStr ''East'', latitude = 40, longitude = -74, status = Healthy, performance = None\<rparr>]) = Fin w \<and>
      critical_percent (updateNetworkStatus [\<lparr>node_id = JStr ''n1'', node_name = JStr ''Node 1'', node_type = JStr ''router'',
        region = JStr ''East'', latitude = 40, longitude = -74, status = Healthy, performance = None\<rparr>]) = Fin c \<and> h + w + c = 100)"
  using updateNetworkStatus_percent_sum [of "[\<lparr>node_id = JStr ''n1'', node_name = JStr ''Node 1'', node_type = JStr ''router'',
        region = JStr ''East'', latitude = 40, longitude = -74, status = Healthy, performance = None\<rparr>]"] by (simp add: count_status_def)

theorem utilization_chart_ranked_witness:
  "bar_y (snd (utilization_chart ''memory'' [\<lparr>node_id = JStr ''n1'', node_name = JStr ''Node 1'', node_type = JStr ''router'',
        region = JStr ''East'', latitude = 40, longitude = -74, status = Healthy, performance = Some \<lparr>perf_node_id = JStr ''n1'', timestamp = 0, temperature_celsius = 52,
        cpu_utilization_percent = 40, memory_utilization_percent = 85,
        throughput_utilization_percent = 50, download_bandwidth_mbps = 100,
        upload_bandwidth_mbps = 50, availability_percent = 99\<rparr>\<rparr>])) = [85] \<and>
   bar_colors (snd (utilization_chart ''memory'' [\<lparr>node_id = JStr ''n1'', node_name = JStr ''Node 1'', node_type = JStr ''router'',
        region = JStr ''East'', latitude = 40, longitude = -74, status = Healthy, performance = Some \<lparr>perf_node_id = JStr ''n1'', timestamp = 0, temperature_celsius = 52,
        cpu_utilization_percent = 40, memory_utilization_percent = 85,
        throughput_utilization_percent = 50, download_bandwidth_mbps = 100,
        upload_bandwidth_mbps = 50, availability_percent = 99\<rparr>\<rparr>])) = [''#ffc107'']"
proof -
  have h: "util_config ''memory'' =
      (memory_utilization_percent, ''Memory Utilization (%)'', \<lparr>warning = 80, critical = 90\<rparr>)"
    by (rule util_config_memory)
  have c: "utilization_chart ''memory'' [\<lparr>node_id = JStr ''n1'', node_name = JStr ''Node 1'', node_type = JStr ''router'',
        region = JStr ''East'', latitude = 40, longitude = -74, status = Healthy, performance = Some \<lparr>perf_node_id = JStr ''n1'', timestamp = 0, temperature_celsius = 52,
        cpu_utilization_percent = 40, memory_utilization_percent = 85,
        throughput_utilization_percent = 50, download_bandwidth_mbps = 100,
        upload_bandwidth_mbps = 50, availability_percent = 99\<rparr>\<rparr>] =
      (''Memory Utilization (%)'', snd (utilization_chart ''memory'' [\<lparr>node_id = JStr ''n1'', node_name = JStr ''Node 1'', node_type = JStr ''router'',
        region = JStr ''East'', latitude = 40, longitude = -74, status = Healthy, performance = Some \<lparr>perf_node_id = JStr ''n1'', timestamp = 0, temperature_celsius = 52,
        cpu_utilization_percent = 40, memory_utilization_percent = 85,
        throughput_utilization_percent = 50, download_bandwidth_mbps = 100,
        upload_bandwidth_mbps = 50, availability_percent = 99\<rparr>\<rparr>]))"
    by (simp add: utilization_chart_def h split_def)
  from utilization_chart_ranked [OF h c] show ?thesis by (simp add: perf_metric_def)
qed

theorem warning_alerts_truncated_witness:
  "\<exists>items. warning_alerts (replicate 8 \<lparr>node_id = JStr ''n1'', node_name = JStr ''Node 1'', node_type = JStr ''router'',
        region = JStr ''East'', latitude = 40, longitude = -74, status = Warning, performance = None\<rparr>) = WarningItems items (Some 3) \<and> length items = 5"
  using warning_alerts_truncated [of "replicate 8 \<lparr>node_id = JStr ''n1'', node_name = JStr ''Node 1'', node_type = JStr ''router'',
        region = JStr ''East'', latitude = 40, longitude = -74, status = Warning, performance = None\<rparr>" 8] by simp

theorem getRandomTrendData_shape_witness:
  "rng_ok \<lparr>draws = \<lambda>_. 1 / 2, rpos = 0\<rparr> \<and> length (fst (getRandomTrendData 45 5 \<lparr>draws = \<lambda>_. 1 / 2, rpos = 0\<rparr>)) = 11 \<and>
   last (fst (getRandomTrendData 45 5 \<lparr>draws = \<lambda>_. 1 / 2, rpos = 0\<rparr>)) = 45"
  using getRandomTrendData_shape [of "\<lparr>draws = \<lambda>_. 1 / 2, rpos = 0\<rparr>" 45 5] by (simp add: rng_ok_def)

theorem critical_issue_priority_witness:
  "status (enrich_node [\<lparr>perf_node_id = JStr ''n1'', timestamp = 0, temperature_celsius = 52,
        cpu_utilization_percent = 40, memory_utilization_percent = 85,
        throughput_utilization_percent = 50, download_bandwidth_mbps = 100,
        upload_bandwidth_mbps = 50, availability_percent = 99\<rparr>] \<lparr>node_id = JStr ''n1'', node_name = JStr ''Node 1'', node_type = JStr ''router'',
        region = JStr ''East'', latitude = 40, longitude = -74\<rparr>) = Critical \<and>
   critical_issue_of (enrich_node [\<lparr>perf_node_id = JStr ''n1'', timestamp = 0, temperature_celsius = 52,
        cpu_utilization_percent = 40, memory_utilization_percent = 85,
        throughput_utilization_percent = 50, download_bandwidth_mbps = 100,
        upload_bandwidth_mbps = 50, availability_percent = 99\<rparr>] \<lparr>node_id = JStr ''n1'', node_name = JStr ''Node 1'', node_type = JStr ''router'',
        region = JStr ''East'', latitude = 40, longitude = -74\<rparr>) = TemperatureCritical 52"
proof -
  have s: "status (enrich_node [\<lparr>perf_node_id = JStr ''n1'', timestamp = 0, temperature_celsius = 52,
        cpu_utilization_percent = 40, memory_utilization_percent = 85,
        throughput_utilization_percent = 50, download_bandwidth_mbps = 100,
        upload_bandwidth_mbps = 50, availability_percent = 99\<rparr>] \<lparr>node_id = JStr ''n1'', node_name = JStr ''Node 1'', node_type = JStr ''router'',
        region = JStr ''East'', latitude = 40, longitude = -74\<rparr>) = Critical"
    by (simp add: critical_cond_def threshold_defs)
  from critical_issue_priority [OF s] s show ?thesis by simp
qed

theorem maintenance_schedule_bounds_witness:
  "rng_ok \<lparr>draws = \<lambda>_. 1 / 2, rpos = 0\<rparr> \<and> fst (generateMaintenanceSchedule [\<lparr>node_id = JStr ''n1'', node_name = JStr ''Node 1'', node_type = JStr ''router'',
        region = JStr ''East'', latitude = 40, longitude = -74, status = Critical, performance = None\<rparr>] \<lparr>draws = \<lambda>_. 1 / 2, rpos = 0\<rparr>) \<noteq> NoMaintenanceScheduled"
  using maintenance_schedule_bounds [of "\<lparr>draws = \<lambda>_. 1 / 2, rpos = 0\<rparr>" "[\<lparr>node_id = JStr ''n1'', node_name = JStr ''Node 1'', node_type = JStr ''router'',
        region = JStr ''East'', latitude = 40, longitude = -74, status = Critical, performance = None\<rparr>]"] by (simp add: rng_ok_def count_status_def)

theorem updateKeyMetrics_spec_witness:
  "\<exists>m. fst (updateKeyMetrics [\<lparr>node_id = JStr ''n1'', node_name = JStr ''Hub'', node_type = JStr ''router'',
        region = JStr ''East'', latitude = 40, longitude = -74, status = Healthy,
        performance = Some \<lparr>perf_node_id = JStr ''n1'', timestamp = 0, temperature_celsius = 36,
        cpu_utilization_percent = 40, memory_utilization_percent = 50,
        throughput_utilization_percent = 50, download_bandwidth_mbps = 100,
        upload_bandwidth_mbps = 50, availability_percent = 99\<rparr>\<rparr>, \<lparr>node_id = JStr ''n2'', node_name = JStr ''Edge'', node_type = JStr ''router'',
        region = JStr ''East'', latitude = 41, longitude = -73, status = Unknown, performance = None\<rparr>] \<lparr>draws = \<lambda>_. 1 / 2, rpos = 0\<rparr>) = Some m \<and>
       avg_temp m = 18 \<and> avg_avail m = 99 / 2 \<and> length (cpu_trend m) = 11"
  using updateKeyMetrics_spec [of "[\<lparr>node_id = JStr ''n1'', node_name = JStr ''Hub'', node_type = JStr ''router'',
        region = JStr ''East'', latitude = 40, longitude = -74, status = Healthy,
        performance = Some \<lparr>perf_node_id = JStr ''n1'', timestamp = 0, temperature_celsius = 36,
        cpu_utilization_percent = 40, memory_utilization_percent = 50,
        throughput_utilization_percent = 50, download_bandwidth_mbps = 100,
        upload_bandwidth_mbps = 50, availability_percent = 99\<rparr>\<rparr>, \<lparr>node_id = JStr ''n2'', node_name = JStr ''Edge'', node_type = JStr ''router'',
        region = JStr ''East'', latitude = 41, longitude = -73, status = Unknown, performance = None\<rparr>]" "\<lparr>draws = \<lambda>_. 1 / 2, rpos = 0\<rparr>"]
  by (simp add: List.map_filter_simps) blast

theorem warning_issue_priority_witness:
  "status (enrich_node [\<lparr>perf_node_id = JStr ''n1'', timestamp = 0, temperature_celsius = 35,
        cpu_utilization_percent = 40, memory_utilization_percent = 50,
        throughput_utilization_percent = 50, download_bandwidth_mbps = 100,
        upload_bandwidth_mbps = 50, availability_percent = 96\<rparr>]
      \<lparr>node_id = JStr ''n1'', node_name = JStr ''Hub'', node_type = JStr ''router'',
        region = JStr ''East'', latitude = 40, longitude = -74\<rparr>) = Warning \<and>
   warning_issue_of (enrich_node [\<lparr>perf_node_id = JStr ''n1'', timestamp = 0, temperature_celsius = 35,
        cpu_utilization_percent = 40, memory_utilization_percent = 50,
        throughput_utilization_percent = 50, download_bandwidth_mbps = 100,
        upload_bandwidth_mbps = 50, availability_percent = 96\<rparr>]
      \<lparr>node_id = JStr ''n1'', node_name = JStr ''Hub'', node_type = JStr ''router'',
        region = JStr ''East'', latitude = 40, longitude = -74\<rparr>) = PerformanceDegradation"
proof -
  have w: "status (enrich_node [\<lparr>perf_node_id = JStr ''n1'', timestamp = 0, temperature_celsius = 35,
        cpu_utilization_percent = 40, memory_utilization_percent = 50,
        throughput_utilization_percent = 50, download_bandwidth_mbps = 100,
        upload_bandwidth_mbps = 50, availability_percent = 96\<rparr>]
      \<lparr>node_id = JStr ''n1'', node_name = JStr ''Hub'', node_type = JStr ''router'',
        region = JStr ''East'', latitude = 40, longitude = -74\<rparr>) = Warning"
    by (simp add: critical_cond_def warning_cond_def threshold_defs)
  from warning_issue_priority [OF w] w show ?thesis by auto
qed

theorem key_metric_texts_witness:
  "\<exists>t. temp_text (the (fst (updateKeyMetrics [\<lparr>node_id = JStr ''n1'', node_name = JStr ''Hub'', node_type = JStr ''router'',
        region = JStr ''East'', latitude = 40, longitude = -74, status = Healthy,
        performance = Some \<lparr>perf_node_id = JStr ''n1'', timestamp = 0, temperature_celsius = 36,
        cpu_utilization_percent = 40, memory_utilization_percent = 50,
        throughput_utilization_percent = 50, download_bandwidth_mbps = 100,
        upload_bandwidth_mbps = 50, availability_percent = 99\<rparr>\<rparr>] \<lparr>draws = \<lambda>_. 1 / 2, rpos = 0\<rparr>))) = Some (t @ [degree_sign, CHR ''C'']) \<and>
       fixed_point_text 1 t \<and> \<bar>decimal_val t - 36\<bar> \<le> 1 / 20"
proof -
  have s: "fst (updateKeyMetrics [\<lparr>node_id = JStr ''n1'', node_name = JStr ''Hub'', node_type = JStr ''router'',
        region = JStr ''East'', latitude = 40, longitude = -74, status = Healthy,
        performance = Some \<lparr>perf_node_id = JStr ''n1'', timestamp = 0, temperature_celsius = 36,
        cpu_utilization_percent = 40, memory_utilization_percent = 50,
        throughput_utilization_percent = 50, download_bandwidth_mbps = 100,
        upload_bandwidth_mbps = 50, availability_percent = 99\<rparr>\<rparr>] \<lparr>draws = \<lambda>_. 1 / 2, rpos = 0\<rparr>) = Some (the (fst (updateKeyMetrics [\<lparr>node_id = JStr ''n1'', node_name = JStr ''Hub'', node_type = JStr ''router'',
        region = JStr ''East'', latitude = 40, longitude = -74, status = Healthy,
        performance = Some \<lparr>perf_node_id = JStr ''n1'', timestamp = 0, temperature_celsius = 36,
        cpu_utilization_percent = 40, memory_utilization_percent = 50,
        throughput_utilization_percent = 50, download_bandwidth_mbps = 100,
        upload_bandwidth_mbps = 50, availability_percent = 99\<rparr>\<rparr>] \<lparr>draws = \<lambda>_. 1 / 2, rpos = 0\<rparr>)))"
    by (simp add: updateKeyMetrics_def split_def Let_def)
  have avg: "avg_temp (the (fst (updateKeyMetrics [\<lparr>node_id = JStr ''n1'', node_name = JStr ''Hub'', node_type = JStr ''router'',
        region = JStr ''East'', latitude = 40, longitude = -74, status = Healthy,
        performance = Some \<lparr>perf_node_id = JStr ''n1'', timestamp = 0, temperature_celsius = 36,
        cpu_utilization_percent = 40, memory_utilization_percent = 50,
        throughput_utilization_percent = 50, download_bandwidth_mbps = 100,
        upload_bandwidth_mbps = 50, availability_percent = 99\<rparr>\<rparr>] \<lparr>draws = \<lambda>_. 1 / 2, rpos = 0\<rparr>))) = 36"
    "avg_cpu (the (fst (updateKeyMetrics [\<lparr>node_id = JStr ''n1'', node_name = JStr ''Hub'', node_type = JStr ''router'',
        region = JStr ''East'', latitude = 40, longitude = -74, status = Healthy,
        performance = Some \<lparr>perf_node_id = JStr ''n1'', timestamp = 0, temperature_celsius = 36,
        cpu_utilization_percent = 40, memory_utilization_percent = 50,
        throughput_utilization_percent = 50, download_bandwidth_mbps = 100,
        upload_bandwidth_mbps = 50, availability_percent = 99\<rparr>\<rparr>] \<lparr>draws = \<lambda>_. 1 / 2, rpos = 0\<rparr>))) = 40"
    "avg_avail (the (fst (updateKeyMetrics [\<lparr>node_id = JStr ''n1'', node_name = JStr ''Hub'', node_type = JStr ''router'',
        region = JStr ''East'', latitude = 40, longitude = -74, status = Healthy,
        performance = Some \<lparr>perf_node_id = JStr ''n1'', timestamp = 0, temperature_celsius = 36,
        cpu_utilization_percent = 40, memory_utilization_percent = 50,
        throughput_utilization_percent = 50, download_bandwidth_mbps = 100,
        upload_bandwidth_mbps = 50, availability_percent = 99\<rparr>\<rparr>] \<lparr>draws = \<lambda>_. 1 / 2, rpos = 0\<rparr>))) = 99"
    by (simp_all add: updateKeyMetrics_def avg_metric_def perf_metric_def split_def Let_def)
  from key_metric_texts [OF s] avg show ?thesis by auto
qed

end
