(* ===== verification/Dashboard.thy ===== *)
theory Dashboard
  imports Views
begin

text \<open>
  The page as a whole: \<open>updateDashboard\<close> composing the components, the countdown
  display, the refresh scheduler (\<open>startRefreshTimer\<close>, its tick, \<open>manualRefresh\<close>)
  over a model of the browser's interval timers, the startup handler, and the page's
  reaction to every event the browser can deliver (a timer firing, a click, a select
  changing, the two loads completing, time passing) as a step function. The states a
  page can reach are an inductive set over that step; its invariants are proved by
  rule induction.
\<close>

section \<open>Definitions\<close>

subsection \<open>What the page displays\<close>

record controls =
  sel :: filter_sel
  tempView :: string
  utilMetric :: string

record view =
  status_v :: "status_view option"
  map_v :: "map_view option"
  metrics_v :: "metrics_view option"
  temp_chart_v :: "bar_chart option"
  util_chart_v :: "(string \<times> bar_chart) option"
  alerts_v :: "alerts_view option"
  filter_options :: "(jsval list \<times> jsval list) option"
  countdown_text :: string

definition empty_view :: view where
  "empty_view = \<lparr>status_v = None, map_v = None, metrics_v = None, temp_chart_v = None,
     util_chart_v = None, alerts_v = None, filter_options = None, countdown_text = []\<rparr>"

subsection \<open>The refresh cycle (lines 255--265)\<close>

text \<open>
  The six renderers in the source's order. The temperature and utilization charts
  call \<open>getFilteredData\<close> again themselves, so one cycle runs the simulator three
  times; the maintenance lists use the first snapshot.
\<close>

definition updateDashboard :: "controls \<Rightarrow> dash_state \<Rightarrow> view \<Rightarrow> dash_state \<times> view" where
  "updateDashboard c s v =
     (let ((nodes, currentPerformance), s1) = getFilteredData (sel c) s;
          v1 = v\<lparr>status_v := Some (updateNetworkStatus nodes), map_v := Some (updateNetworkMap nodes)\<rparr>;
          (km, g1) = updateKeyMetrics nodes (random_src s1);
          s2 = s1\<lparr>random_src := g1\<rparr>;
          v2 = (case km of None \<Rightarrow> v1 | Some m \<Rightarrow> v1\<lparr>metrics_v := Some m\<rparr>);
          (tc, s3) = updateTemperatureChart (tempView c) (sel c) s2;
          (uc, s4) = updateUtilizationChart (utilMetric c) (sel c) s3;
          (al, g4) = updateMaintenanceAlerts nodes (random_src s4)
      in (s4\<lparr>random_src := g4\<rparr>,
          v2\<lparr>temp_chart_v := Some tc, util_chart_v := Some uc, alerts_v := Some al\<rparr>))"

subsection \<open>Filter options (lines 74--97)\<close>

definition initializeFilters :: "node_record list \<Rightarrow> jsval list \<times> jsval list" where
  "initializeFilters nodes =
     (filter truthy (js_set_order (map region nodes)), filter truthy (js_set_order (map node_type nodes)))"

text \<open>Each option element (lines 82--83 and 93--94): value and text are the cell's
  \<open>ToString\<close>.\<close>

definition filter_option :: "jsval \<Rightarrow> (string \<times> string) option" where
  "filter_option r = map_option (\<lambda>txt. (txt, txt)) (js_to_string r)"

subsection \<open>The countdown display (lines 119--125)\<close>

definition padStart2 :: "string \<Rightarrow> string" where
  "padStart2 s = (if length s < 2 then replicate (2 - length s) (CHR ''0'') @ s else s)"

text \<open>\<open>Math.floor(c / 60)\<close> and \<open>c % 60\<close> (truncated remainder) of an integer.\<close>

definition countdown_string :: "int \<Rightarrow> string" where
  "countdown_string c =
     (let minutes = c div 60; seconds = sgn c * (\<bar>c\<bar> mod 60)
      in ''Auto-refresh in '' @ int_to_string minutes @ '':'' @ padStart2 (int_to_string seconds))"

subsection \<open>Browser interval timers\<close>

datatype callback = RefreshTick | ClockTick

datatype phase = Loading | LoadFailed | Running

text \<open>
  \<open>refreshIntervalId\<close> and \<open>countdownTimer\<close> are the globals of lines 6--7;
  \<open>intervals\<close> lists the active \<open>setInterval\<close> registrations with their ids, which
  the browser draws from a counter starting at 1.
\<close>

record page =
  phase :: phase
  dash :: dash_state
  ctl :: controls
  page_view :: view
  countdownTimer :: int
  refreshIntervalId :: "nat option"
  intervals :: "(nat \<times> callback) list"
  next_timer_id :: nat

definition setInterval :: "callback \<Rightarrow> page \<Rightarrow> nat \<times> page" where
  "setInterval cb p =
     (next_timer_id p,
      p\<lparr>intervals := intervals p @ [(next_timer_id p, cb)], next_timer_id := Suc (next_timer_id p)\<rparr>)"

definition clearInterval :: "nat \<Rightarrow> page \<Rightarrow> page" where
  "clearInterval i p = p\<lparr>intervals := filter (\<lambda>(j, cb). j \<noteq> i) (intervals p)\<rparr>"

subsection \<open>The scheduler (lines 99--131)\<close>

definition updateCountdown :: "page \<Rightarrow> page" where
  "updateCountdown p =
     p\<lparr>page_view := (page_view p)\<lparr>countdown_text := countdown_string (countdownTimer p)\<rparr>\<rparr>"

definition run_updateDashboard :: "page \<Rightarrow> page" where
  "run_updateDashboard p =
     (let (s', v') = updateDashboard (ctl p) (dash p) (page_view p) in p\<lparr>dash := s', page_view := v'\<rparr>)"

text \<open>\<open>if (refreshIntervalId) clearInterval(...)\<close>: an id is truthy when it is defined and non-zero.\<close>

definition startRefreshTimer :: "page \<Rightarrow> page" where
  "startRefreshTimer p =
     (let p1 = updateCountdown (p\<lparr>countdownTimer := refreshInterval\<rparr>);
          p2 = (case refreshIntervalId p1 of
                  None \<Rightarrow> p1
                | Some i \<Rightarrow> if i \<noteq> 0 then clearInterval i p1 else p1);
          (i, p3) = setInterval RefreshTick p2
      in p3\<lparr>refreshIntervalId := Some i\<rparr>)"

text \<open>The interval callback of lines 108--116.\<close>

definition refresh_tick :: "page \<Rightarrow> page" where
  "refresh_tick p =
     (let p1 = updateCountdown (p\<lparr>countdownTimer := countdownTimer p - 1\<rparr>)
      in if countdownTimer p1 \<le> 0
         then (run_updateDashboard p1)\<lparr>countdownTimer := refreshInterval\<rparr>
         else p1)"

definition manualRefresh :: "page \<Rightarrow> page" where
  "manualRefresh p = (run_updateDashboard p)\<lparr>countdownTimer := refreshInterval\<rparr>"

subsection \<open>Startup (lines 18--55)\<close>

text \<open>
  The synchronous part of the \<open>DOMContentLoaded\<close> handler: the clock display and its
  one-second interval. The loads run meanwhile; the globals hold their initial values.
\<close>

definition init_page :: "rng \<Rightarrow> real \<Rightarrow> controls \<Rightarrow> page" where
  "init_page g t c =
     snd (setInterval ClockTick
       \<lparr>phase = Loading,
        dash = \<lparr>nodesData = [], performanceData = [], simulatedDataIndex = 0, random_src = g, clock = t\<rparr>,
        ctl = c, page_view = empty_view, countdownTimer = refreshInterval, refreshIntervalId = None,
        intervals = [], next_timer_id = 1\<rparr>)"

text \<open>
  The continuation of \<open>Promise.all\<close>: on a rejection the alert is shown and nothing
  else happens; otherwise the data is stored, the filters filled, the dashboard
  drawn, the refresh timer started and the listeners registered (the phase
  \<open>Running\<close>). Timestamps already hold time values, so \<open>new Date(...)\<close> keeps them.
\<close>

definition on_load :: "string + node_record list \<Rightarrow> string + perf_sample list \<Rightarrow> page \<Rightarrow> page" where
  "on_load a b p =
     (case load_all a b of
        Inl err \<Rightarrow> p\<lparr>phase := LoadFailed\<rparr>
      | Inr (nodes, perf) \<Rightarrow>
          (let p1 = p\<lparr>dash := (dash p)\<lparr>nodesData := nodes, performanceData := perf\<rparr>\<rparr>;
               p2 = p1\<lparr>page_view := (page_view p1)\<lparr>filter_options := Some (initializeFilters nodes)\<rparr>\<rparr>;
               p3 = run_updateDashboard p2;
               p4 = startRefreshTimer p3
           in p4\<lparr>phase := Running\<rparr>))"

subsection \<open>Events\<close>

datatype event =
    LoadComplete "string + node_record list" "string + perf_sample list"
  | TimerFires nat
  | ClickApplyFilters
  | ClickManualRefresh
  | ChangeTempView string
  | ChangeUtilMetric string
  | SetFilters filter_sel
  | TimePasses real

text \<open>
  \<open>updateCurrentTime\<close> only writes the formatted wall-clock time, which is not
  modelled, so the clock interval leaves the modelled page unchanged.
\<close>

fun run_callback :: "callback \<Rightarrow> page \<Rightarrow> page" where
  "run_callback RefreshTick p = refresh_tick p"
| "run_callback ClockTick p = p"

definition run_temperature :: "page \<Rightarrow> page" where
  "run_temperature p =
     (let (tc, s') = updateTemperatureChart (tempView (ctl p)) (sel (ctl p)) (dash p)
      in p\<lparr>dash := s', page_view := (page_view p)\<lparr>temp_chart_v := Some tc\<rparr>\<rparr>)"

definition run_utilization :: "page \<Rightarrow> page" where
  "run_utilization p =
     (let (uc, s') = updateUtilizationChart (utilMetric (ctl p)) (sel (ctl p)) (dash p)
      in p\<lparr>dash := s', page_view := (page_view p)\<lparr>util_chart_v := Some uc\<rparr>\<rparr>)"

fun page_step :: "page \<Rightarrow> event \<Rightarrow> page" where
  "page_step p (LoadComplete a b) = (if phase p = Loading then on_load a b p else p)"
| "page_step p (TimerFires i) =
     (case map_of (intervals p) i of None \<Rightarrow> p | Some cb \<Rightarrow> run_callback cb p)"
| "page_step p ClickApplyFilters = (if phase p = Running then run_updateDashboard p else p)"
| "page_step p ClickManualRefresh = (if phase p = Running then manualRefresh p else p)"
| "page_step p (ChangeTempView v) =
     (let p' = p\<lparr>ctl := (ctl p)\<lparr>tempView := v\<rparr>\<rparr> in if phase p = Running then run_temperature p' else p')"
| "page_step p (ChangeUtilMetric v) =
     (let p' = p\<lparr>ctl := (ctl p)\<lparr>utilMetric := v\<rparr>\<rparr> in if phase p = Running then run_utilization p' else p')"
| "page_step p (SetFilters f) = p\<lparr>ctl := (ctl p)\<lparr>sel := f\<rparr>\<rparr>"
| "page_step p (TimePasses d) = p\<lparr>dash := (dash p)\<lparr>clock := clock (dash p) + \<bar>d\<bar>\<rparr>\<rparr>"

inductive reachable :: "page \<Rightarrow> bool" where
  start: "reachable (init_page g t c)"
| step: "reachable p \<Longrightarrow> reachable (page_step p e)"

definition refresh_ids :: "page \<Rightarrow> nat list" where
  "refresh_ids p = map fst (filter (\<lambda>(i, cb). cb = RefreshTick) (intervals p))"

text \<open>
  The bookkeeping the browser and the scheduler keep consistent: ids are positive,
  distinct and below the counter, and every refresh interval is the one whose id
  \<open>refreshIntervalId\<close> holds.
\<close>

definition timers_ok :: "page \<Rightarrow> bool" where
  "timers_ok p \<longleftrightarrow>
     0 < next_timer_id p \<and> distinct (map fst (intervals p)) \<and>
     (\<forall>(i, cb) \<in> set (intervals p). 0 < i \<and> i < next_timer_id p \<and>
        (cb = RefreshTick \<longrightarrow> refreshIntervalId p = Some i))"

definition page_inv :: "page \<Rightarrow> bool" where
  "page_inv p \<longleftrightarrow>
     timers_ok p \<and>
     (phase p = Running \<longrightarrow> 1 \<le> countdownTimer p \<and> countdownTimer p \<le> refreshInterval \<and>
        (\<exists>i. refresh_ids p = [i] \<and> refreshIntervalId p = Some i)) \<and>
     (phase p \<noteq> Running \<longrightarrow> refresh_ids p = [] \<and> refreshIntervalId p = None \<and>
        page_view p = empty_view \<and> nodesData (dash p) = [])"

text \<open>
  One second of the browser's time: every active interval fires once, in
  registration order.
\<close>

definition one_second :: "page \<Rightarrow> page" where
  "one_second p = foldl (\<lambda>q (i, cb). page_step q (TimerFires i)) p (intervals p)"

declare empty_view_def [dash_defs] updateDashboard_def [dash_defs] initializeFilters_def [dash_defs]
  int_to_string_def [dash_defs] padStart2_def [dash_defs] countdown_string_def [dash_defs]
  setInterval_def [dash_defs] clearInterval_def [dash_defs] updateCountdown_def [dash_defs]
  run_updateDashboard_def [dash_defs] startRefreshTimer_def [dash_defs] refresh_tick_def [dash_defs]
  manualRefresh_def [dash_defs] init_page_def [dash_defs] on_load_def [dash_defs]
  run_temperature_def [dash_defs] run_utilization_def [dash_defs] refresh_ids_def [dash_defs]

section \<open>Lemmas\<close>

lemma updateTemperatureChart_state [simp]:
  "snd (updateTemperatureChart v fs s) = snd (generateCurrentPerformanceData s)"
  by (simp add: updateTemperatureChart_def split_def Let_def)

lemma updateUtilizationChart_state [simp]:
  "snd (updateUtilizationChart m fs s) = snd (generateCurrentPerformanceData s)"
  by (simp add: updateUtilizationChart_def split_def Let_def)

lemma run_updateDashboard_frame [simp]:
  "phase (run_updateDashboard p) = phase p" "intervals (run_updateDashboard p) = intervals p"
  "refreshIntervalId (run_updateDashboard p) = refreshIntervalId p"
  "next_timer_id (run_updateDashboard p) = next_timer_id p"
  "countdownTimer (run_updateDashboard p) = countdownTimer p"
  "ctl (run_updateDashboard p) = ctl p"
  by (simp_all add: run_updateDashboard_def split_def Let_def)

lemma updateCountdown_frame [simp]:
  "phase (updateCountdown p) = phase p" "intervals (updateCountdown p) = intervals p"
  "refreshIntervalId (updateCountdown p) = refreshIntervalId p"
  "next_timer_id (updateCountdown p) = next_timer_id p"
  "countdownTimer (updateCountdown p) = countdownTimer p"
  "dash (updateCountdown p) = dash p" "ctl (updateCountdown p) = ctl p"
  by (simp_all add: updateCountdown_def)

lemma timers_ok_frame:
  "intervals q = intervals p \<Longrightarrow> refreshIntervalId q = refreshIntervalId p \<Longrightarrow>
   next_timer_id q = next_timer_id p \<Longrightarrow> timers_ok q = timers_ok p"
  by (simp add: timers_ok_def)

lemma no_refresh_after_clear:
  assumes "timers_ok p"
  shows "filter (\<lambda>(j, cb). cb = RefreshTick)
           (intervals (case refreshIntervalId p of None \<Rightarrow> p
                       | Some i \<Rightarrow> if i \<noteq> 0 then clearInterval i p else p)) = []"
proof (cases "refreshIntervalId p")
  case None
  with assms show ?thesis by (auto simp: timers_ok_def filter_empty_conv)
next
  case (Some i)
  with assms show ?thesis
    by (auto simp: timers_ok_def filter_empty_conv clearInterval_def)
qed

lemma startRefreshTimer_eq:
  "startRefreshTimer p =
     (let p1 = updateCountdown (p\<lparr>countdownTimer := refreshInterval\<rparr>);
          p2 = (case refreshIntervalId p1 of None \<Rightarrow> p1 | Some i \<Rightarrow> if i \<noteq> 0 then clearInterval i p1 else p1)
      in p2\<lparr>intervals := intervals p2 @ [(next_timer_id p2, RefreshTick)],
             next_timer_id := Suc (next_timer_id p2), refreshIntervalId := Some (next_timer_id p2)\<rparr>)"
  by (simp add: startRefreshTimer_def setInterval_def Let_def)

lemma startRefreshTimer_timers:
  assumes "timers_ok p"
  shows "timers_ok (startRefreshTimer p) \<and> refresh_ids (startRefreshTimer p) = [next_timer_id p] \<and>
         refreshIntervalId (startRefreshTimer p) = Some (next_timer_id p) \<and>
         countdownTimer (startRefreshTimer p) = refreshInterval \<and>
         next_timer_id (startRefreshTimer p) = Suc (next_timer_id p) \<and>
         phase (startRefreshTimer p) = phase p \<and> dash (startRefreshTimer p) = dash p"
proof -
  define p1 where "p1 = updateCountdown (p\<lparr>countdownTimer := refreshInterval\<rparr>)"
  define p2 where "p2 = (case refreshIntervalId p1 of None \<Rightarrow> p1 | Some i \<Rightarrow> if i \<noteq> 0 then clearInterval i p1 else p1)"
  have ok1: "timers_ok p1"
    by (rule timers_ok_frame [THEN iffD2, OF _ _ _ assms]) (simp_all add: p1_def)
  have none: "filter (\<lambda>(j, cb). cb = RefreshTick) (intervals p2) = []"
    unfolding p2_def by (rule no_refresh_after_clear [OF ok1])
  have sub: "set (intervals p2) \<subseteq> set (intervals p)"
    by (auto simp: p2_def p1_def clearInterval_def split: option.split)
  have dist: "distinct (map fst (intervals p2))"
    using assms by (auto simp: p2_def p1_def timers_ok_def clearInterval_def distinct_map_filter split: option.split)
  have ids: "\<forall>(i, cb) \<in> set (intervals p2). 0 < i \<and> i < next_timer_id p"
    using assms sub by (auto simp: timers_ok_def)
  have p2: "next_timer_id p2 = next_timer_id p" "phase p2 = phase p" "dash p2 = dash p"
    "countdownTimer p2 = refreshInterval"
    by (simp_all add: p2_def p1_def clearInterval_def split: option.split)
  have norefresh: "\<forall>(i, cb) \<in> set (intervals p2). cb \<noteq> RefreshTick"
    using none by (auto simp: filter_empty_conv)
  have "startRefreshTimer p =
      p2\<lparr>intervals := intervals p2 @ [(next_timer_id p2, RefreshTick)],
         next_timer_id := Suc (next_timer_id p2), refreshIntervalId := Some (next_timer_id p2)\<rparr>"
    by (simp only: startRefreshTimer_eq Let_def p1_def p2_def)
  then have eq: "startRefreshTimer p =
      p2\<lparr>intervals := intervals p2 @ [(next_timer_id p, RefreshTick)],
         next_timer_id := Suc (next_timer_id p), refreshIntervalId := Some (next_timer_id p)\<rparr>"
    by (simp only: p2(1))
  have "timers_ok (startRefreshTimer p)"
  proof -
    have "next_timer_id p \<notin> fst ` set (intervals p2)" using ids by auto
    then show ?thesis using dist ids norefresh assms unfolding eq timers_ok_def by auto
  qed
  moreover have "refresh_ids (startRefreshTimer p) = [next_timer_id p]"
    using none unfolding eq refresh_ids_def by simp
  ultimately show ?thesis using p2 unfolding eq by simp
qed

lemma refresh_tick_frame:
  "phase (refresh_tick p) = phase p \<and> intervals (refresh_tick p) = intervals p \<and>
   refreshIntervalId (refresh_tick p) = refreshIntervalId p \<and>
   next_timer_id (refresh_tick p) = next_timer_id p \<and>
   countdownTimer (refresh_tick p) = (if countdownTimer p - 1 \<le> 0 then refreshInterval else countdownTimer p - 1)"
  by (simp add: refresh_tick_def Let_def)

lemma run_chart_frame [simp]:
  "phase (run_temperature p) = phase p" "intervals (run_temperature p) = intervals p"
  "refreshIntervalId (run_temperature p) = refreshIntervalId p"
  "next_timer_id (run_temperature p) = next_timer_id p"
  "countdownTimer (run_temperature p) = countdownTimer p"
  "phase (run_utilization p) = phase p" "intervals (run_utilization p) = intervals p"
  "refreshIntervalId (run_utilization p) = refreshIntervalId p"
  "next_timer_id (run_utilization p) = next_timer_id p"
  "countdownTimer (run_utilization p) = countdownTimer p"
  by (simp_all add: run_temperature_def run_utilization_def split_def Let_def)

lemma page_inv_frame:
  assumes "page_inv p" and "phase q = phase p" and "intervals q = intervals p"
    and "refreshIntervalId q = refreshIntervalId p" and "next_timer_id q = next_timer_id p"
    and "countdownTimer q = countdownTimer p"
    and "phase p \<noteq> Running \<Longrightarrow> page_view q = page_view p \<and> nodesData (dash q) = nodesData (dash p)"
  shows "page_inv q"
  using assms by (simp add: page_inv_def timers_ok_def refresh_ids_def)

lemma timers_ok_phase [simp]: "timers_ok (p\<lparr>phase := x\<rparr>) = timers_ok p"
  by (simp add: timers_ok_def)

lemma page_inv_init: "page_inv (init_page g t c)"
  by (simp add: page_inv_def timers_ok_def refresh_ids_def init_page_def setInterval_def refreshInterval_def)

lemma page_inv_on_load:
  assumes "page_inv p" and "phase p = Loading"
  shows "page_inv (on_load a b p)"
proof (cases "load_all a b")
  case (Inl err)
  with assms show ?thesis by (auto simp: on_load_def page_inv_def timers_ok_def refresh_ids_def)
next
  case (Inr r)
  obtain nodes perf where r: "r = (nodes, perf)" by (cases r)
  define p3 where "p3 = run_updateDashboard (p\<lparr>dash := (dash p)\<lparr>nodesData := nodes, performanceData := perf\<rparr>,
                      page_view := (page_view p)\<lparr>filter_options := Some (initializeFilters nodes)\<rparr>\<rparr>)"
  have ok3: "timers_ok p3"
    by (rule timers_ok_frame [THEN iffD2, of _ p]) (use assms in \<open>simp_all add: p3_def page_inv_def\<close>)
  have "on_load a b p = (startRefreshTimer p3)\<lparr>phase := Running\<rparr>"
    using Inr r by (simp add: on_load_def p3_def Let_def)
  moreover have "timers_ok ((startRefreshTimer p3)\<lparr>phase := Running\<rparr>)"
    using startRefreshTimer_timers [OF ok3] by simp
  ultimately show ?thesis
    using startRefreshTimer_timers [OF ok3] by (simp add: page_inv_def refresh_ids_def refreshInterval_def)
qed

lemma refresh_in_running:
  assumes "page_inv p" and "map_of (intervals p) i = Some RefreshTick"
  shows "phase p = Running"
proof (rule ccontr)
  assume "phase p \<noteq> Running"
  with assms(1) have "refresh_ids p = []" by (simp add: page_inv_def)
  moreover from assms(2) have "(i, RefreshTick) \<in> set (intervals p)" by (rule map_of_SomeD)
  ultimately show False by (force simp: refresh_ids_def filter_empty_conv)
qed

lemma page_inv_step:
  assumes "page_inv p"
  shows "page_inv (page_step p e)"
proof (cases e)
  case (LoadComplete a b)
  with assms page_inv_on_load show ?thesis by simp
next
  case (TimerFires i)
  show ?thesis
  proof (cases "map_of (intervals p) i")
    case None
    with TimerFires assms show ?thesis by simp
  next
    case (Some cb)
    show ?thesis
    proof (cases cb)
      case RefreshTick
      with Some assms have run: "phase p = Running" by (simp add: refresh_in_running)
      with assms have "1 \<le> countdownTimer p \<and> countdownTimer p \<le> refreshInterval"
        by (simp add: page_inv_def)
      with assms run refresh_tick_frame [of p] have "page_inv (refresh_tick p)"
        by (simp add: page_inv_def timers_ok_def refresh_ids_def refreshInterval_def)
      with TimerFires Some RefreshTick show ?thesis by simp
    next
      case ClockTick
      with TimerFires Some assms show ?thesis by simp
    qed
  qed
next
  case ClickApplyFilters
  with assms show ?thesis by (auto intro: page_inv_frame)
next
  case ClickManualRefresh
  with assms show ?thesis
    by (auto simp: manualRefresh_def page_inv_def timers_ok_def refresh_ids_def refreshInterval_def)
next
  case (ChangeTempView v)
  with assms show ?thesis by (auto simp: Let_def intro: page_inv_frame)
next
  case (ChangeUtilMetric v)
  with assms show ?thesis by (auto simp: Let_def intro: page_inv_frame)
next
  case (SetFilters f)
  with assms show ?thesis by (auto intro: page_inv_frame)
next
  case (TimePasses d)
  with assms show ?thesis by (auto intro: page_inv_frame)
qed

lemma reachable_page_inv: "reachable p \<Longrightarrow> page_inv p"
  by (induction rule: reachable.induct) (simp_all add: page_inv_init page_inv_step)

lemma numeric_region_option_value: "filter_option (JNum 5) = Some (''5'', ''5'')"
proof -
  have "\<lfloor>5 :: real\<rfloor> = 5" by simp
  then show ?thesis
    by (simp add: filter_option_def int_to_string_def nat_to_string.simps [of 5] char_of_def bit_0)
qed

lemma padStart2_small:
  "n < 100 \<Longrightarrow> length (padStart2 (nat_to_string n)) = 2 \<and> digits_val (padStart2 (nat_to_string n)) = n"
  by (simp add: padStart2_def nat_to_string_length_small nat_to_string_roundtrip)

text \<open>
  C24. For every non-negative countdown the display reads
  \<open>Auto-refresh in M:SS\<close> with exactly two second digits, and decoding the minutes
  and seconds gives back the countdown.
\<close>

theorem countdown_string_roundtrip:
  assumes "0 \<le> c"
  shows "\<exists>m ss. countdown_string c = ''Auto-refresh in '' @ m @ '':'' @ ss \<and> length ss = 2 \<and>
                int (digits_val m * 60 + digits_val ss) = c"
proof -
  have sec: "sgn c * (\<bar>c\<bar> mod 60) = int (nat (c mod 60))" using assms
    by (cases "c = 0") (simp_all add: sgn_if)
  have min: "c div 60 = int (nat (c div 60))" using assms by simp
  have lt: "nat (c mod 60) < 100" by simp
  let ?m = "nat_to_string (nat (c div 60))"
  let ?ss = "padStart2 (nat_to_string (nat (c mod 60)))"
  have e1: "countdown_string c = ''Auto-refresh in '' @ ?m @ '':'' @ ?ss"
    unfolding countdown_string_def Let_def sec by (subst min) (simp only: int_to_string_of_nat)
  have e2: "length ?ss = 2" and e3: "digits_val ?ss = nat (c mod 60)"
    using padStart2_small [OF lt] by simp_all
  have e4: "int (nat (c div 60) * 60 + nat (c mod 60)) = c"
  proof -
    have "0 \<le> c div 60" and "0 \<le> c mod 60" using assms by simp_all
    then show ?thesis by (simp add: div_mult_mod_eq)
  qed
  show ?thesis
  proof (intro exI conjI)
    show "countdown_string c = ''Auto-refresh in '' @ ?m @ '':'' @ ?ss" by (rule e1)
    show "length ?ss = 2" by (rule e2)
    show "int (digits_val ?m * 60 + digits_val ?ss) = c"
      using e3 e4 by (simp only: nat_to_string_roundtrip)
  qed
qed

lemma fire_each:
  assumes "distinct (map fst (intervals q))" and "set ys \<subseteq> set (intervals q)"
    and "int (length (filter (\<lambda>(i, cb). cb = RefreshTick) ys)) < countdownTimer q"
  shows "intervals (foldl (\<lambda>q (i, cb). page_step q (TimerFires i)) q ys) = intervals q \<and>
         countdownTimer (foldl (\<lambda>q (i, cb). page_step q (TimerFires i)) q ys) =
           countdownTimer q - int (length (filter (\<lambda>(i, cb). cb = RefreshTick) ys))"
  using assms
proof (induction ys arbitrary: q)
  case Nil
  then show ?case by simp
next
  case (Cons x ys)
  obtain i cb where x: "x = (i, cb)" by (cases x)
  with Cons.prems(2) have "(i, cb) \<in> set (intervals q)" by simp
  with Cons.prems(1) have m: "map_of (intervals q) i = Some cb" by (rule map_of_is_SomeI)
  show ?case
  proof (cases cb)
    case RefreshTick
    let ?q = "refresh_tick q"
    have f: "intervals ?q = intervals q" "countdownTimer ?q = countdownTimer q - 1"
      using refresh_tick_frame [of q] Cons.prems(3) x RefreshTick by auto
    have "intervals (foldl (\<lambda>q (i, cb). page_step q (TimerFires i)) ?q ys) = intervals ?q \<and>
          countdownTimer (foldl (\<lambda>q (i, cb). page_step q (TimerFires i)) ?q ys) =
            countdownTimer ?q - int (length (filter (\<lambda>(i, cb). cb = RefreshTick) ys))"
      using Cons.prems x RefreshTick f by (intro Cons.IH) auto
    with m x RefreshTick f show ?thesis by simp
  next
    case ClockTick
    have "intervals (foldl (\<lambda>q (i, cb). page_step q (TimerFires i)) q ys) = intervals q \<and>
          countdownTimer (foldl (\<lambda>q (i, cb). page_step q (TimerFires i)) q ys) =
            countdownTimer q - int (length (filter (\<lambda>(i, cb). cb = RefreshTick) ys))"
      using Cons.prems x ClockTick by (intro Cons.IH) auto
    with m x ClockTick show ?thesis by simp
  qed
qed

lemma refresh_interval_registered:
  assumes "page_inv p" and "phase p = Running" and "refreshIntervalId p = Some i"
  shows "map_of (intervals p) i = Some RefreshTick"
proof -
  from assms have "refresh_ids p = [i]" by (auto simp: page_inv_def)
  then have "i \<in> set (refresh_ids p)" by simp
  then have "(i, RefreshTick) \<in> set (intervals p)" by (auto simp: refresh_ids_def)
  moreover from assms(1) have "distinct (map fst (intervals p))" by (simp add: page_inv_def timers_ok_def)
  ultimately show ?thesis by (rule map_of_is_SomeI [rotated])
qed

lemma refresh_tick_quiet:
  "1 < countdownTimer p \<Longrightarrow> dash (refresh_tick p) = dash p \<and> ctl (refresh_tick p) = ctl p"
  by (simp add: refresh_tick_def Let_def)

lemma fire_refresh_quiet:
  assumes "page_inv p" and "phase p = Running" and "refreshIntervalId p = Some i"
    and "int k < countdownTimer p"
  shows "page_inv (foldl page_step p (replicate k (TimerFires i))) \<and>
         phase (foldl page_step p (replicate k (TimerFires i))) = Running \<and>
         refreshIntervalId (foldl page_step p (replicate k (TimerFires i))) = Some i \<and>
         countdownTimer (foldl page_step p (replicate k (TimerFires i))) = countdownTimer p - int k \<and>
         dash (foldl page_step p (replicate k (TimerFires i))) = dash p \<and>
         ctl (foldl page_step p (replicate k (TimerFires i))) = ctl p"
  using assms
proof (induction k arbitrary: p)
  case 0
  then show ?case by simp
next
  case (Suc k)
  have step: "page_step p (TimerFires i) = refresh_tick p"
    using refresh_interval_registered [OF Suc.prems(1-3)] by simp
  have inv': "page_inv (refresh_tick p)"
    using page_inv_step [OF Suc.prems(1), of "TimerFires i"] step by simp
  have f: "phase (refresh_tick p) = Running" "refreshIntervalId (refresh_tick p) = Some i"
      "countdownTimer (refresh_tick p) = countdownTimer p - 1"
    using refresh_tick_frame [of p] Suc.prems by auto
  have q: "dash (refresh_tick p) = dash p" "ctl (refresh_tick p) = ctl p"
    using refresh_tick_quiet [of p] Suc.prems(4) by simp_all
  have "int k < countdownTimer (refresh_tick p)" using f(3) Suc.prems(4) by simp
  from Suc.IH [OF inv' f(1,2) this] step f q show ?case by simp
qed

lemma updateDashboard_view_indep:
  "fst (updateDashboard c s v) = fst (updateDashboard c s v')"
  by (simp add: updateDashboard_def Let_def split_def)

lemma fire_refresh_cycle:
  assumes inv: "page_inv p" and "phase p = Running" and "refreshIntervalId p = Some i"
  shows "(\<forall>k < nat (countdownTimer p). dash (foldl page_step p (replicate k (TimerFires i))) = dash p) \<and>
         dash (foldl page_step p (replicate (nat (countdownTimer p)) (TimerFires i))) =
           fst (updateDashboard (ctl p) (dash p) (page_view p)) \<and>
         countdownTimer (foldl page_step p (replicate (nat (countdownTimer p)) (TimerFires i))) = 180"
proof -
  have pos: "1 \<le> countdownTimer p" using inv assms(2) by (simp add: page_inv_def)
  define k where "k = nat (countdownTimer p) - 1"
  have n: "nat (countdownTimer p) = Suc k" and lt: "int k < countdownTimer p"
    using pos by (simp_all add: k_def)
  define q where "q = foldl page_step p (replicate k (TimerFires i))"
  have qk: "page_inv q" "phase q = Running" "refreshIntervalId q = Some i" "countdownTimer q = 1"
      "dash q = dash p" "ctl q = ctl p"
    using fire_refresh_quiet [OF inv assms(2,3) lt] lt unfolding q_def by (simp_all add: k_def)
  have last: "foldl page_step p (replicate (nat (countdownTimer p)) (TimerFires i)) = refresh_tick q"
  proof -
    have "replicate (Suc k) (TimerFires i) = replicate k (TimerFires i) @ [TimerFires i]"
      by (simp add: replicate_append_same)
    then show ?thesis using refresh_interval_registered [OF qk(1-3)] by (simp add: n q_def)
  qed
  have quiet: "\<forall>k' < nat (countdownTimer p). dash (foldl page_step p (replicate k' (TimerFires i))) = dash p"
    using fire_refresh_quiet [OF inv assms(2,3)] by auto
  have "dash (refresh_tick q) = fst (updateDashboard (ctl p) (dash p) (page_view p))"
    using qk(4-6) updateDashboard_view_indep [of "ctl p" "dash p" _ "page_view p"]
    by (simp add: refresh_tick_def run_updateDashboard_def Let_def split_def)
  moreover have "countdownTimer (refresh_tick q) = 180"
    using qk(4) refresh_tick_frame [of q] by (simp add: refreshInterval_def)
  ultimately show ?thesis using last quiet by simp
qed

text \<open>
  C11. Starting the refresh timer twice in succession leaves exactly one refresh
  interval, and one second later the countdown has gone down by exactly one.
\<close>

theorem restart_twice_single_countdown:
  assumes "timers_ok p"
  shows "refresh_ids (startRefreshTimer (startRefreshTimer p)) = [Suc (next_timer_id p)] \<and>
         countdownTimer (one_second (startRefreshTimer (startRefreshTimer p))) = refreshInterval - 1"
proof -
  let ?q = "startRefreshTimer (startRefreshTimer p)"
  have s1: "timers_ok (startRefreshTimer p)" "next_timer_id (startRefreshTimer p) = Suc (next_timer_id p)"
    using startRefreshTimer_timers [OF assms] by simp_all
  have s2: "timers_ok ?q" "refresh_ids ?q = [Suc (next_timer_id p)]" "countdownTimer ?q = refreshInterval"
    using startRefreshTimer_timers [OF s1(1)] s1(2) by simp_all
  have one: "length (filter (\<lambda>(i, cb). cb = RefreshTick) (intervals ?q)) = 1"
  proof -
    have "length (refresh_ids ?q) = 1" using s2(2) by simp
    then show ?thesis by (simp add: refresh_ids_def)
  qed
  have "countdownTimer (one_second ?q) = countdownTimer ?q - 1"
    using fire_each [of ?q "intervals ?q"] s2(1,3) one
    by (simp add: one_second_def timers_ok_def refreshInterval_def)
  with s2 show ?thesis by simp
qed

text \<open>
  C12. In every state the page can reach, once the dashboard runs the countdown lies
  in [1, 180] and exactly one refresh interval is active.
\<close>

theorem reachable_countdown_bounds:
  assumes "reachable p" and "phase p = Running"
  shows "1 \<le> countdownTimer p \<and> countdownTimer p \<le> 180 \<and> length (refresh_ids p) = 1"
  using reachable_page_inv [OF assms(1)] assms(2) by (auto simp: page_inv_def refreshInterval_def)

text \<open>
  C28. When either dataset fails to load, the page never shows dashboard data: in
  every reachable failed state nothing is rendered, no data is stored and no refresh
  interval runs.
\<close>

theorem load_failure_halts:
  assumes "reachable p" and "phase p = LoadFailed"
  shows "page_view p = empty_view \<and> nodesData (dash p) = [] \<and> refresh_ids p = []"
  using reachable_page_inv [OF assms(1)] assms(2) by (simp add: page_inv_def)

text \<open>
  C17. One refresh cycle runs the simulator three times (status, map, metrics and
  lists from the first run; the temperature and utilization charts each from a run of
  their own): the cursor advances by 150, and the store is untouched.
\<close>

theorem updateDashboard_cursor:
  "simulatedDataIndex (fst (updateDashboard c s v)) = simulatedDataIndex s + 150 \<and>
   nodesData (fst (updateDashboard c s v)) = nodesData s \<and>
   performanceData (fst (updateDashboard c s v)) = performanceData s"
  by (simp add: updateDashboard_def Let_def split_def)

lemma updateDashboard_status_temp:
  "status_v (snd (updateDashboard c s v)) = Some (updateNetworkStatus (fst (fst (getFilteredData (sel c) s)))) \<and>
   temp_chart_v (snd (updateDashboard c s v)) =
     Some (temperature_chart (tempView c) (fst (fst (getFilteredData (sel c)
       ((snd (getFilteredData (sel c) s))\<lparr>random_src :=
          snd (updateKeyMetrics (fst (fst (getFilteredData (sel c) s))) (random_src (snd (getFilteredData (sel c) s))))\<rparr>)))))"
  by (simp add: updateDashboard_def updateTemperatureChart_def Let_def split_def split: option.split)

lemma updateDashboard_countdown_text [simp]:
  "countdown_text (snd (updateDashboard c s v)) = countdown_text v"
  by (simp add: updateDashboard_def Let_def split_def split: option.split)

lemma countdown_string_zero: "countdown_string 0 = ''Auto-refresh in 0:00''"
  by (simp add: countdown_string_def int_to_string_def padStart2_def nat_to_string.simps [of 0] char_of_def bit_0)

text \<open>
  C26. A tick that brings the countdown to zero shows "0:00", runs a full refresh
  cycle from the current state and resets the countdown to 180; any other tick only
  decrements it, leaving the data untouched.
\<close>

theorem refresh_tick_behaviour:
  assumes "1 \<le> countdownTimer p"
  shows "(countdownTimer p = 1 \<longrightarrow>
            countdownTimer (refresh_tick p) = 180 \<and>
            dash (refresh_tick p) = fst (updateDashboard (ctl p) (dash p) (page_view p)) \<and>
            countdown_text (page_view (refresh_tick p)) = ''Auto-refresh in 0:00'') \<and>
         (1 < countdownTimer p \<longrightarrow>
            countdownTimer (refresh_tick p) = countdownTimer p - 1 \<and> dash (refresh_tick p) = dash p)"
  using assms updateDashboard_view_indep [of "ctl p" "dash p" _ "page_view p"]
  by (auto simp: refresh_tick_def run_updateDashboard_def updateCountdown_def refreshInterval_def
      countdown_string_zero Let_def split_def)

text \<open>
  C27. A manual refresh resets the countdown to 180 but does not redraw the countdown
  text: the display keeps its old value until the next tick.
\<close>

theorem manualRefresh_display_stale:
  "countdownTimer (manualRefresh p) = 180 \<and>
   countdown_text (page_view (manualRefresh p)) = countdown_text (page_view p) \<and>
   dash (manualRefresh p) = fst (updateDashboard (ctl p) (dash p) (page_view p))"
  by (simp add: manualRefresh_def run_updateDashboard_def refreshInterval_def Let_def split_def)

text \<open>
  C13. The refresh interval keeps the dashboard live: in every reachable running state,
  the ticks before the countdown runs out leave the data untouched, and the tick that
  makes it run out performs a full refresh cycle and restarts the countdown at 180.
\<close>

theorem refresh_liveness:
  assumes "reachable p" and "phase p = Running" and "refreshIntervalId p = Some i"
  shows "(\<forall>k < nat (countdownTimer p). dash (foldl page_step p (replicate k (TimerFires i))) = dash p) \<and>
         dash (foldl page_step p (replicate (nat (countdownTimer p)) (TimerFires i))) =
           fst (updateDashboard (ctl p) (dash p) (page_view p)) \<and>
         countdownTimer (foldl page_step p (replicate (nat (countdownTimer p)) (TimerFires i))) = 180"
  using fire_refresh_cycle [OF reachable_page_inv [OF assms(1)] assms(2,3)] .

text \<open>
  C29. The filter selectors offer each truthy region and node type of the store exactly
  once (\<open>[...new Set(...)]\<close> followed by the skip of empty values), and nothing else.
\<close>

theorem initializeFilters_spec:
  "distinct (fst (initializeFilters nodes)) \<and>
   set (fst (initializeFilters nodes)) = {r \<in> region ` set nodes. truthy r} \<and>
   distinct (snd (initializeFilters nodes)) \<and>
   set (snd (initializeFilters nodes)) = {t \<in> node_type ` set nodes. truthy t}"
  by (auto simp: initializeFilters_def)

text \<open>
  C37. The filter selectors are read when a refresh runs, not when "Apply" is clicked.
  A selection left pending is applied by the next auto-refresh tick. A change of the
  temperature view draws the chart with the pending selection at once, while the
  counters and lists keep the previous one.
\<close>

theorem pending_filters_applied:
  assumes "reachable p" and "phase p = Running" and "refreshIntervalId p = Some i"
  shows "dash (page_step (page_step p (SetFilters f)) (TimerFires i)) =
           (if countdownTimer p = 1 then fst (updateDashboard ((ctl p)\<lparr>sel := f\<rparr>) (dash p) (page_view p))
            else dash p) \<and>
         temp_chart_v (page_view (page_step (page_step p (SetFilters f)) (ChangeTempView tv))) =
           Some (fst (updateTemperatureChart tv f (dash p))) \<and>
         status_v (page_view (page_step (page_step p (SetFilters f)) (ChangeTempView tv))) = status_v (page_view p) \<and>
         alerts_v (page_view (page_step (page_step p (SetFilters f)) (ChangeTempView tv))) = alerts_v (page_view p)"
proof -
  have inv: "page_inv p" using reachable_page_inv [OF assms(1)] .
  let ?p1 = "page_step p (SetFilters f)"
  have f1: "page_inv ?p1" using page_inv_step [OF inv] .
  have reg: "map_of (intervals ?p1) i = Some RefreshTick"
    using refresh_interval_registered [OF f1] assms(2,3) by simp
  have cd: "1 \<le> countdownTimer p" using inv assms(2) by (simp add: page_inv_def)
  have tick: "dash (page_step ?p1 (TimerFires i)) =
           (if countdownTimer p = 1 then fst (updateDashboard ((ctl p)\<lparr>sel := f\<rparr>) (dash p) (page_view p))
            else dash p)"
    using reg cd updateDashboard_view_indep [of "(ctl p)\<lparr>sel := f\<rparr>" "dash p" _ "page_view p"]
    by (simp add: refresh_tick_def run_updateDashboard_def Let_def split_def)
  moreover have "temp_chart_v (page_view (page_step ?p1 (ChangeTempView tv))) =
           Some (fst (updateTemperatureChart tv f (dash p))) \<and>
         status_v (page_view (page_step ?p1 (ChangeTempView tv))) = status_v (page_view p) \<and>
         alerts_v (page_view (page_step ?p1 (ChangeTempView tv))) = alerts_v (page_view p)"
    using assms(2) by (simp add: run_temperature_def Let_def split_def)
  ultimately show ?thesis by simp
qed

text \<open>
  C39. A manual refresh restarts the refresh period even though it keeps the same
  interval: after it, the next 179 firings of the refresh interval refresh nothing, and
  the 180th runs one refresh cycle. A manual refresh is never followed by an early
  automatic one.
\<close>

theorem manualRefresh_restarts_period:
  assumes "reachable p" and "phase p = Running" and "refreshIntervalId p = Some i"
  shows "(\<forall>k < 180. dash (foldl page_step (page_step p ClickManualRefresh) (replicate k (TimerFires i))) =
                   dash (manualRefresh p)) \<and>
         dash (foldl page_step (page_step p ClickManualRefresh) (replicate 180 (TimerFires i))) =
           fst (updateDashboard (ctl p) (dash (manualRefresh p)) (page_view (manualRefresh p))) \<and>
         countdownTimer (foldl page_step (page_step p ClickManualRefresh) (replicate 180 (TimerFires i))) = 180"
proof -
  let ?q = "page_step p ClickManualRefresh"
  have q: "?q = manualRefresh p" using assms(2) by simp
  have inv: "page_inv ?q" using page_inv_step [OF reachable_page_inv [OF assms(1)]] .
  have f: "phase ?q = Running" "refreshIntervalId ?q = Some i" "countdownTimer ?q = 180" "ctl ?q = ctl p"
    using assms(2,3) by (simp_all add: manualRefresh_def refreshInterval_def)
  from fire_refresh_cycle [OF inv f(1,2)] f(3,4) q show ?thesis by simp
qed

theorem restart_twice_single_countdown_witness:
  "timers_ok (init_page \<lparr>draws = \<lambda>_. 1 / 2, rpos = 0\<rparr> 0 \<lparr>sel = \<lparr>selectedRegion = ''all'', selectedNodeType = ''all'', selectedStatus = ''all''\<rparr>,
        tempView = ''all'', utilMetric = ''cpu''\<rparr>) \<and>
   refresh_ids (startRefreshTimer (startRefreshTimer (init_page \<lparr>draws = \<lambda>_. 1 / 2, rpos = 0\<rparr> 0 \<lparr>sel = \<lparr>selectedRegion = ''all'', selectedNodeType = ''all'', selectedStatus = ''all''\<rparr>,
        tempView = ''all'', utilMetric = ''cpu''\<rparr>))) = [3] \<and>
   countdownTimer (one_second (startRefreshTimer (startRefreshTimer (init_page \<lparr>draws = \<lambda>_. 1 / 2, rpos = 0\<rparr> 0 \<lparr>sel = \<lparr>selectedRegion = ''all'', selectedNodeType = ''all'', selectedStatus = ''all''\<rparr>,
        tempView = ''all'', utilMetric = ''cpu''\<rparr>)))) = 179"
proof -
  have ok: "timers_ok (init_page \<lparr>draws = \<lambda>_. 1 / 2, rpos = 0\<rparr> 0 \<lparr>sel = \<lparr>selectedRegion = ''all'', selectedNodeType = ''all'', selectedStatus = ''all''\<rparr>,
        tempView = ''all'', utilMetric = ''cpu''\<rparr>)"
    by (simp add: timers_ok_def init_page_def setInterval_def)
  have n: "next_timer_id (init_page \<lparr>draws = \<lambda>_. 1 / 2, rpos = 0\<rparr> 0 \<lparr>sel = \<lparr>selectedRegion = ''all'', selectedNodeType = ''all'', selectedStatus = ''all''\<rparr>,
        tempView = ''all'', utilMetric = ''cpu''\<rparr>) = 2"
    by (simp add: init_page_def setInterval_def)
  from restart_twice_single_countdown [OF ok] ok n show ?thesis by (simp add: refreshInterval_def)
qed

theorem reachable_countdown_bounds_witness:
  "reachable (page_step (init_page \<lparr>draws = \<lambda>_. 1 / 2, rpos = 0\<rparr> 0 \<lparr>sel = \<lparr>selectedRegion = ''all'', selectedNodeType = ''all'', selectedStatus = ''all''\<rparr>,
        tempView = ''all'', utilMetric = ''cpu''\<rparr>) (LoadComplete (Inr []) (Inr []))) \<and>
   phase (page_step (init_page \<lparr>draws = \<lambda>_. 1 / 2, rpos = 0\<rparr> 0 \<lparr>sel = \<lparr>selectedRegion = ''all'', selectedNodeType = ''all'', selectedStatus = ''all''\<rparr>,
        tempView = ''all'', utilMetric = ''cpu''\<rparr>) (LoadComplete (Inr []) (Inr []))) = Running \<and>
   countdownTimer (page_step (init_page \<lparr>draws = \<lambda>_. 1 / 2, rpos = 0\<rparr> 0 \<lparr>sel = \<lparr>selectedRegion = ''all'', selectedNodeType = ''all'', selectedStatus = ''all''\<rparr>,
        tempView = ''all'', utilMetric = ''cpu''\<rparr>) (LoadComplete (Inr []) (Inr []))) \<le> 180"
proof -
  have r: "reachable (page_step (init_page \<lparr>draws = \<lambda>_. 1 / 2, rpos = 0\<rparr> 0 \<lparr>sel = \<lparr>selectedRegion = ''all'', selectedNodeType = ''all'', selectedStatus = ''all''\<rparr>,
        tempView = ''all'', utilMetric = ''cpu''\<rparr>) (LoadComplete (Inr []) (Inr [])))"
    by (rule reachable.step [OF reachable.start])
  have ph: "phase (page_step (init_page \<lparr>draws = \<lambda>_. 1 / 2, rpos = 0\<rparr> 0 \<lparr>sel = \<lparr>selectedRegion = ''all'', selectedNodeType = ''all'', selectedStatus = ''all''\<rparr>,
        tempView = ''all'', utilMetric = ''cpu''\<rparr>) (LoadComplete (Inr []) (Inr []))) = Running"
    by (simp add: init_page_def setInterval_def on_load_def load_all_def loadCSV_def Let_def)
  from reachable_countdown_bounds [OF r ph] r ph show ?thesis by simp
qed

theorem load_failure_halts_witness:
  "reachable (page_step (init_page \<lparr>draws = \<lambda>_. 1 / 2, rpos = 0\<rparr> 0 \<lparr>sel = \<lparr>selectedRegion = ''all'', selectedNodeType = ''all'', selectedStatus = ''all''\<rparr>,
        tempView = ''all'', utilMetric = ''cpu''\<rparr>) (LoadComplete (Inl ''404'') (Inr []))) \<and>
   phase (page_step (init_page \<lparr>draws = \<lambda>_. 1 / 2, rpos = 0\<rparr> 0 \<lparr>sel = \<lparr>selectedRegion = ''all'', selectedNodeType = ''all'', selectedStatus = ''all''\<rparr>,
        tempView = ''all'', utilMetric = ''cpu''\<rparr>) (LoadComplete (Inl ''404'') (Inr []))) = LoadFailed \<and>
   page_view (page_step (init_page \<lparr>draws = \<lambda>_. 1 / 2, rpos = 0\<rparr> 0 \<lparr>sel = \<lparr>selectedRegion = ''all'', selectedNodeType = ''all'', selectedStatus = ''all''\<rparr>,
        tempView = ''all'', utilMetric = ''cpu''\<rparr>) (LoadComplete (Inl ''404'') (Inr []))) = empty_view"
proof -
  have r: "reachable (page_step (init_page \<lparr>draws = \<lambda>_. 1 / 2, rpos = 0\<rparr> 0 \<lparr>sel = \<lparr>selectedRegion = ''all'', selectedNodeType = ''all'', selectedStatus = ''all''\<rparr>,
        tempView = ''all'', utilMetric = ''cpu''\<rparr>) (LoadComplete (Inl ''404'') (Inr [])))"
    by (rule reachable.step [OF reachable.start])
  have ph: "phase (page_step (init_page \<lparr>draws = \<lambda>_. 1 / 2, rpos = 0\<rparr> 0 \<lparr>sel = \<lparr>selectedRegion = ''all'', selectedNodeType = ''all'', selectedStatus = ''all''\<rparr>,
        tempView = ''all'', utilMetric = ''cpu''\<rparr>) (LoadComplete (Inl ''404'') (Inr []))) = LoadFailed"
    by (simp add: init_page_def setInterval_def on_load_def load_all_def loadCSV_def)
  from load_failure_halts [OF r ph] r ph show ?thesis by simp
qed

theorem countdown_string_roundtrip_witness:
  "\<exists>m ss. countdown_string 180 = ''Auto-refresh in '' @ m @ '':'' @ ss \<and> length ss = 2 \<and>
          int (digits_val m * 60 + digits_val ss) = 180"
  using countdown_string_roundtrip [of 180] by simp

theorem refresh_tick_behaviour_witness:
  "countdownTimer (refresh_tick ((init_page \<lparr>draws = \<lambda>_. 1 / 2, rpos = 0\<rparr> 0 \<lparr>sel = \<lparr>selectedRegion = ''all'', selectedNodeType = ''all'', selectedStatus = ''all''\<rparr>,
        tempView = ''all'', utilMetric = ''cpu''\<rparr>)\<lparr>countdownTimer := 1\<rparr>)) = 180"
  using refresh_tick_behaviour [of "(init_page \<lparr>draws = \<lambda>_. 1 / 2, rpos = 0\<rparr> 0 \<lparr>sel = \<lparr>selectedRegion = ''all'', selectedNodeType = ''all'', selectedStatus = ''all''\<rparr>,
        tempView = ''all'', utilMetric = ''cpu''\<rparr>)\<lparr>countdownTimer := 1\<rparr>"] by simp

theorem refresh_liveness_witness:
  "reachable (page_step (init_page \<lparr>draws = \<lambda>_. 1 / 2, rpos = 0\<rparr> 0 \<lparr>sel = \<lparr>selectedRegion = ''all'', selectedNodeType = ''all'', selectedStatus = ''all''\<rparr>,
        tempView = ''all'', utilMetric = ''cpu''\<rparr>) (LoadComplete (Inr []) (Inr []))) \<and> phase (page_step (init_page \<lparr>draws = \<lambda>_. 1 / 2, rpos = 0\<rparr> 0 \<lparr>sel = \<lparr>selectedRegion = ''all'', selectedNodeType = ''all'', selectedStatus = ''all''\<rparr>,
        tempView = ''all'', utilMetric = ''cpu''\<rparr>) (LoadComplete (Inr []) (Inr []))) = Running \<and> refreshIntervalId (page_step (init_page \<lparr>draws = \<lambda>_. 1 / 2, rpos = 0\<rparr> 0 \<lparr>sel = \<lparr>selectedRegion = ''all'', selectedNodeType = ''all'', selectedStatus = ''all''\<rparr>,
        tempView = ''all'', utilMetric = ''cpu''\<rparr>) (LoadComplete (Inr []) (Inr []))) = Some 2 \<and>
   countdownTimer (foldl page_step (page_step (init_page \<lparr>draws = \<lambda>_. 1 / 2, rpos = 0\<rparr> 0 \<lparr>sel = \<lparr>selectedRegion = ''all'', selectedNodeType = ''all'', selectedStatus = ''all''\<rparr>,
        tempView = ''all'', utilMetric = ''cpu''\<rparr>) (LoadComplete (Inr []) (Inr []))) (replicate 180 (TimerFires 2))) = 180"
proof -
  have r: "reachable (page_step (init_page \<lparr>draws = \<lambda>_. 1 / 2, rpos = 0\<rparr> 0 \<lparr>sel = \<lparr>selectedRegion = ''all'', selectedNodeType = ''all'', selectedStatus = ''all''\<rparr>,
        tempView = ''all'', utilMetric = ''cpu''\<rparr>) (LoadComplete (Inr []) (Inr [])))"
    by (rule reachable.step [OF reachable.start])
  have ph: "phase (page_step (init_page \<lparr>draws = \<lambda>_. 1 / 2, rpos = 0\<rparr> 0 \<lparr>sel = \<lparr>selectedRegion = ''all'', selectedNodeType = ''all'', selectedStatus = ''all''\<rparr>,
        tempView = ''all'', utilMetric = ''cpu''\<rparr>) (LoadComplete (Inr []) (Inr []))) = Running"
    by (simp add: init_page_def setInterval_def on_load_def load_all_def loadCSV_def Let_def)
  have ri: "refreshIntervalId (page_step (init_page \<lparr>draws = \<lambda>_. 1 / 2, rpos = 0\<rparr> 0 \<lparr>sel = \<lparr>selectedRegion = ''all'', selectedNodeType = ''all'', selectedStatus = ''all''\<rparr>,
        tempView = ''all'', utilMetric = ''cpu''\<rparr>) (LoadComplete (Inr []) (Inr []))) = Some 2"
    by (simp add: init_page_def setInterval_def on_load_def load_all_def loadCSV_def Let_def startRefreshTimer_eq)
  have cd: "countdownTimer (page_step (init_page \<lparr>draws = \<lambda>_. 1 / 2, rpos = 0\<rparr> 0 \<lparr>sel = \<lparr>selectedRegion = ''all'', selectedNodeType = ''all'', selectedStatus = ''all''\<rparr>,
        tempView = ''all'', utilMetric = ''cpu''\<rparr>) (LoadComplete (Inr []) (Inr []))) = 180"
    by (simp add: init_page_def setInterval_def on_load_def load_all_def loadCSV_def Let_def startRefreshTimer_eq refreshInterval_def)
  from refresh_liveness [OF r ph ri] r ph ri cd show ?thesis by simp
qed

theorem pending_filters_applied_witness:
  "reachable (page_step (init_page \<lparr>draws = \<lambda>_. 1 / 2, rpos = 0\<rparr> 0 \<lparr>sel = \<lparr>selectedRegion = ''all'', selectedNodeType = ''all'', selectedStatus = ''all''\<rparr>,
        tempView = ''all'', utilMetric = ''cpu''\<rparr>) (LoadComplete (Inr []) (Inr []))) \<and> phase (page_step (init_page \<lparr>draws = \<lambda>_. 1 / 2, rpos = 0\<rparr> 0 \<lparr>sel = \<lparr>selectedRegion = ''all'', selectedNodeType = ''all'', selectedStatus = ''all''\<rparr>,
        tempView = ''all'', utilMetric = ''cpu''\<rparr>) (LoadComplete (Inr []) (Inr []))) = Running \<and> refreshIntervalId (page_step (init_page \<lparr>draws = \<lambda>_. 1 / 2, rpos = 0\<rparr> 0 \<lparr>sel = \<lparr>selectedRegion = ''all'', selectedNodeType = ''all'', selectedStatus = ''all''\<rparr>,
        tempView = ''all'', utilMetric = ''cpu''\<rparr>) (LoadComplete (Inr []) (Inr []))) = Some 2 \<and>
   status_v (page_view (page_step (page_step (page_step (init_page \<lparr>draws = \<lambda>_. 1 / 2, rpos = 0\<rparr> 0 \<lparr>sel = \<lparr>selectedRegion = ''all'', selectedNodeType = ''all'', selectedStatus = ''all''\<rparr>,
        tempView = ''all'', utilMetric = ''cpu''\<rparr>) (LoadComplete (Inr []) (Inr []))) (SetFilters \<lparr>selectedRegion = ''East'', selectedNodeType = ''all'', selectedStatus = ''all''\<rparr>)) (ChangeTempView ''critical''))) =
     status_v (page_view (page_step (init_page \<lparr>draws = \<lambda>_. 1 / 2, rpos = 0\<rparr> 0 \<lparr>sel = \<lparr>selectedRegion = ''all'', selectedNodeType = ''all'', selectedStatus = ''all''\<rparr>,
        tempView = ''all'', utilMetric = ''cpu''\<rparr>) (LoadComplete (Inr []) (Inr []))))"
proof -
  have r: "reachable (page_step (init_page \<lparr>draws = \<lambda>_. 1 / 2, rpos = 0\<rparr> 0 \<lparr>sel = \<lparr>selectedRegion = ''all'', selectedNodeType = ''all'', selectedStatus = ''all''\<rparr>,
        tempView = ''all'', utilMetric = ''cpu''\<rparr>) (LoadComplete (Inr []) (Inr [])))"
    by (rule reachable.step [OF reachable.start])
  have ph: "phase (page_step (init_page \<lparr>draws = \<lambda>_. 1 / 2, rpos = 0\<rparr> 0 \<lparr>sel = \<lparr>selectedRegion = ''all'', selectedNodeType = ''all'', selectedStatus = ''all''\<rparr>,
        tempView = ''all'', utilMetric = ''cpu''\<rparr>) (LoadComplete (Inr []) (Inr []))) = Running"
    by (simp add: init_page_def setInterval_def on_load_def load_all_def loadCSV_def Let_def)
  have ri: "refreshIntervalId (page_step (init_page \<lparr>draws = \<lambda>_. 1 / 2, rpos = 0\<rparr> 0 \<lparr>sel = \<lparr>selectedRegion = ''all'', selectedNodeType = ''all'', selectedStatus = ''all''\<rparr>,
        tempView = ''all'', utilMetric = ''cpu''\<rparr>) (LoadComplete (Inr []) (Inr []))) = Some 2"
    by (simp add: init_page_def setInterval_def on_load_def load_all_def loadCSV_def Let_def startRefreshTimer_eq)
  from pending_filters_applied [OF r ph ri, of "\<lparr>selectedRegion = ''East'', selectedNodeType = ''all'', selectedStatus = ''all''\<rparr>" "''critical''"] r ph ri show ?thesis by simp
qed

theorem manualRefresh_restarts_period_witness:
  "reachable (page_step (init_page \<lparr>draws = \<lambda>_. 1 / 2, rpos = 0\<rparr> 0 \<lparr>sel = \<lparr>selectedRegion = ''all'', selectedNodeType = ''all'', selectedStatus = ''all''\<rparr>,
        tempView = ''all'', utilMetric = ''cpu''\<rparr>) (LoadComplete (Inr []) (Inr []))) \<and> phase (page_step (init_page \<lparr>draws = \<lambda>_. 1 / 2, rpos = 0\<rparr> 0 \<lparr>sel = \<lparr>selectedRegion = ''all'', selectedNodeType = ''all'', selectedStatus = ''all''\<rparr>,
        tempView = ''all'', utilMetric = ''cpu''\<rparr>) (LoadComplete (Inr []) (Inr []))) = Running \<and> refreshIntervalId (page_step (init_page \<lparr>draws = \<lambda>_. 1 / 2, rpos = 0\<rparr> 0 \<lparr>sel = \<lparr>selectedRegion = ''all'', selectedNodeType = ''all'', selectedStatus = ''all''\<rparr>,
        tempView = ''all'', utilMetric = ''cpu''\<rparr>) (LoadComplete (Inr []) (Inr []))) = Some 2 \<and>
   countdownTimer (foldl page_step (page_step (page_step (init_page \<lparr>draws = \<lambda>_. 1 / 2, rpos = 0\<rparr> 0 \<lparr>sel = \<lparr>selectedRegion = ''all'', selectedNodeType = ''all'', selectedStatus = ''all''\<rparr>,
        tempView = ''all'', utilMetric = ''cpu''\<rparr>) (LoadComplete (Inr []) (Inr []))) ClickManualRefresh) (replicate 180 (TimerFires 2))) = 180"
proof -
  have r: "reachable (page_step (init_page \<lparr>draws = \<lambda>_. 1 / 2, rpos = 0\<rparr> 0 \<lparr>sel = \<lparr>selectedRegion = ''all'', selectedNodeType = ''all'', selectedStatus = ''all''\<rparr>,
        tempView = ''all'', utilMetric = ''cpu''\<rparr>) (LoadComplete (Inr []) (Inr [])))"
    by (rule reachable.step [OF reachable.start])
  have ph: "phase (page_step (init_page \<lparr>draws = \<lambda>_. 1 / 2, rpos = 0\<rparr> 0 \<lparr>sel = \<lparr>selectedRegion = ''all'', selectedNodeType = ''all'', selectedStatus = ''all''\<rparr>,
        tempView = ''all'', utilMetric = ''cpu''\<rparr>) (LoadComplete (Inr []) (Inr []))) = Running"
    by (simp add: init_page_def setInterval_def on_load_def load_all_def loadCSV_def Let_def)
  have ri: "refreshIntervalId (page_step (init_page \<lparr>draws = \<lambda>_. 1 / 2, rpos = 0\<rparr> 0 \<lparr>sel = \<lparr>selectedRegion = ''all'', selectedNodeType = ''all'', selectedStatus = ''all''\<rparr>,
        tempView = ''all'', utilMetric = ''cpu''\<rparr>) (LoadComplete (Inr []) (Inr []))) = Some 2"
    by (simp add: init_page_def setInterval_def on_load_def load_all_def loadCSV_def Let_def startRefreshTimer_eq)
  from manualRefresh_restarts_period [OF r ph ri] r ph ri show ?thesis by simp
qed

end
