(* ===== verification/Page_Invariants.thy ===== *)
theory Page_Invariants
  imports Dashboard
begin

text \<open>
  The shape of everything the page displays, as a predicate per payload, and the
  theorem that every page state reachable from startup displays well-formed payloads.
  These are the types the renderers rely on: parallel arrays of equal length, at most
  20 bars sorted by value and coloured by the chart's thresholds, eleven-point
  sparklines ending at their card's value, bounded lists, distinct truthy filter
  options, and a countdown text between 0:00 and 3:00.
\<close>

section \<open>Well-formed payloads\<close>

definition status_ok :: "status_view \<Rightarrow> bool" where
  "status_ok sv \<longleftrightarrow> alert_count sv = warning_count sv + critical_count sv"

definition map_ok :: "map_view \<Rightarrow> bool" where
  "map_ok mv \<longleftrightarrow>
     length (map_lat mv) = length (map_lon mv) \<and> length (map_text mv) = length (map_lon mv) \<and>
     length (map_colors mv) = length (map_lon mv) \<and>
     list_all (\<lambda>c. c \<in> {''red'', ''orange'', ''green'', ''gray''}) (map_colors mv)"

definition metrics_ok :: "metrics_view \<Rightarrow> bool" where
  "metrics_ok m \<longleftrightarrow>
     length (temp_trend m) = 11 \<and> length (cpu_trend m) = 11 \<and> length (avail_trend m) = 11 \<and>
     last (temp_trend m) = avg_temp m \<and> last (cpu_trend m) = avg_cpu m \<and>
     last (avail_trend m) = avg_avail m"

definition bar_chart_ok :: "bar_chart \<Rightarrow> bool" where
  "bar_chart_ok c \<longleftrightarrow>
     length (bar_x c) = length (bar_y c) \<and> length (bar_y c) \<le> 20 \<and>
     sorted_wrt (\<ge>) (bar_y c) \<and> bar_colors c = map (bar_color (chart_thresholds c)) (bar_y c)"

fun critical_list_ok :: "critical_list \<Rightarrow> bool" where
  "critical_list_ok NoCriticalIssues = True"
| "critical_list_ok (CriticalItems items) = (items \<noteq> [])"

fun warning_list_ok :: "warning_list \<Rightarrow> bool" where
  "warning_list_ok NoWarnings = True"
| "warning_list_ok (WarningItems items extra) =
     (items \<noteq> [] \<and> length items \<le> 5 \<and>
      (case extra of None \<Rightarrow> True | Some k \<Rightarrow> 0 < k \<and> length items = 5))"

fun schedule_ok :: "schedule_list \<Rightarrow> bool" where
  "schedule_ok NoMaintenanceScheduled = True"
| "schedule_ok (MaintenanceItems c w) = ((c \<noteq> [] \<or> w \<noteq> []) \<and> length c \<le> 3 \<and> length w \<le> 3)"

definition alerts_ok :: "alerts_view \<Rightarrow> bool" where
  "alerts_ok a \<longleftrightarrow>
     critical_list_ok (critical_items a) \<and> warning_list_ok (warning_items a) \<and> schedule_ok (schedule a)"

definition options_ok :: "jsval list \<times> jsval list \<Rightarrow> bool" where
  "options_ok opts \<longleftrightarrow>
     distinct (fst opts) \<and> distinct (snd opts) \<and> list_all truthy (fst opts) \<and> list_all truthy (snd opts)"

definition countdown_ok :: "string \<Rightarrow> bool" where
  "countdown_ok t \<longleftrightarrow> t = [] \<or> list_ex (\<lambda>c. t = countdown_string c) [0..180]"

definition view_ok :: "view \<Rightarrow> bool" where
  "view_ok v \<longleftrightarrow>
     pred_option status_ok (status_v v) \<and> pred_option map_ok (map_v v) \<and>
     pred_option metrics_ok (metrics_v v) \<and> pred_option bar_chart_ok (temp_chart_v v) \<and>
     pred_option (\<lambda>(title, c). bar_chart_ok c) (util_chart_v v) \<and> pred_option alerts_ok (alerts_v v) \<and>
     pred_option options_ok (filter_options v) \<and> countdown_ok (countdown_text v)"

section \<open>Each builder produces a well-formed payload\<close>

lemma status_ok_updateNetworkStatus  [simp]: "status_ok (updateNetworkStatus nodes)"
  by (simp add: status_ok_def updateNetworkStatus_def Let_def)

lemma map_ok_updateNetworkMap  [simp]: "map_ok (updateNetworkMap nodes)"
proof -
  have "marker_color s \<in> {''red'', ''orange'', ''green'', ''gray''}" for s
    by (cases s) simp_all
  then show ?thesis by (simp add: map_ok_def updateNetworkMap_def list_all_iff)
qed

lemma metrics_ok_updateKeyMetrics [simp]:
  "fst (updateKeyMetrics nodes g) = Some m \<Longrightarrow> metrics_ok m"
  using getRandomTrendData_frame
  by (auto simp: updateKeyMetrics_def metrics_ok_def split_def Let_def split: if_splits)

lemma bar_chart_ok_top [simp]:
  "bar_chart_ok (bar_chart_of th f (take 20 (sort_desc f nodes)))"
  using bar_chart_of_top [of th f nodes] sorted_desc_take [of 20 "map f nodes"]
  by (simp add: bar_chart_ok_def del: bar_color.simps)

lemma bar_chart_ok_temperature_chart  [simp]: "bar_chart_ok (temperature_chart v nodes)"
  using bar_chart_ok_top by (simp add: temperature_chart_def Let_def)

lemma bar_chart_ok_utilization_chart  [simp]: "bar_chart_ok (snd (utilization_chart m nodes))"
  using bar_chart_ok_top by (simp add: utilization_chart_def split_def Let_def)

lemma bar_chart_ok_updateCharts [simp]:
  "bar_chart_ok (fst (updateTemperatureChart v fs s))"
  "bar_chart_ok (snd (fst (updateUtilizationChart m fs s)))"
  by (simp_all add: updateTemperatureChart_def updateUtilizationChart_def split_def Let_def)

lemma schedule_lengths:
  "length (fst (schedule_critical ns g)) = length ns \<and> length (fst (schedule_warning ns g)) = length ns"
  by (induction ns arbitrary: g) (simp_all add: split_def Let_def)

lemma alerts_ok_updateMaintenanceAlerts  [simp]: "alerts_ok (fst (updateMaintenanceAlerts nodes g))"
proof -
  have c: "critical_list_ok (critical_alerts nodes)"
    by (simp add: critical_alerts_def Let_def)
  have w: "warning_list_ok (warning_alerts nodes)"
    by (simp add: warning_alerts_def Let_def)
  have s: "schedule_ok (fst (generateMaintenanceSchedule nodes g))"
  proof (cases "filter (\<lambda>node. status node = Critical) nodes = [] \<and> filter (\<lambda>node. status node = Warning) nodes = []")
    case True
    then show ?thesis by (simp add: generateMaintenanceSchedule_def)
  next
    case False
    let ?c = "fst (schedule_critical (take 3 (filter (\<lambda>node. status node = Critical) nodes)) g)"
    let ?w = "fst (schedule_warning (take 3 (filter (\<lambda>node. status node = Warning) nodes))
                (snd (schedule_critical (take 3 (filter (\<lambda>node. status node = Critical) nodes)) g)))"
    have "length ?c = min 3 (length (filter (\<lambda>node. status node = Critical) nodes))"
         "length ?w = min 3 (length (filter (\<lambda>node. status node = Warning) nodes))"
      using schedule_lengths by simp_all
    with False have "(?c \<noteq> [] \<or> ?w \<noteq> []) \<and> length ?c \<le> 3 \<and> length ?w \<le> 3"
      by (auto simp: min_def)
    with False show ?thesis by (simp add: generateMaintenanceSchedule_def split_def Let_def)
  qed
  from c w s show ?thesis by (simp add: alerts_ok_def updateMaintenanceAlerts_def split_def Let_def)
qed

lemma options_ok_initializeFilters  [simp]: "options_ok (initializeFilters nodes)"
  by (simp add: options_ok_def initializeFilters_def list_all_iff)

lemma countdown_ok_string:
  "0 \<le> c \<Longrightarrow> c \<le> 180 \<Longrightarrow> countdown_ok (countdown_string c)"
  by (auto simp: countdown_ok_def list_ex_iff)


section \<open>Every operation of the page keeps the payloads well-formed\<close>

lemma view_ok_updateDashboard:
  "view_ok v \<Longrightarrow> view_ok (snd (updateDashboard c s v))"
  by (simp add: updateDashboard_def view_ok_def split_def Let_def split: option.split)

lemma view_ok_run_updateDashboard [simp]:
  "view_ok (page_view p) \<Longrightarrow> view_ok (page_view (run_updateDashboard p))"
  using view_ok_updateDashboard by (simp add: run_updateDashboard_def split_def Let_def)

lemma view_ok_updateCountdown [simp]:
  "view_ok (page_view p) \<Longrightarrow> 0 \<le> countdownTimer p \<Longrightarrow> countdownTimer p \<le> 180 \<Longrightarrow>
   view_ok (page_view (updateCountdown p))"
  by (simp add: updateCountdown_def view_ok_def countdown_ok_string)

lemma view_ok_startRefreshTimer [simp]:
  "view_ok (page_view p) \<Longrightarrow> view_ok (page_view (startRefreshTimer p))"
  by (simp add: startRefreshTimer_eq Let_def clearInterval_def refreshInterval_def split: option.split)

lemma view_ok_refresh_tick:
  "view_ok (page_view p) \<Longrightarrow> 1 \<le> countdownTimer p \<Longrightarrow> countdownTimer p \<le> 180 \<Longrightarrow>
   view_ok (page_view (refresh_tick p))"
  by (simp add: refresh_tick_def Let_def)

lemma view_ok_on_load:
  assumes "view_ok (page_view p)"
  shows "view_ok (page_view (on_load a b p))"
proof (cases "load_all a b")
  case (Inl err)
  with assms show ?thesis by (simp add: on_load_def)
next
  case (Inr r)
  obtain nodes perf where r: "r = (nodes, perf)" by (cases r)
  have "view_ok ((page_view p)\<lparr>filter_options := Some (initializeFilters nodes)\<rparr>)"
    using assms by (simp add: view_ok_def)
  with Inr r show ?thesis by (simp add: on_load_def Let_def)
qed

lemma view_ok_charts [simp]:
  "view_ok (page_view p) \<Longrightarrow> view_ok (page_view (run_temperature p))"
  "view_ok (page_view p) \<Longrightarrow> view_ok (page_view (run_utilization p))"
  by (simp_all add: run_temperature_def run_utilization_def updateTemperatureChart_def
      updateUtilizationChart_def view_ok_def split_def Let_def)


lemma view_ok_step:
  assumes inv: "page_inv p" and ok: "view_ok (page_view p)"
  shows "view_ok (page_view (page_step p e))"
proof (cases e)
  case (LoadComplete a b)
  with ok show ?thesis by (simp add: view_ok_on_load)
next
  case (TimerFires i)
  show ?thesis
  proof (cases "map_of (intervals p) i")
    case None
    with TimerFires ok show ?thesis by simp
  next
    case (Some cb)
    show ?thesis
    proof (cases cb)
      case RefreshTick
      with Some inv have "phase p = Running" by (simp add: refresh_in_running)
      with inv have "1 \<le> countdownTimer p" "countdownTimer p \<le> 180"
        by (simp_all add: page_inv_def refreshInterval_def)
      with TimerFires Some RefreshTick ok show ?thesis by (simp add: view_ok_refresh_tick)
    next
      case ClockTick
      with TimerFires Some ok show ?thesis by simp
    qed
  qed
next
  case ClickManualRefresh
  with ok show ?thesis by (simp add: manualRefresh_def)
qed (use ok in \<open>simp_all add: Let_def\<close>)

lemma updateDashboard_store [simp]:
  "nodesData (fst (updateDashboard c s v)) = nodesData s"
  "performanceData (fst (updateDashboard c s v)) = performanceData s"
  by (simp_all add: updateDashboard_def Let_def split_def)

lemma run_updateDashboard_store [simp]:
  "nodesData (dash (run_updateDashboard p)) = nodesData (dash p)"
  "performanceData (dash (run_updateDashboard p)) = performanceData (dash p)"
  by (simp_all add: run_updateDashboard_def split_def Let_def)

lemma run_callback_store [simp]:
  "nodesData (dash (run_callback cb p)) = nodesData (dash p)"
  "performanceData (dash (run_callback cb p)) = performanceData (dash p)"
  by (cases cb; simp add: refresh_tick_def Let_def)+

lemma page_step_store:
  "phase p \<noteq> Loading \<Longrightarrow>
   nodesData (dash (page_step p e)) = nodesData (dash p) \<and>
   performanceData (dash (page_step p e)) = performanceData (dash p)"
  by (cases e)
     (auto simp: manualRefresh_def run_temperature_def run_utilization_def Let_def split_def
        split: option.split)

lemma startRefreshTimer_dash [simp]: "dash (startRefreshTimer p) = dash p"
  by (simp add: startRefreshTimer_eq Let_def clearInterval_def split: option.split)

lemma on_load_store:
  "list_all (\<lambda>n. truthy (node_id n)) (nodesData (dash p)) \<Longrightarrow>
   list_all (\<lambda>r. truthy (perf_node_id r)) (performanceData (dash p)) \<Longrightarrow>
   list_all (\<lambda>n. truthy (node_id n)) (nodesData (dash (on_load a b p))) \<and>
   list_all (\<lambda>r. truthy (perf_node_id r)) (performanceData (dash (on_load a b p)))"
  by (auto simp: on_load_def load_all_def loadCSV_def list_all_iff Let_def split: sum.split)

text \<open>
  C34. Every page state reachable from startup displays well-formed payloads: the map's
  three arrays have one entry per node and only the four marker colours; each chart
  has at most 20 bars, sorted by value, with as many labels as values and each bar
  coloured by the chart's thresholds; each sparkline has 11 points ending at its card's
  value; the alert lists and schedule are non-empty when shown and within their
  limits (five warnings with a positive "+N more", three scheduled nodes per kind);
  the filter options are distinct and truthy; and the countdown text is empty or
  "Auto-refresh in M:SS" for a countdown between 0 and 180 seconds.
\<close>

theorem reachable_view_ok:
  assumes "reachable p"
  shows "view_ok (page_view p)"
  using assms
proof (induction rule: reachable.induct)
  case (start g t c)
  then show ?case
    by (simp add: init_page_def setInterval_def empty_view_def view_ok_def countdown_ok_def)
next
  case (step p e)
  then show ?case by (simp add: view_ok_step reachable_page_inv)
qed


text \<open>
  C38. The store never holds a row whose identifier is falsy. \<open>loadCSV\<close> drops such
  rows (\<open>filter(row => row.node_id)\<close>), and nothing else writes the store. In
  particular a node whose identifier the parser typed as the number 0 is never in the
  store, and neither are its performance rows.
\<close>

theorem reachable_store_ids:
  assumes "reachable p"
  shows "list_all (\<lambda>n. truthy (node_id n)) (nodesData (dash p)) \<and>
         list_all (\<lambda>r. truthy (perf_node_id r)) (performanceData (dash p)) \<and>
         JNum 0 \<notin> node_id ` set (nodesData (dash p))"
  using assms
proof -
  have ids: "list_all (\<lambda>n. truthy (node_id n)) (nodesData (dash p)) \<and>
             list_all (\<lambda>r. truthy (perf_node_id r)) (performanceData (dash p))"
    using assms
  proof (induction rule: reachable.induct)
    case (start g t c)
    then show ?case by (simp add: init_page_def setInterval_def)
  next
    case (step p e)
    show ?case
    proof (cases "phase p = Loading")
      case False
      with step.IH show ?thesis using page_step_store [OF False, of e] by simp
    next
      case True
      with step.IH on_load_store show ?thesis
        by (cases e) (simp_all add: manualRefresh_def run_temperature_def run_utilization_def Let_def
            split_def split: option.split)
    qed
  qed
  moreover have "JNum 0 \<notin> node_id ` set (nodesData (dash p))"
  proof
    assume "JNum 0 \<in> node_id ` set (nodesData (dash p))"
    then obtain n where "n \<in> set (nodesData (dash p))" and "node_id n = JNum 0" by auto
    with ids show False by (simp add: list_all_iff) (metis truthy.simps(4))
  qed
  ultimately show ?thesis by simp
qed

theorem reachable_view_ok_witness:
  "reachable (page_step (init_page \<lparr>draws = \<lambda>_. 1 / 2, rpos = 0\<rparr> 0 \<lparr>sel = \<lparr>selectedRegion = ''all'', selectedNodeType = ''all'', selectedStatus = ''all''\<rparr>,
        tempView = ''all'', utilMetric = ''cpu''\<rparr>) (LoadComplete (Inr [\<lparr>node_id = JStr ''n1'', node_name = JStr ''Hub'', node_type = JStr ''router'',
        region = JStr ''East'', latitude = 40, longitude = -74\<rparr>]) (Inr []))) \<and> view_ok (page_view (page_step (init_page \<lparr>draws = \<lambda>_. 1 / 2, rpos = 0\<rparr> 0 \<lparr>sel = \<lparr>selectedRegion = ''all'', selectedNodeType = ''all'', selectedStatus = ''all''\<rparr>,
        tempView = ''all'', utilMetric = ''cpu''\<rparr>) (LoadComplete (Inr [\<lparr>node_id = JStr ''n1'', node_name = JStr ''Hub'', node_type = JStr ''router'',
        region = JStr ''East'', latitude = 40, longitude = -74\<rparr>]) (Inr []))))"
proof -
  have r: "reachable (page_step (init_page \<lparr>draws = \<lambda>_. 1 / 2, rpos = 0\<rparr> 0 \<lparr>sel = \<lparr>selectedRegion = ''all'', selectedNodeType = ''all'', selectedStatus = ''all''\<rparr>,
        tempView = ''all'', utilMetric = ''cpu''\<rparr>) (LoadComplete (Inr [\<lparr>node_id = JStr ''n1'', node_name = JStr ''Hub'', node_type = JStr ''router'',
        region = JStr ''East'', latitude = 40, longitude = -74\<rparr>]) (Inr [])))"
    by (rule reachable.step [OF reachable.start])
  from reachable_view_ok [OF r] r show ?thesis by simp
qed

theorem reachable_store_ids_witness:
  "reachable (page_step (init_page \<lparr>draws = \<lambda>_. 1 / 2, rpos = 0\<rparr> 0 \<lparr>sel = \<lparr>selectedRegion = ''all'', selectedNodeType = ''all'', selectedStatus = ''all''\<rparr>,
        tempView = ''all'', utilMetric = ''cpu''\<rparr>) (LoadComplete (Inr [\<lparr>node_id = JNum 0, node_name = JStr ''Core'', node_type = JStr ''router'',
        region = JStr ''East'', latitude = 40, longitude = -74\<rparr>, \<lparr>node_id = JStr ''n1'', node_name = JStr ''Hub'', node_type = JStr ''router'',
        region = JStr ''East'', latitude = 41, longitude = -73\<rparr>]) (Inr []))) \<and> JNum 0 \<notin> node_id ` set (nodesData (dash (page_step (init_page \<lparr>draws = \<lambda>_. 1 / 2, rpos = 0\<rparr> 0 \<lparr>sel = \<lparr>selectedRegion = ''all'', selectedNodeType = ''all'', selectedStatus = ''all''\<rparr>,
        tempView = ''all'', utilMetric = ''cpu''\<rparr>) (LoadComplete (Inr [\<lparr>node_id = JNum 0, node_name = JStr ''Core'', node_type = JStr ''router'',
        region = JStr ''East'', latitude = 40, longitude = -74\<rparr>, \<lparr>node_id = JStr ''n1'', node_name = JStr ''Hub'', node_type = JStr ''router'',
        region = JStr ''East'', latitude = 41, longitude = -73\<rparr>]) (Inr [])))))"
proof -
  have r: "reachable (page_step (init_page \<lparr>draws = \<lambda>_. 1 / 2, rpos = 0\<rparr> 0 \<lparr>sel = \<lparr>selectedRegion = ''all'', selectedNodeType = ''all'', selectedStatus = ''all''\<rparr>,
        tempView = ''all'', utilMetric = ''cpu''\<rparr>) (LoadComplete (Inr [\<lparr>node_id = JNum 0, node_name = JStr ''Core'', node_type = JStr ''router'',
        region = JStr ''East'', latitude = 40, longitude = -74\<rparr>, \<lparr>node_id = JStr ''n1'', node_name = JStr ''Hub'', node_type = JStr ''router'',
        region = JStr ''East'', latitude = 41, longitude = -73\<rparr>]) (Inr [])))"
    by (rule reachable.step [OF reachable.start])
  from reachable_store_ids [OF r] r show ?thesis by simp
qed

end
