(* ===== verification/Spec2Isabelle.thy ===== *)
theory Spec2Isabelle
  imports Page_Invariants
begin

text \<open>
  \<^bold>\<open>A verified model of the NOC live-status dashboard (src/noc-dashboard.js).\<close>

  \<^bold>\<open>The program.\<close> One browser script. At \<open>DOMContentLoaded\<close> it starts a clock
  display, loads two CSV files (node metadata and historical performance samples)
  with PapaParse, and, when both loads succeed, fills the filter selectors, draws the
  dashboard once and starts a 180-second refresh countdown. Every refresh
  (\<open>updateDashboard\<close>) filters the nodes (\<open>getFilteredData\<close>), simulates a
  "current" snapshot by perturbing a rotating window of historical rows
  (\<open>generateCurrentPerformanceData\<close>), classifies each node
  (\<open>getNodeStatus\<close>) and hands pure data to six renderers: status counters, a map,
  key metrics with sparklines, a ranked temperature chart, a ranked utilization chart,
  maintenance lists and a synthetic maintenance schedule. The refresh runs when the
  countdown reaches zero, on the manual-refresh button and on the apply-filters
  button. The chart selectors redraw their own chart.

  \<^bold>\<open>Theories, leaves first.\<close>
  \<^item> \<open>Prelude\<close>: the JavaScript semantics the code relies on. \<open>jsval\<close> is a CSV
    cell after dynamic typing, with \<open>truthy\<close>. \<open>jsnum\<close> is a number that may be
    NaN or infinite, with \<open>js_div\<close>, \<open>js_mul\<close>, \<open>js_rem\<close> and \<open>js_trunc\<close>.
    \<open>js_slice\<close> models \<open>Array.prototype.slice\<close> with its clamping. \<open>js_set_order\<close>
    models the iteration order of \<open>[...new Set(xs)]\<close>. \<open>rng\<close> and
    \<open>math_random\<close> make \<open>Math.random\<close> an explicit source of draws: \<open>draws n\<close>
    is the n-th call's value. Lemmas on slices, the remainder, the Set order
    (equivalent to \<open>rev (remdups (rev xs))\<close>) and the random source.
  \<^item> \<open>Formatting\<close>: the decimal text the page writes. \<open>nat_to_string\<close> and
    \<open>int_to_string\<close> are \<open>Number.prototype.toString\<close> of an integer.
    \<open>js_toFixed\<close> (with \<open>toFixed_digits\<close>) is \<open>Number.prototype.toFixed\<close> per
    ECMA-262: the sign is split off, the nearest integer to \<open>|x| * 10^f\<close> is taken
    (the larger on a tie), and a point is inserted. \<open>digits_val\<close> and
    \<open>decimal_val\<close> are reference decoders, and \<open>fixed_point_text f\<close> is the
    layout of a \<open>toFixed(f)\<close> text (optional sign, integer digits, a point and
    exactly \<open>f\<close> digits). \<open>js_toFixed_correct\<close> shows that the text has that
    layout and decodes to the rounded value, within half a unit of the last digit.
    \<open>js_to_string\<close> is \<open>ToString\<close> of a parsed cell (exact for strings, booleans,
    null, undefined and integral numbers), and \<open>quoted\<close> and \<open>indent\<close> are the
    pieces of the HTML templates.
  \<^item> \<open>Data\<close>: the CSV rows as the records \<open>node_record\<close> and
    \<open>perf_sample\<close>; the globals of lines 1--16 as \<open>dash_state\<close> (store, the
    cursor \<open>simulatedDataIndex\<close>, random source, clock); the threshold tables;
    \<open>loadCSV\<close> and the \<open>Promise.all\<close> join \<open>load_all\<close>.
  \<^item> \<open>Classifier\<close>: \<open>getNodeStatus\<close> with \<open>critical_cond\<close> and
    \<open>warning_cond\<close>, in the source's order (C1--C3).
  \<^item> \<open>Simulator\<close>: \<open>addVariation\<close>; \<open>vary_row\<close> (lines 212--220) and
    \<open>inject_issue\<close> (222--241) for one row; \<open>gen_rows\<close>, the \<open>forEach\<close> over the
    distinct ids; \<open>sim_window\<close> (lines 198--201); and \<open>generateCurrentPerformanceData\<close>.
    \<open>perturbation_ok\<close> is the contract of one row (spec 4.1), including the clamp
    of a CPU spike to 100. C14 proves it as a
    refinement: one sample per distinct id of the window, in first-occurrence order,
    each within the contract. C15 bounds the window. C16 shows the fractional window
    start. C19 counts the random draws.
  \<^item> \<open>Filter_Engine\<close>: \<open>enriched_node\<close> extends \<open>node_record\<close>, like the
    source's \<open>{...node, status, performance}\<close>. \<open>enrich_node\<close> and
    \<open>getFilteredData\<close> with its three selectors. C4: a node is unknown exactly when
    it has no snapshot. C23: the full input/output relation, with the store unchanged.
  \<^item> \<open>Views\<close>: the payload of every renderer. \<open>updateNetworkStatus\<close> (C5: each
    counter counts its own status; C6: each percentage is its own status's share, NaN
    when empty; C7: they sum to 100),
    \<open>updateNetworkMap\<close>, \<open>updateKeyMetrics\<close> (C21: the means of spec 4.3) and
    \<open>getRandomTrendData\<close> (C20; C32: equal to the closed form \<open>trend_ref\<close>),
    whose \<open>for\<close> loop is \<open>trend_for\<close>, \<open>temperature_chart\<close> and
    \<open>utilization_chart\<close> with their stable descending sort (C8, C9) and the
    temperature colour rule (C33), \<open>critical_alerts\<close>/\<open>warning_alerts\<close> (C10, C22, C36), and
    \<open>generateMaintenanceSchedule\<close> (C25).
    The card texts of \<open>updateKeyMetrics\<close> have one, one and two decimals and decode
    to the rounded averages (C40). The
    issue texts (\<open>critical_issue_text\<close>, \<open>warning_issue_text\<close>) and the counter
    texts (\<open>status_texts\<close>) print their numbers the same way.
    The HTML templates (\<open>alert_badges_html\<close>, \<open>critical_item_html\<close>,
    \<open>warning_item_html\<close>, the map's \<open>map_hover_text\<close>) are modelled character
    for character, line breaks and indentation included.
    C18 shows that a node name is inserted into \<open>innerHTML\<close> without escaping.
  \<^item> \<open>Dashboard\<close>: \<open>updateDashboard\<close> (C17); the countdown text
    \<open>countdown_string\<close> (C24, a round trip through a reference decoder); the
    browser's interval registry (\<open>setInterval\<close>/\<open>clearInterval\<close>, ids from 1)
    and the scheduler \<open>startRefreshTimer\<close>, \<open>refresh_tick\<close>, \<open>manualRefresh\<close>
    (C11, C26, C27); the startup \<open>init_page\<close>/\<open>on_load\<close>; and \<open>page_step\<close>, the
    page's reaction to each browser event. \<open>reachable\<close> is the inductive set of
    page states reachable from startup. \<open>page_inv\<close> holds in all of them, by rule
    induction (\<open>reachable_page_inv\<close>), which gives C12 (countdown in [1, 180], one
    refresh interval) and C28 (a failed load shows nothing). C13 is the scheduler's
    liveness: from any reachable running state the refresh interval, fired
    \<open>countdownTimer\<close> times, performs exactly one refresh cycle, on its last firing.
    C39 orders a manual refresh against the tick: it restarts the 180-second period.
    C37 is an interleaving: filter selections take effect when a refresh or chart
    reads them, not on "Apply".
    \<open>initializeFilters\<close> offers each truthy region and type once (C29).
  \<^item> \<open>Page_Invariants\<close>: the shape of every payload the page displays, one
    predicate per payload (\<open>map_ok\<close>, \<open>bar_chart_ok\<close>, \<open>metrics_ok\<close>,
    \<open>alerts_ok\<close>, \<open>options_ok\<close>, \<open>countdown_ok\<close>, gathered in \<open>view_ok\<close>).
    Every builder produces a well-formed payload, and every event keeps the page's view
    well-formed. C34 concludes that every reachable page displays well-formed payloads:
    the types the Plotly and DOM calls rely on. C38 is an invariant of the store: every
    stored row has a truthy identifier.
  \<^item> This theory: the properties that span the filter options (\<open>Dashboard\<close>) and
    the filter engine (\<open>Filter_Engine\<close>). A string region option selects exactly
    its nodes (C30). A region the parser typed as a number is offered but can never be
    selected (C31). C35 composes simulator, filter, classifier and views: within one
    refresh a node can be counted healthy and charted as critical.

  \<^bold>\<open>How state and effects are modelled.\<close> Every global the code mutates is a
  record field, and every function that mutates one returns the updated record.
  \<open>Math.random\<close> is state too. Each function that calls it takes the random source
  and returns it advanced by exactly the calls it made, in the source's order. So
  "three simulator runs per refresh" (C17) and "six or eight draws per sample" (C19)
  are statements about the model. Theorems about random values assume only
  \<open>rng_ok\<close>: every draw lies in [0, 1). Plain numeric fields are \<open>real\<close>, so
  arithmetic is exact and IEEE rounding is not modelled. In particular \<open>len / 3\<close> in
  the window start is the exact rational. Every loop of the source is over a list (a
  \<open>forEach\<close>, \<open>map\<close> or \<open>filter\<close>, structural recursion) or the counting
  loop of \<open>getRandomTrendData\<close>. That loop is a \<open>function\<close> whose counter
  grows, with termination by the measure \<open>10 - i\<close>. It is proved equal to the
  structurally recursive \<open>trend_loop\<close>, which the other proofs use. No fuel and no
  partial function is needed, and every definition evaluates by \<open>simp\<close>.

  \<^bold>\<open>Not modelled.\<close> CSV parsing and \<open>Date\<close> parsing (PapaParse and the
  \<open>Date\<close> constructor). Rows arrive already typed and timestamps as time values.
  The Plotly layouts are constant configuration handed to the library, and
  \<open>updateTrendChart\<close> only calls it. \<open>ToString\<close> of a cell the parser typed as a
  non-integral number is the shortest decimal that round-trips a double, which a
  real-valued model cannot give, so \<open>js_to_string\<close> is \<open>None\<close> there. For the
  same reason the progress-bar widths (\<open>percent + '%'\<close>) are not modelled.
  \<open>toFixed\<close> at magnitudes of \<open>10^21\<close> and above falls back to exponential
  notation and is \<open>None\<close>. Locale date and time strings are not modelled: the
  schedule items' times and the wall clock of \<open>updateCurrentTime\<close>, whose interval
  is modelled as a callback that changes no modelled state. Non-numeric or missing
  metric cells are not modelled, so the source's \<open>|| 0\<close> is the identity here.

  \<^bold>\<open>What modelling showed\<close> (see the findings of the manifest).
  \<^item> Each refresh runs the simulator three times, because both charts re-call
  \<open>getFilteredData\<close>. The charts show different snapshots from the counters, and
  the cursor advances by 150, not 50 (C17). So one refresh can count a node
  as healthy and chart it as critical (C35).
  \<^item> The window start uses float division: with 100 rows and cursor 50 it starts at
  row 16, where the spec's integer formula gives 17 (C16).
  \<^item> An empty filtered set gives NaN percentages; the spec says 0 (C6).
  \<^item> Unknown-status nodes are left out of the status counts (C5).
  \<^item> After a manual refresh the countdown text is stale until the next tick (C27).
  \<^item> Pending filter selections are applied without "Apply", by the next tick or
  by a chart selector, and the chart then disagrees with the counters (C37).
  \<^item> A node whose identifier is 0 is dropped at load time, with its performance
  rows, because the empty-row filter tests the identifier's truthiness (C38).
  \<^item> Node names and types from the CSV go into \<open>innerHTML\<close> unescaped, so a
  name containing markup is rendered as HTML (C18).
  \<^item> A tick shows 0:00 and then resets to 180 without redrawing the text (C26).
  \<^item> A numeric region (CSV dynamic typing) is offered as a filter option that
  selects none of its nodes, because the filter compares with \<open>===\<close> (C31).

  \<^bold>\<open>Open.\<close> Chart-selector events interleaved with ticks (which snapshot each
  chart shows after a sequence of events) are covered only by C35 and C37.
\<close>

text \<open>
  C30. Filter options and the filter engine agree on string values: choosing a region
  option (other than the literal \<open>all\<close>), with the other selectors at
  \<open>all\<close>, yields exactly the nodes of that region, in store order, and never an
  empty set.
\<close>

theorem region_option_selects:
  assumes "JStr str \<in> set (fst (initializeFilters (nodesData s)))" and "str \<noteq> ''all''"
    and "fs = \<lparr>selectedRegion = str, selectedNodeType = ''all'', selectedStatus = ''all''\<rparr>"
  shows "map node_id (fst (fst (getFilteredData fs s))) =
           map node_id (filter (\<lambda>n. region n = JStr str) (nodesData s)) \<and>
         fst (fst (getFilteredData fs s)) \<noteq> []"
proof -
  have ids: "map node_id (fst (fst (getFilteredData fs s))) =
           map node_id (filter (\<lambda>n. region n = JStr str) (nodesData s))"
    using assms(2,3) getFilteredData_regions [of fs s] by (simp add: sel_ok_def)
  from assms(1) have "\<exists>n \<in> set (nodesData s). region n = JStr str"
    by (auto simp: initializeFilters_def)
  then have "filter (\<lambda>n. region n = JStr str) (nodesData s) \<noteq> []"
    by (simp add: filter_empty_conv)
  with ids have "fst (fst (getFilteredData fs s)) \<noteq> []"
    by (metis Nil_is_map_conv)
  with ids show ?thesis by simp
qed

text \<open>
  C31. A region that the CSV parser typed as a number (\<open>dynamicTyping\<close>) is offered
  as an option, but no string the region selector can hold matches it under
  \<open>===\<close>: whatever region is selected, none of that region's nodes is shown.
\<close>

theorem numeric_region_option_unselectable:
  assumes "n \<in> set (nodesData s)" and "region n = JNum r" and "r \<noteq> 0"
  shows "JNum r \<in> set (fst (initializeFilters (nodesData s))) \<and>
         (\<forall>fs. selectedRegion fs \<noteq> ''all'' \<longrightarrow> (\<forall>e \<in> set (fst (fst (getFilteredData fs s))). region e \<noteq> JNum r))"
proof
  show "JNum r \<in> set (fst (initializeFilters (nodesData s)))"
    using assms by (force simp: initializeFilters_def)
  show "\<forall>fs. selectedRegion fs \<noteq> ''all'' \<longrightarrow> (\<forall>e \<in> set (fst (fst (getFilteredData fs s))). region e \<noteq> JNum r)"
    by (auto simp: getFilteredData_eq sel_ok_def)
qed

text \<open>
  C35. One refresh cycle can show the same node in two states: the status counters
  come from the first simulator run and the temperature chart from a second run with
  later random draws. Here one node at 35 degrees is counted healthy, while the chart of
  the same cycle draws it as a critical red bar at 53 degrees (a temperature spike injected
  only in the second run).
\<close>

theorem refresh_views_disagree:
  "\<exists>c s v. length (nodesData s) = 1 \<and>
     healthy_count (the (status_v (snd (updateDashboard c s v)))) = 1 \<and>
     critical_count (the (status_v (snd (updateDashboard c s v)))) = 0 \<and>
     bar_colors (the (temp_chart_v (snd (updateDashboard c s v)))) = [''#dc3545'']"
proof -
  define N where "N = \<lparr>node_id = JStr ''n1'', node_name = JStr ''Hub'', node_type = JStr ''router'',
        region = JStr ''East'', latitude = 40, longitude = -74\<rparr>"
  define R where "R = \<lparr>perf_node_id = JStr ''n1'', timestamp = 0, temperature_celsius = 35,
        cpu_utilization_percent = 40, memory_utilization_percent = 50,
        throughput_utilization_percent = 50, download_bandwidth_mbps = 100,
        upload_bandwidth_mbps = 50, availability_percent = 99.5\<rparr>"
  define D where "D = (\<lambda>n::nat. if n = 41 \<or> n = 42 then 0 else if n = 43 then 9 / 10 else 1 / (2::real))"
  define S where "S = \<lparr>nodesData = [N], performanceData = [R], simulatedDataIndex = 0,
      random_src = \<lparr>draws = D, rpos = 0\<rparr>, clock = 0\<rparr>"
  define C where "C = \<lparr>sel = \<lparr>selectedRegion = ''all'', selectedNodeType = ''all'', selectedStatus = ''all''\<rparr>,
        tempView = ''all'', utilMetric = ''cpu''\<rparr>"
  have g1: "generateCurrentPerformanceData S = ([R], S\<lparr>simulatedDataIndex := 50, random_src := \<lparr>draws = D, rpos = 6\<rparr>\<rparr>)"
    by (simp add: S_def R_def D_def generateCurrentPerformanceData_eq sim_window_def base_index_def dash_defs
        vary_row_explicit inject_issue_def Let_def split_def)
  have g2: "fst (generateCurrentPerformanceData (S\<lparr>simulatedDataIndex := 50, random_src := \<lparr>draws = D, rpos = 36\<rparr>\<rparr>)) =
            [R\<lparr>temperature_celsius := 53\<rparr>]"
    by (simp add: S_def R_def D_def generateCurrentPerformanceData_eq sim_window_def base_index_def dash_defs
        vary_row_explicit inject_issue_def Let_def split_def)
  have n1: "fst (fst (getFilteredData (sel C) S)) = [enrich_node [R] N]"
    using g1 by (simp add: getFilteredData_eq C_def S_def sel_ok_def)
  have h: "status (enrich_node [R] N) = Healthy"
    by (simp add: N_def R_def critical_cond_def warning_cond_def threshold_defs)
  have s2: "(snd (getFilteredData (sel C) S))\<lparr>random_src :=
          snd (updateKeyMetrics (fst (fst (getFilteredData (sel C) S))) (random_src (snd (getFilteredData (sel C) S))))\<rparr> =
        S\<lparr>simulatedDataIndex := 50, random_src := \<lparr>draws = D, rpos = 36\<rparr>\<rparr>"
    using g1 n1 by (simp add: updateKeyMetrics_rng getFilteredData_eq)
  have n2: "fst (fst (getFilteredData (sel C) (S\<lparr>simulatedDataIndex := 50, random_src := \<lparr>draws = D, rpos = 36\<rparr>\<rparr>))) =
            [enrich_node [R\<lparr>temperature_celsius := 53\<rparr>] N]"
    using g2 by (simp add: getFilteredData_eq C_def S_def sel_ok_def)
  have red: "bar_colors (temperature_chart ''all'' [enrich_node [R\<lparr>temperature_celsius := 53\<rparr>] N]) = [''#dc3545'']"
    by (simp add: temperature_chart_def temp_view_filter_def sort_desc_def bar_chart_of_def perf_metric_def
        N_def R_def threshold_defs Let_def)
  have "length (nodesData S) = 1 \<and>
     healthy_count (the (status_v (snd (updateDashboard C S empty_view)))) = 1 \<and>
     critical_count (the (status_v (snd (updateDashboard C S empty_view)))) = 0 \<and>
     bar_colors (the (temp_chart_v (snd (updateDashboard C S empty_view)))) = [''#dc3545'']"
    using updateDashboard_status_temp [of C S empty_view] n1 h s2 n2 red
    by (simp add: updateNetworkStatus_def count_status_def Let_def, simp add: C_def S_def)
  then show ?thesis by blast
qed

theorem region_option_selects_witness:
  "JStr ''East'' \<in> set (fst (initializeFilters (nodesData \<lparr>nodesData = [\<lparr>node_id = JStr ''n1'', node_name = JStr ''Hub'', node_type = JStr ''router'',
        region = JStr ''East'', latitude = 40, longitude = -74\<rparr>,
      \<lparr>node_id = JStr ''n2'', node_name = JStr ''Relay'', node_type = JStr ''switch'',
        region = JNum 5, latitude = 41, longitude = -73\<rparr>],
    performanceData = [], simulatedDataIndex = 0, random_src = \<lparr>draws = \<lambda>_. 1 / 2, rpos = 0\<rparr>, clock = 0\<rparr>))) \<and>
   fst (fst (getFilteredData \<lparr>selectedRegion = ''East'', selectedNodeType = ''all'', selectedStatus = ''all''\<rparr> \<lparr>nodesData = [\<lparr>node_id = JStr ''n1'', node_name = JStr ''Hub'', node_type = JStr ''router'',
        region = JStr ''East'', latitude = 40, longitude = -74\<rparr>,
      \<lparr>node_id = JStr ''n2'', node_name = JStr ''Relay'', node_type = JStr ''switch'',
        region = JNum 5, latitude = 41, longitude = -73\<rparr>],
    performanceData = [], simulatedDataIndex = 0, random_src = \<lparr>draws = \<lambda>_. 1 / 2, rpos = 0\<rparr>, clock = 0\<rparr>)) \<noteq> []"
proof -
  have o: "JStr ''East'' \<in> set (fst (initializeFilters (nodesData \<lparr>nodesData = [\<lparr>node_id = JStr ''n1'', node_name = JStr ''Hub'', node_type = JStr ''router'',
        region = JStr ''East'', latitude = 40, longitude = -74\<rparr>,
      \<lparr>node_id = JStr ''n2'', node_name = JStr ''Relay'', node_type = JStr ''switch'',
        region = JNum 5, latitude = 41, longitude = -73\<rparr>],
    performanceData = [], simulatedDataIndex = 0, random_src = \<lparr>draws = \<lambda>_. 1 / 2, rpos = 0\<rparr>, clock = 0\<rparr>)))"
    by (simp add: initializeFilters_def js_set_order_def set_add_def)
  from region_option_selects [OF o _ refl] o show ?thesis by simp
qed

theorem numeric_region_option_unselectable_witness:
  "JNum 5 \<in> set (fst (initializeFilters (nodesData \<lparr>nodesData = [\<lparr>node_id = JStr ''n1'', node_name = JStr ''Hub'', node_type = JStr ''router'',
        region = JStr ''East'', latitude = 40, longitude = -74\<rparr>,
      \<lparr>node_id = JStr ''n2'', node_name = JStr ''Relay'', node_type = JStr ''switch'',
        region = JNum 5, latitude = 41, longitude = -73\<rparr>],
    performanceData = [], simulatedDataIndex = 0, random_src = \<lparr>draws = \<lambda>_. 1 / 2, rpos = 0\<rparr>, clock = 0\<rparr>))) \<and>
   filter (\<lambda>e. region e = JNum 5) (fst (fst (getFilteredData \<lparr>selectedRegion = ''5'', selectedNodeType = ''all'', selectedStatus = ''all''\<rparr> \<lparr>nodesData = [\<lparr>node_id = JStr ''n1'', node_name = JStr ''Hub'', node_type = JStr ''router'',
        region = JStr ''East'', latitude = 40, longitude = -74\<rparr>,
      \<lparr>node_id = JStr ''n2'', node_name = JStr ''Relay'', node_type = JStr ''switch'',
        region = JNum 5, latitude = 41, longitude = -73\<rparr>],
    performanceData = [], simulatedDataIndex = 0, random_src = \<lparr>draws = \<lambda>_. 1 / 2, rpos = 0\<rparr>, clock = 0\<rparr>))) = []"
proof -
  have n: "\<lparr>node_id = JStr ''n2'', node_name = JStr ''Relay'', node_type = JStr ''switch'',
        region = JNum 5, latitude = 41, longitude = -73\<rparr> \<in> set (nodesData \<lparr>nodesData = [\<lparr>node_id = JStr ''n1'', node_name = JStr ''Hub'', node_type = JStr ''router'',
        region = JStr ''East'', latitude = 40, longitude = -74\<rparr>,
      \<lparr>node_id = JStr ''n2'', node_name = JStr ''Relay'', node_type = JStr ''switch'',
        region = JNum 5, latitude = 41, longitude = -73\<rparr>],
    performanceData = [], simulatedDataIndex = 0, random_src = \<lparr>draws = \<lambda>_. 1 / 2, rpos = 0\<rparr>, clock = 0\<rparr>)" by simp
  have h: "JNum 5 \<in> set (fst (initializeFilters (nodesData \<lparr>nodesData = [\<lparr>node_id = JStr ''n1'', node_name = JStr ''Hub'', node_type = JStr ''router'',
        region = JStr ''East'', latitude = 40, longitude = -74\<rparr>,
      \<lparr>node_id = JStr ''n2'', node_name = JStr ''Relay'', node_type = JStr ''switch'',
        region = JNum 5, latitude = 41, longitude = -73\<rparr>],
    performanceData = [], simulatedDataIndex = 0, random_src = \<lparr>draws = \<lambda>_. 1 / 2, rpos = 0\<rparr>, clock = 0\<rparr>))) \<and>
      (\<forall>fs. selectedRegion fs \<noteq> ''all'' \<longrightarrow> (\<forall>e \<in> set (fst (fst (getFilteredData fs \<lparr>nodesData = [\<lparr>node_id = JStr ''n1'', node_name = JStr ''Hub'', node_type = JStr ''router'',
        region = JStr ''East'', latitude = 40, longitude = -74\<rparr>,
      \<lparr>node_id = JStr ''n2'', node_name = JStr ''Relay'', node_type = JStr ''switch'',
        region = JNum 5, latitude = 41, longitude = -73\<rparr>],
    performanceData = [], simulatedDataIndex = 0, random_src = \<lparr>draws = \<lambda>_. 1 / 2, rpos = 0\<rparr>, clock = 0\<rparr>))). region e \<noteq> JNum 5))"
    by (rule numeric_region_option_unselectable [OF n]) simp_all
  have c: "selectedRegion \<lparr>selectedRegion = ''5'', selectedNodeType = ''all'', selectedStatus = ''all''\<rparr> \<noteq> ''all''" by simp
  from h c show ?thesis by (simp only: filter_empty_conv) blast
qed

end
